(* ===== verification/Prelude.thy ===== *)
theory Prelude
  imports Main
begin

text \<open>
  Shared vocabulary of the development: the Python exceptions the modelled code can raise,
  Python's string operations (\<open>in\<close>, \<open>find\<close>, \<open>rstrip\<close>, \<open>replace\<close>, \<open>lower\<close>,
  \<open>split\<close>) on \<open>string\<close> (a \<open>char list\<close>, one \<open>char\<close> per code point, the
  code points of the modelled inputs being below 256), and Python dicts as association
  lists that keep insertion order. Every operation is an executable \<^theory_text>\<open>fun\<close> or
  \<^theory_text>\<open>definition\<close>; the lemmas below are the ones the component theories share, collected
  in \<open>py_simps\<close>.
\<close>

named_theorems py_simps "evaluation and characterisation rules of the Python helpers"

subsection \<open>Python exceptions\<close>

text \<open>
  The exceptions raised on the modelled paths. \<open>KeyError\<close> and \<open>AttributeError\<close>
  carry the key or attribute name, as Python's messages do.
\<close>

datatype py_error =
    KeyError string
  | AttributeError string
  | TypeError string
  | ValueError string
  | JSONDecodeError
  | ConnectionError
  | MissingSchema
  | InvalidURL
  | MaxRetryError string

type_synonym 'a py_result = "py_error + 'a"

subsection \<open>Strings\<close>

fun starts_with :: "string \<Rightarrow> string \<Rightarrow> bool" where
  "starts_with [] s = True"
| "starts_with (p # ps) [] = False"
| "starts_with (p # ps) (c # cs) = (p = c \<and> starts_with ps cs)"

text \<open>Python's \<open>needle in hay\<close> on strings: substring test.\<close>

fun py_in :: "string \<Rightarrow> string \<Rightarrow> bool" where
  "py_in n [] = (n = [])"
| "py_in n (c # cs) = (starts_with n (c # cs) \<or> py_in n cs)"

text \<open>\<open>s.find(c)\<close> for a one-character needle: the first index, \<open>None\<close> for \<open>-1\<close>.\<close>

fun find_char :: "char \<Rightarrow> string \<Rightarrow> nat option" where
  "find_char c [] = None"
| "find_char c (x # xs) = (if x = c then Some 0 else map_option Suc (find_char c xs))"

text \<open>\<open>s.rfind(c)\<close>: the last index.\<close>

definition rfind_char :: "char \<Rightarrow> string \<Rightarrow> nat option" where
  "rfind_char c s =
     (case find_char c (rev s) of None \<Rightarrow> None | Some i \<Rightarrow> Some (length s - Suc i))"

text \<open>\<open>s.rstrip(chars)\<close> and \<open>s.lstrip(chars)\<close>, the characters given as a predicate.\<close>

definition py_rstrip :: "(char \<Rightarrow> bool) \<Rightarrow> string \<Rightarrow> string" where
  "py_rstrip P s = rev (dropWhile P (rev s))"

definition py_lstrip :: "(char \<Rightarrow> bool) \<Rightarrow> string \<Rightarrow> string" where
  "py_lstrip P s = dropWhile P s"

text \<open>
  \<open>s.replace(old, new)\<close>: non-overlapping occurrences, left to right; an empty
  \<open>old\<close> inserts \<open>new\<close> before every character and at the end, as CPython does.
\<close>

function py_replace :: "string \<Rightarrow> string \<Rightarrow> string \<Rightarrow> string" where
  "py_replace old new [] = (if old = [] then new else [])"
| "py_replace old new (c # cs) =
     (if old = [] then new @ c # py_replace old new cs
      else if starts_with old (c # cs) then new @ py_replace old new (drop (length old) (c # cs))
      else c # py_replace old new cs)"
  by pat_completeness auto
termination
  by (relation "measure (\<lambda>(old, new, s). length s)") auto

text \<open>\<open>ord(c)\<close>.\<close>

definition ord :: "char \<Rightarrow> nat" where
  "ord c = of_char c"

text \<open>\<open>c.lower()\<close> on one character: ASCII capitals only (the modelled callers lower
  scheme names, which are ASCII by construction).\<close>

definition ascii_lower :: "char \<Rightarrow> char" where
  "ascii_lower c = (if 65 \<le> ord c \<and> ord c \<le> 90 then char_of (ord c + 32) else c)"

definition is_ascii_alpha :: "char \<Rightarrow> bool" where
  "is_ascii_alpha c \<longleftrightarrow> (65 \<le> ord c \<and> ord c \<le> 90) \<or> (97 \<le> ord c \<and> ord c \<le> 122)"

definition is_ascii_digit :: "char \<Rightarrow> bool" where
  "is_ascii_digit c \<longleftrightarrow> 48 \<le> ord c \<and> ord c \<le> 57"

text \<open>\<open>s.split(c, 1)\<close> when \<open>c in s\<close>: the part before the first \<open>c\<close> and the part after.\<close>

definition split_first :: "char \<Rightarrow> string \<Rightarrow> string \<times> string" where
  "split_first c s = (takeWhile (\<lambda>x. x \<noteq> c) s, drop 1 (dropWhile (\<lambda>x. x \<noteq> c) s))"

text \<open>\<open>str(n)\<close> of a Python int: decimal digits with a minus sign.\<close>

fun nat_digits :: "nat \<Rightarrow> string" where
  "nat_digits n =
     (if n < 10 then [char_of (48 + n)] else nat_digits (n div 10) @ [char_of (48 + n mod 10)])"

definition int_str :: "int \<Rightarrow> string" where
  "int_str i = (if i < 0 then CHR ''-'' # nat_digits (nat (- i)) else nat_digits (nat i))"

subsection \<open>Dicts\<close>

text \<open>
  A Python dict as an association list in insertion order. \<open>d[k] = v\<close> replaces the
  value of an existing key where it stands and appends a new key at the end.
\<close>

type_synonym ('k, 'v) pydict = "('k \<times> 'v) list"

definition dict_get :: "('k, 'v) pydict \<Rightarrow> 'k \<Rightarrow> 'v option" where
  "dict_get d k = map_of d k"

fun dict_set :: "('k, 'v) pydict \<Rightarrow> 'k \<Rightarrow> 'v \<Rightarrow> ('k, 'v) pydict" where
  "dict_set [] k v = [(k, v)]"
| "dict_set ((k', v') # d) k v =
     (if k' = k then (k, v) # d else (k', v') # dict_set d k v)"

subsection \<open>Lemmas\<close>

lemma starts_with_iff [py_simps]: "starts_with p s \<longleftrightarrow> take (length p) s = p"
  by (induction p s rule: starts_with.induct) auto

lemma starts_with_append [py_simps]: "starts_with p (p @ s)"
  by (simp add: starts_with_iff)

lemma py_in_iff: "py_in n s \<longleftrightarrow> (\<exists>a b. s = a @ n @ b)"
proof (induction s)
  case Nil
  then show ?case by simp
next
  case (Cons c cs)
  have "starts_with n (c # cs) \<longleftrightarrow> (\<exists>b. c # cs = n @ b)"
    by (auto simp: starts_with_iff) (metis append_take_drop_id)
  moreover have "(\<exists>a b. c # cs = a @ n @ b) \<longleftrightarrow>
      (\<exists>b. c # cs = n @ b) \<or> (\<exists>a b. cs = a @ n @ b)"
    by (auto simp: Cons_eq_append_conv)
  ultimately show ?case using Cons.IH by simp
qed

lemma py_in_append_right [py_simps]: "py_in n s \<Longrightarrow> py_in n (t @ s)"
  by (auto simp: py_in_iff) (metis append.assoc)

lemma py_in_append_left [py_simps]: "py_in n s \<Longrightarrow> py_in n (s @ t)"
  by (metis append.assoc py_in_iff)

lemma py_in_self [py_simps]: "py_in n (a @ n @ b)"
  by (auto simp: py_in_iff)

lemma find_char_None [py_simps]: "find_char c s = None \<longleftrightarrow> c \<notin> set s"
  by (induction s) auto

lemma find_char_Some: "find_char c s = Some i \<Longrightarrow> i < length s \<and> s ! i = c \<and> c \<notin> set (take i s)"
  by (induction s arbitrary: i) (auto split: if_splits)

lemma find_char_takeWhile: "find_char c s = Some i \<Longrightarrow> takeWhile (\<lambda>x. x \<noteq> c) s = take i s"
  by (induction s arbitrary: i) (auto split: if_splits)

lemma dict_get_set_same [py_simps]: "dict_get (dict_set d k v) k = Some v"
  by (induction d) (auto simp: dict_get_def)

lemma dict_get_set_other [py_simps]: "k' \<noteq> k \<Longrightarrow> dict_get (dict_set d k v) k' = dict_get d k'"
  by (induction d) (auto simp: dict_get_def)

lemma dict_set_keys [py_simps]: "map fst (dict_set d k v) =
    (if k \<in> set (map fst d) then map fst d else map fst d @ [k])"
  by (induction d) (auto split: if_splits)

lemma dict_set_distinct: "distinct (map fst d) \<Longrightarrow> distinct (map fst (dict_set d k v))"
  by (simp add: dict_set_keys)

lemma py_rstrip_idem [py_simps]: "py_rstrip P (py_rstrip P s) = py_rstrip P s"
  by (simp add: py_rstrip_def)

lemma py_rstrip_keep: "s \<noteq> [] \<Longrightarrow> \<not> P (last s) \<Longrightarrow> \<forall>c\<in>set t. P c \<Longrightarrow> py_rstrip P (s @ t) = s"
proof -
  assume s: "s \<noteq> []" and l: "\<not> P (last s)" and t: "\<forall>c\<in>set t. P c"
  have "dropWhile P (rev t @ rev s) = dropWhile P (rev s)"
    by (rule dropWhile_append2) (simp add: t)
  moreover from s l have "dropWhile P (rev s) = rev s"
    by (cases s rule: rev_cases) auto
  ultimately show ?thesis by (simp add: py_rstrip_def)
qed

lemma py_rstrip_last: "py_rstrip P s \<noteq> [] \<Longrightarrow> \<not> P (last (py_rstrip P s))"
proof -
  assume ne: "py_rstrip P s \<noteq> []"
  then have "dropWhile P (rev s) \<noteq> []" by (simp add: py_rstrip_def)
  then have "\<not> P (hd (dropWhile P (rev s)))" by (rule hd_dropWhile)
  then show ?thesis by (simp add: py_rstrip_def last_rev)
qed

lemma py_rstrip_prefix: "\<exists>t. s = py_rstrip P s @ t \<and> (\<forall>c\<in>set t. P c)"
proof -
  have "rev s = takeWhile P (rev s) @ dropWhile P (rev s)" by simp
  then have "s = rev (dropWhile P (rev s)) @ rev (takeWhile P (rev s))"
    by (metis rev_append rev_rev_ident)
  moreover have "\<forall>c\<in>set (rev (takeWhile P (rev s))). P c"
    by (auto dest: set_takeWhileD)
  ultimately show ?thesis by (auto simp: py_rstrip_def)
qed

lemma dict_set_get_same: "dict_get d k = Some v \<Longrightarrow> dict_set d k v = d"
  by (induction d) (auto simp: dict_get_def split: if_splits)

lemma py_rstrip_append_keep:
  assumes "a \<noteq> []" "\<not> P (last a)"
  shows "\<exists>s'. py_rstrip P (a @ s) = a @ s'"
proof (cases "dropWhile P (rev s) = []")
  case True
  have "dropWhile P (rev a) = rev a"
    using assms by (cases a rule: rev_cases) auto
  with True show ?thesis by (auto simp: py_rstrip_def dropWhile_append)
next
  case False
  then show ?thesis by (auto simp: py_rstrip_def dropWhile_append)
qed

end
