(* ===== verification/Url.thy ===== *)
theory Url
  imports Prelude
begin

text \<open>
  The URL handling of \<open>YandexApiGateway\<close> (src/src/api-gateway-proxy.py): the
  normalisation \<open>set_base_url\<close> (lines 56--58), the host taken as
  \<open>urlparse(self.base_url).netloc\<close> (line 42) and the gateway name derived from it
  (line 43), and the path taken as \<open>urlparse(request.url).path\<close> in \<open>send\<close> (line 61).
  \<open>urlparse\<close> is the standard library's (Python 3.12, urllib/parse.py: \<open>urlsplit\<close>,
  \<open>_splitnetloc\<close>, \<open>_splitparams\<close>); it is modelled here step by step because the
  claims about names and paths depend on it. Not modelled: the validation of the host
  inside brackets (\<open>_check_bracketed_host\<close>: IPv6 and IPvFuture syntax), which the model
  accepts, and \<open>_checknetloc\<close>, a no-op on ASCII netlocs.
\<close>

subsection \<open>urlsplit and urlparse\<close>

record url_parts =
  scheme :: string
  netloc :: string
  path :: string
  params :: string
  query :: string
  fragment :: string

text \<open>\<open>_WHATWG_C0_CONTROL_OR_SPACE\<close>, \<open>_UNSAFE_URL_BYTES_TO_REMOVE\<close>, \<open>scheme_chars\<close>.\<close>

definition c0_or_space :: "char \<Rightarrow> bool" where
  "c0_or_space c \<longleftrightarrow> ord c \<le> 32"

definition unsafe_url_byte :: "char \<Rightarrow> bool" where
  "unsafe_url_byte c \<longleftrightarrow> c = CHR 0x09 \<or> c = CHR 0x0A \<or> c = CHR 0x0D"

definition scheme_char :: "char \<Rightarrow> bool" where
  "scheme_char c \<longleftrightarrow>
     is_ascii_alpha c \<or> is_ascii_digit c \<or> c = CHR ''+'' \<or> c = CHR ''-'' \<or> c = CHR ''.''"

definition netloc_delim :: "char \<Rightarrow> bool" where
  "netloc_delim c \<longleftrightarrow> c = CHR ''/'' \<or> c = CHR ''?'' \<or> c = CHR ''#''"

definition uses_params :: "string list" where
  "uses_params = [[], ''ftp'', ''hdl'', ''prospero'', ''http'', ''imap'', ''https'', ''shttp'',
     ''rtsp'', ''rtsps'', ''rtspu'', ''sip'', ''sips'', ''mms'', ''sftp'', ''tel'']"

text \<open>
  The scheme: the text before the first colon, when it is non-empty, starts with an ASCII
  letter and consists of scheme characters; otherwise no scheme and the URL is unchanged.
\<close>

definition split_scheme :: "string \<Rightarrow> string \<times> string" where
  "split_scheme url =
     (case find_char CHR '':'' url of
        None \<Rightarrow> ([], url)
      | Some i \<Rightarrow>
          (if 0 < i \<and> is_ascii_alpha (hd url) \<and> list_all scheme_char (take i url)
           then (map ascii_lower (take i url), drop (Suc i) url)
           else ([], url)))"

text \<open>
  \<open>_check_bracketed_netloc\<close>: no text before the opening bracket and nothing but a port
  after the closing one; the bracketed host itself is not checked.
\<close>

definition check_bracketed_netloc :: "string \<Rightarrow> py_error + unit" where
  "check_bracketed_netloc n =
     (let hp = rev (takeWhile (\<lambda>c. c \<noteq> CHR ''@'') (rev n)) in
      if CHR ''['' \<in> set hp then
        (if takeWhile (\<lambda>c. c \<noteq> CHR ''['') hp \<noteq> [] then Inl (ValueError ''Invalid IPv6 URL'')
         else
           let port = snd (split_first CHR '']'' (snd (split_first CHR ''['' hp))) in
           if port \<noteq> [] \<and> \<not> starts_with '':'' port then Inl (ValueError ''Invalid IPv6 URL'')
           else Inr ())
      else Inr ())"

text \<open>The part after the netloc: fragment first, then query, as \<open>urlsplit\<close> splits them.\<close>

definition split_tail :: "string \<Rightarrow> string \<Rightarrow> string \<Rightarrow> url_parts" where
  "split_tail sch nl url =
     (let (u1, frag) = (if CHR ''#'' \<in> set url then split_first CHR ''#'' url else (url, []));
          (u2, qry) = (if CHR ''?'' \<in> set u1 then split_first CHR ''?'' u1 else (u1, []))
      in \<lparr>scheme = sch, netloc = nl, path = u2, params = [], query = qry, fragment = frag\<rparr>)"

definition urlsplit :: "string \<Rightarrow> url_parts py_result" where
  "urlsplit url0 =
     (let url1 = filter (\<lambda>c. \<not> unsafe_url_byte c) (py_lstrip c0_or_space url0);
          (sch, url2) = split_scheme url1
      in if take 2 url2 = ''//'' then
           (let nl = takeWhile (\<lambda>c. \<not> netloc_delim c) (drop 2 url2);
                rest = dropWhile (\<lambda>c. \<not> netloc_delim c) (drop 2 url2)
            in if (CHR ''['' \<in> set nl) \<noteq> (CHR '']'' \<in> set nl)
               then Inl (ValueError ''Invalid IPv6 URL'')
               else if CHR ''['' \<in> set nl
               then (case check_bracketed_netloc nl of
                       Inl e \<Rightarrow> Inl e
                     | Inr _ \<Rightarrow> Inr (split_tail sch nl rest))
               else Inr (split_tail sch nl rest))
         else Inr (split_tail sch [] url2))"

text \<open>\<open>_splitparams\<close>: parameters after the first \<open>;\<close> of the last path segment.\<close>

definition splitparams :: "string \<Rightarrow> string \<times> string" where
  "splitparams url =
     (case rfind_char CHR ''/'' url of
        Some j \<Rightarrow>
          (case find_char CHR '';'' (drop j url) of
             None \<Rightarrow> (url, [])
           | Some k \<Rightarrow> (take (j + k) url, drop (j + k + 1) url))
      | None \<Rightarrow>
          (case find_char CHR '';'' url of
             None \<Rightarrow> (take (length url - 1) url, url)
           | Some i \<Rightarrow> (take i url, drop (Suc i) url)))"

definition urlparse :: "string \<Rightarrow> url_parts py_result" where
  "urlparse url =
     (case urlsplit url of
        Inl e \<Rightarrow> Inl e
      | Inr p \<Rightarrow>
          Inr (if scheme p \<in> set uses_params \<and> CHR '';'' \<in> set (path p)
               then (let (u, pr) = splitparams (path p) in p\<lparr>path := u, params := pr\<rparr>)
               else p))"

subsection \<open>The gateway's base URL, host and name\<close>

definition set_base_url :: "string \<Rightarrow> string" where
  "set_base_url base_url =
     (if py_in ''://'' base_url then py_rstrip (\<lambda>c. c = CHR ''/'') base_url
      else ''https://'' @ py_rstrip (\<lambda>c. c = CHR ''/'') base_url)"

definition host_of :: "string \<Rightarrow> string py_result" where
  "host_of base = (case urlparse base of Inl e \<Rightarrow> Inl e | Inr p \<Rightarrow> Inr (netloc p))"

definition gateway_name_of :: "string \<Rightarrow> string" where
  "gateway_name_of h = py_replace ''.'' ''-'' h @ ''-proxy''"


text \<open>Hosts made of characters that end no netloc and carry no brackets.\<close>

definition host_chars :: "string \<Rightarrow> bool" where
  "host_chars h \<longleftrightarrow> (\<forall>c\<in>set h. \<not> unsafe_url_byte c \<and> \<not> netloc_delim c \<and> c \<noteq> CHR ''['' \<and> c \<noteq> CHR '']'')"

definition valid_scheme :: "string \<Rightarrow> bool" where
  "valid_scheme sch \<longleftrightarrow> sch \<noteq> [] \<and> is_ascii_alpha (hd sch) \<and> list_all scheme_char sch"

subsection \<open>Lemmas: parsing a URL with an authority\<close>

lemma scheme_char_not_colon: "scheme_char c \<Longrightarrow> c \<noteq> CHR '':''"
  by (auto simp: scheme_char_def is_ascii_alpha_def is_ascii_digit_def ord_def)

lemma alpha_not_c0: "is_ascii_alpha c \<Longrightarrow> \<not> c0_or_space c"
  by (auto simp: c0_or_space_def is_ascii_alpha_def)

lemma alpha_not_unsafe: "is_ascii_alpha c \<Longrightarrow> \<not> unsafe_url_byte c"
  by (auto simp: unsafe_url_byte_def is_ascii_alpha_def ord_def)

lemma scheme_char_not_unsafe: "scheme_char c \<Longrightarrow> \<not> unsafe_url_byte c"
  by (auto simp: scheme_char_def unsafe_url_byte_def is_ascii_alpha_def is_ascii_digit_def ord_def)

lemma find_char_append_notin: "c \<notin> set xs \<Longrightarrow> find_char c (xs @ c # ys) = Some (length xs)"
  by (induction xs) auto

lemma split_scheme_valid:
  assumes "valid_scheme sch"
  shows "split_scheme (sch @ CHR '':'' # rest) = (map ascii_lower sch, rest)"
proof -
  from assms have "CHR '':'' \<notin> set sch"
    by (auto simp: valid_scheme_def list_all_iff dest: scheme_char_not_colon)
  then have "find_char CHR '':'' (sch @ CHR '':'' # rest) = Some (length sch)"
    by (rule find_char_append_notin)
  with assms show ?thesis
    by (auto simp: split_scheme_def valid_scheme_def)
qed

lemma filter_unsafe_authority:
  assumes sch: "valid_scheme sch" and h: "host_chars h" and safe: "\<forall>c\<in>set rest. \<not> unsafe_url_byte c"
  shows "filter (\<lambda>c. \<not> unsafe_url_byte c) (sch @ ''://'' @ h @ rest) = sch @ ''://'' @ h @ rest"
proof -
  have "\<forall>c\<in>set sch. \<not> unsafe_url_byte c"
    using sch by (auto simp: valid_scheme_def list_all_iff dest: scheme_char_not_unsafe)
  moreover have "\<not> unsafe_url_byte CHR '':''" "\<not> unsafe_url_byte CHR ''/''"
    by (simp_all add: unsafe_url_byte_def)
  moreover have "\<forall>c\<in>set h. \<not> unsafe_url_byte c"
    using h by (simp add: host_chars_def)
  ultimately show ?thesis
    using safe by (simp add: filter_id_conv)
qed

lemma urlsplit_authority:
  assumes sch: "valid_scheme sch" and h: "host_chars h"
    and rest: "rest = [] \<or> netloc_delim (hd rest)" and safe: "\<forall>c\<in>set rest. \<not> unsafe_url_byte c"
  shows "urlsplit (sch @ ''://'' @ h @ rest) = Inr (split_tail (map ascii_lower sch) h rest)"
proof -
  define u where "u = sch @ ''://'' @ h @ rest"
  from sch have "\<not> c0_or_space (hd sch)" and "sch \<noteq> []"
    by (auto simp: valid_scheme_def dest: alpha_not_c0)
  then have l: "py_lstrip c0_or_space u = u"
    by (cases sch) (auto simp: py_lstrip_def u_def)
  have f: "filter (\<lambda>c. \<not> unsafe_url_byte c) u = u"
    unfolding u_def using sch h safe by (rule filter_unsafe_authority)
  have sp: "split_scheme u = (map ascii_lower sch, ''//'' @ h @ rest)"
    using split_scheme_valid [OF sch, of "''//'' @ h @ rest"] by (simp add: u_def)
  from h have hn: "\<forall>c\<in>set h. \<not> netloc_delim c"
    by (simp add: host_chars_def)
  then have tw: "takeWhile (\<lambda>c. \<not> netloc_delim c) (h @ rest) = h"
    using rest by (simp add: takeWhile_append2 takeWhile_eq_Nil_iff)
  from hn have dw: "dropWhile (\<lambda>c. \<not> netloc_delim c) (h @ rest) = rest"
    using rest by (simp add: dropWhile_append2 dropWhile_eq_self_iff)
  from h have nb: "CHR ''['' \<notin> set h" "CHR '']'' \<notin> set h"
    by (auto simp: host_chars_def)
  have d: "drop 2 (''//'' @ h @ rest) = h @ rest" "take 2 (''//'' @ h @ rest) = ''//''"
    by simp_all
  have "urlsplit u = Inr (split_tail (map ascii_lower sch) h rest)"
    unfolding urlsplit_def Let_def l f sp prod.case d tw dw using nb by simp
  then show ?thesis by (simp add: u_def)
qed

lemma valid_scheme_https: "valid_scheme ''https''"
  by (simp add: valid_scheme_def scheme_char_def is_ascii_alpha_def ord_def)

lemma netloc_split_tail [simp]: "netloc (split_tail sch nl url) = nl"
  by (simp add: split_tail_def Let_def split_def)

lemma host_of_urlsplit: "urlsplit u = Inr p \<Longrightarrow> host_of u = Inr (netloc p)"
  by (simp add: host_of_def urlparse_def Let_def split_def)

lemma no_colon_slash:
  assumes "CHR ''/'' \<notin> set h" "\<forall>c\<in>set t. c = CHR ''/''" "t = [] \<or> h = [] \<or> last h \<noteq> CHR '':''"
  shows "\<not> py_in ''://'' (h @ t)"
  using assms
proof (induction h)
  case Nil
  then have "CHR '':'' \<notin> set t" by auto
  then show ?case by (auto simp: py_in_iff)
next
  case (Cons c h)
  have "\<not> starts_with ''//'' (h @ t)" if "c = CHR '':''"
  proof (cases h)
    case Nil
    with Cons.prems that have "t = []" by simp
    with Nil show ?thesis by simp
  next
    case (Cons d h')
    with Cons.prems(1) show ?thesis by auto
  qed
  then have "\<not> starts_with ''://'' (c # h @ t)" by auto
  moreover have "t = [] \<or> h = [] \<or> last h \<noteq> CHR '':''"
    using Cons.prems(3) by (cases h) auto
  then have "\<not> py_in ''://'' (h @ t)"
    using Cons.prems(1,2) by (intro Cons.IH) auto
  ultimately show ?case by simp
qed

lemma scheme_split_tail [simp]: "scheme (split_tail sch nl url) = sch"
  by (simp add: split_tail_def Let_def split_def)

lemma urlsplit_scheme:
  "urlsplit u = Inr q \<Longrightarrow> scheme q = fst (split_scheme (filter (\<lambda>c. \<not> unsafe_url_byte c) (py_lstrip c0_or_space u)))"
  by (auto simp: urlsplit_def Let_def split_def split: if_splits sum.splits)

lemma split_scheme_no_colon: "CHR '':'' \<notin> set u \<Longrightarrow> fst (split_scheme u) = []"
proof -
  assume "CHR '':'' \<notin> set u"
  then have "find_char CHR '':'' u = None" by (simp add: find_char_None)
  then show ?thesis by (simp add: split_scheme_def)
qed

lemma split_scheme_hd: "fst (split_scheme u) \<noteq> [] \<Longrightarrow> hd (fst (split_scheme u)) = ascii_lower (hd u)"
  by (auto simp: split_scheme_def hd_map split: option.splits if_splits)

lemma urlsplit_no_colon_scheme:
  assumes "urlsplit u = Inr q" "CHR '':'' \<notin> set u"
  shows "scheme q = []"
proof -
  have "CHR '':'' \<notin> set (filter (\<lambda>c. \<not> unsafe_url_byte c) (py_lstrip c0_or_space u))"
    using assms(2) by (auto simp: py_lstrip_def dest: set_dropWhileD)
  with urlsplit_scheme [OF assms(1)] show ?thesis by (simp add: split_scheme_no_colon)
qed

text \<open>C25: For a plain host, the host derived from the normalised base URL is the same with or without a scheme and with any number of trailing slashes, so the gateway name is too.\<close>

theorem host_independent_of_scheme_and_slashes:
  assumes sch: "valid_scheme sch" and h: "host_chars h" "h \<noteq> []" "last h \<noteq> CHR '':''"
  shows "host_of (set_base_url (h @ replicate n CHR ''/'')) = Inr h
       \<and> host_of (set_base_url (sch @ ''://'' @ h @ replicate m CHR ''/'')) = Inr h"
proof
  from h have nsl: "CHR ''/'' \<notin> set h" and lst: "last h \<noteq> CHR ''/''"
    by (auto simp: host_chars_def netloc_delim_def)
  have strip: "py_rstrip (\<lambda>c. c = CHR ''/'') (h @ replicate n CHR ''/'') = h"
    using h(2) lst by (intro py_rstrip_keep) auto
  have "\<not> py_in ''://'' (h @ replicate n CHR ''/'')"
    using nsl h(3) by (intro no_colon_slash) auto
  with strip have "set_base_url (h @ replicate n CHR ''/'') = ''https'' @ ''://'' @ h @ []"
    by (simp add: set_base_url_def)
  moreover have "urlsplit (''https'' @ ''://'' @ h @ []) = Inr (split_tail ''https'' h [])"
    using urlsplit_authority [OF valid_scheme_https h(1), of "[]"]
    by (simp add: ascii_lower_def ord_def)
  ultimately show "host_of (set_base_url (h @ replicate n CHR ''/'')) = Inr h"
    by (simp add: host_of_urlsplit)
next
  from h have lst: "last h \<noteq> CHR ''/''"
    by (auto simp: host_chars_def netloc_delim_def)
  have "py_in ''://'' (sch @ ''://'' @ h @ replicate m CHR ''/'')"
    by (rule py_in_self)
  moreover have "py_rstrip (\<lambda>c. c = CHR ''/'') ((sch @ ''://'' @ h) @ replicate m CHR ''/'')
      = sch @ ''://'' @ h"
    using h(2) lst by (intro py_rstrip_keep) auto
  ultimately have "set_base_url (sch @ ''://'' @ h @ replicate m CHR ''/'') = sch @ ''://'' @ h @ []"
    by (simp add: set_base_url_def)
  moreover have "urlsplit (sch @ ''://'' @ h @ []) = Inr (split_tail (map ascii_lower sch) h [])"
    using urlsplit_authority [OF sch h(1), of "[]"] by simp
  ultimately show "host_of (set_base_url (sch @ ''://'' @ h @ replicate m CHR ''/'')) = Inr h"
    by (simp add: host_of_urlsplit)
qed

text \<open>C26: set_base_url is idempotent whenever its result still contains '://' and the stripped input is non-empty.\<close>

theorem set_base_url_idem:
  assumes "py_in ''://'' (set_base_url u)" and "py_rstrip (\<lambda>c. c = CHR ''/'') u \<noteq> []"
  shows "set_base_url (set_base_url u) = set_base_url u"
proof (cases "py_in ''://'' u")
  case True
  with assms show ?thesis by (simp add: set_base_url_def py_rstrip_idem)
next
  case False
  let ?r = "py_rstrip (\<lambda>c. c = CHR ''/'') u"
  have "\<not> last ?r = CHR ''/''" using assms(2) by (rule py_rstrip_last)
  then have "py_rstrip (\<lambda>c. c = CHR ''/'') (''https://'' @ ?r) = ''https://'' @ ?r"
    using py_rstrip_keep [of "''https://'' @ ?r" "\<lambda>c. c = CHR ''/''" "[]"] assms(2) by simp
  moreover have "py_in ''://'' (''https://'' @ ?r)"
    using py_in_self [of "''://''" "''https''" ?r] by simp
  ultimately show ?thesis using False by (simp add: set_base_url_def)
qed



theorem host_independent_witness:
  "host_of (set_base_url (''api.example.com'' @ replicate 1 CHR ''/'')) = Inr ''api.example.com''
   \<and> host_of (set_base_url (''http'' @ ''://'' @ ''api.example.com'' @ replicate 2 CHR ''/''))
       = Inr ''api.example.com''"
proof -
  have s: "valid_scheme ''http''"
    by (simp add: valid_scheme_def scheme_char_def is_ascii_alpha_def ord_def)
  have h: "host_chars ''api.example.com''"
    by (simp add: host_chars_def unsafe_url_byte_def netloc_delim_def)
  have n: "''api.example.com'' \<noteq> []" and l: "last ''api.example.com'' \<noteq> CHR '':''"
    by simp_all
  show ?thesis
    by (rule host_independent_of_scheme_and_slashes [OF s h n l])
qed

theorem set_base_url_idem_witness:
  "set_base_url (set_base_url ''example.com/'') = set_base_url ''example.com/''"
proof -
  have a: "py_in ''://'' (set_base_url ''example.com/'')"
    by (simp add: set_base_url_def py_rstrip_def)
  have b: "py_rstrip (\<lambda>c. c = CHR ''/'') ''example.com/'' \<noteq> []"
    by (simp add: py_rstrip_def)
  show ?thesis by (rule set_base_url_idem [OF a b])
qed

end
