(* ===== verification/Json.thy ===== *)
theory Json
  imports Prelude
begin

text \<open>
  The values \<open>response.json()\<close> returns, and the Python operations the gateway code
  applies to them: truth value (\<open>if x:\<close>), \<open>d.get(k, default)\<close>, \<open>d[k]\<close>, iteration
  (\<open>for x in v:\<close>), equality with a \<open>str\<close>, and \<open>str(v)\<close> as an f-string formats
  it. JSON numbers are integers here; fractional numbers (Python \<open>float\<close>) are not
  modelled. Objects keep their keys in document order, as \<open>json.loads\<close> builds dicts.
\<close>

datatype json =
    JNull
  | JBool bool
  | JInt int
  | JStr string
  | JList "json list"
  | JDict "(string \<times> json) list"

text \<open>Truth value: \<open>None\<close>, \<open>False\<close>, \<open>0\<close> and empty containers are false.\<close>

fun py_truthy :: "json \<Rightarrow> bool" where
  "py_truthy JNull = False"
| "py_truthy (JBool b) = b"
| "py_truthy (JInt i) = (i \<noteq> 0)"
| "py_truthy (JStr s) = (s \<noteq> [])"
| "py_truthy (JList xs) = (xs \<noteq> [])"
| "py_truthy (JDict d) = (d \<noteq> [])"

text \<open>\<open>v.get(k, default)\<close>: only dicts have \<open>get\<close>.\<close>

fun json_get :: "json \<Rightarrow> string \<Rightarrow> json \<Rightarrow> json py_result" where
  "json_get (JDict d) k dflt = Inr (case dict_get d k of None \<Rightarrow> dflt | Some v \<Rightarrow> v)"
| "json_get v k dflt = Inl (AttributeError ''get'')"

text \<open>\<open>v[k]\<close> with a string key.\<close>

fun json_subscript :: "json \<Rightarrow> string \<Rightarrow> json py_result" where
  "json_subscript (JDict d) k = (case dict_get d k of None \<Rightarrow> Inl (KeyError k) | Some v \<Rightarrow> Inr v)"
| "json_subscript (JList xs) k = Inl (TypeError ''list indices must be integers or slices, not str'')"
| "json_subscript (JStr s) k = Inl (TypeError ''string indices must be integers, not str'')"
| "json_subscript JNull k = Inl (TypeError ''NoneType object is not subscriptable'')"
| "json_subscript (JBool b) k = Inl (TypeError ''bool object is not subscriptable'')"
| "json_subscript (JInt i) k = Inl (TypeError ''int object is not subscriptable'')"

text \<open>\<open>for x in v\<close>: a list yields its items, a dict its keys, a string its characters.\<close>

fun py_iter :: "json \<Rightarrow> json list py_result" where
  "py_iter (JList xs) = Inr xs"
| "py_iter (JDict d) = Inr (map (\<lambda>kv. JStr (fst kv)) d)"
| "py_iter (JStr s) = Inr (map (\<lambda>c. JStr [c]) s)"
| "py_iter JNull = Inl (TypeError ''NoneType object is not iterable'')"
| "py_iter (JBool b) = Inl (TypeError ''bool object is not iterable'')"
| "py_iter (JInt i) = Inl (TypeError ''int object is not iterable'')"

subsection \<open>str() and repr()\<close>

definition hex_digit :: "nat \<Rightarrow> char" where
  "hex_digit n = (if n < 10 then char_of (48 + n) else char_of (87 + n))"

text \<open>
  \<open>repr\<close> of one character inside a string literal delimited by \<open>q\<close>: the backslash
  and the delimiter are escaped, tab, newline and return by name, other control characters
  and the non-printable Latin-1 code points (0x7f--0xa0, 0xad) as \<open>\x\<close> and two hex digits.
\<close>

definition repr_char :: "char \<Rightarrow> char \<Rightarrow> string" where
  "repr_char q c =
     (if c = q \<or> c = CHR 0x5C then [CHR 0x5C, c]
      else if c = CHR 0x09 then [CHR 0x5C, CHR ''t'']
      else if c = CHR 0x0A then [CHR 0x5C, CHR ''n'']
      else if c = CHR 0x0D then [CHR 0x5C, CHR ''r'']
      else if ord c < 32 \<or> (127 \<le> ord c \<and> ord c \<le> 160) \<or> ord c = 173
      then [CHR 0x5C, CHR ''x'', hex_digit (ord c div 16), hex_digit (ord c mod 16)]
      else [c])"

text \<open>Single quotes, unless the string has a single quote and no double quote.\<close>

definition repr_str :: "string \<Rightarrow> string" where
  "repr_str s =
     (let q = (if CHR 0x27 \<in> set s \<and> CHR 0x22 \<notin> set s then CHR 0x22 else CHR 0x27)
      in q # concat (map (repr_char q) s) @ [q])"

definition join_comma :: "string list \<Rightarrow> string" where
  "join_comma xs = concat (map (\<lambda>(i, x). (if i = 0 then [] else '', '') @ x) (enumerate 0 xs))"

fun py_repr :: "json \<Rightarrow> string" where
  "py_repr JNull = ''None''"
| "py_repr (JBool b) = (if b then ''True'' else ''False'')"
| "py_repr (JInt i) = int_str i"
| "py_repr (JStr s) = repr_str s"
| "py_repr (JList xs) = ''['' @ join_comma (map py_repr xs) @ '']''"
| "py_repr (JDict d) =
     ''{'' @ join_comma (map (\<lambda>kv. repr_str (fst kv) @ '': '' @ py_repr (snd kv)) d) @ ''}''"

text \<open>\<open>str(v)\<close>, which is what \<open>f"...{v}..."\<close> inserts.\<close>

fun py_str :: "json \<Rightarrow> string" where
  "py_str (JStr s) = s"
| "py_str v = py_repr v"

end
