(* ===== verification/Http.thy ===== *)
theory Http
  imports Json
begin

text \<open>
  The outside world of the gateway code: the HTTP calls it makes (\<open>requests.request\<close>
  for control-plane calls, \<open>HTTPAdapter.send\<close> for proxied ones) and \<open>time.sleep\<close>.
  The world is explicit state: a clock, the trace of everything done so far in order, the
  number of requests sent, and the server's behaviour as a function from the request's
  sequence number and the request to its outcome. A server whose answers change over time
  (a gateway that is \<open>PROVISIONING\<close> and later \<open>ACTIVE\<close>) is a function of the
  sequence number. A response carries its status code and its body parsed as JSON, or
  \<open>None\<close> when the body is not JSON (then \<open>response.json()\<close> raises).
\<close>

record http_request =
  req_method :: string
  req_url :: string
  req_headers :: "(string, string) pydict"
  req_json :: "json option"
  req_body :: "string option"

datatype http_response = Response (status_code: int) (resp_json: "json option")

datatype http_outcome = Answered http_response | NetworkError

datatype event = Sleep nat | Send http_request

record world =
  clock :: nat
  trace :: "event list"
  sent :: nat
  server :: "nat \<Rightarrow> http_request \<Rightarrow> http_outcome"

text \<open>One HTTP exchange: the server answers the request by its sequence number.\<close>

definition http_call :: "http_request \<Rightarrow> world \<Rightarrow> http_outcome \<times> world" where
  "http_call r w =
     (server w (sent w) r, w\<lparr>sent := Suc (sent w), trace := trace w @ [Send r]\<rparr>)"

text \<open>\<open>time.sleep(s)\<close>, the duration in milliseconds.\<close>

definition py_sleep :: "nat \<Rightarrow> world \<Rightarrow> world" where
  "py_sleep ms w = w\<lparr>clock := clock w + ms, trace := trace w @ [Sleep ms]\<rparr>"

text \<open>The requests of a trace, in the order they were sent.\<close>

definition requests_of :: "event list \<Rightarrow> http_request list" where
  "requests_of es = concat (map (\<lambda>e. case e of Send r \<Rightarrow> [r] | Sleep _ \<Rightarrow> []) es)"

text \<open>A world in which nothing has happened yet.\<close>

definition fresh_world :: "(nat \<Rightarrow> http_request \<Rightarrow> http_outcome) \<Rightarrow> world" where
  "fresh_world f = \<lparr>clock = 0, trace = [], sent = 0, server = f\<rparr>"

text \<open>A world is consistent when its counter counts the requests of its trace.\<close>

definition world_ok :: "world \<Rightarrow> bool" where
  "world_ok w \<longleftrightarrow> sent w = length (requests_of (trace w))"

named_theorems world_simps "effects of the primitive world operations"

lemma requests_of_append [simp]: "requests_of (xs @ ys) = requests_of xs @ requests_of ys"
  by (simp add: requests_of_def)

lemma requests_of_simps [simp]:
  "requests_of [] = []"
  "requests_of (Send r # es) = r # requests_of es"
  "requests_of (Sleep n # es) = requests_of es"
  by (simp_all add: requests_of_def)

lemma http_call_effect [world_simps]:
  "snd (http_call r w) = w\<lparr>sent := Suc (sent w), trace := trace w @ [Send r]\<rparr>"
  "fst (http_call r w) = server w (sent w) r"
  by (simp_all add: http_call_def)

lemma py_sleep_effect [world_simps]:
  "server (py_sleep ms w) = server w" "sent (py_sleep ms w) = sent w"
  "trace (py_sleep ms w) = trace w @ [Sleep ms]" "clock (py_sleep ms w) = clock w + ms"
  by (simp_all add: py_sleep_def)

lemma world_ok_http_call: "world_ok w \<Longrightarrow> world_ok (snd (http_call r w))"
  by (simp add: world_ok_def http_call_def)

lemma world_ok_sleep: "world_ok w \<Longrightarrow> world_ok (py_sleep ms w)"
  by (simp add: world_ok_def py_sleep_def)

lemma world_ok_fresh: "world_ok (fresh_world f)"
  by (simp add: world_ok_def fresh_world_def)

end
