(* ===== verification/Gateway.thy ===== *)
theory Gateway
  imports Url Http
begin

text \<open>
  The state of a \<open>YandexApiGateway\<close> object (src/src/api-gateway-proxy.py) and its
  control-plane calls: the constructor \<open>__init__\<close> (lines 33--46), \<open>request\<close>
  (lines 70--78), \<open>get_api_gateways\<close> (lines 80--86), the creation payload with the
  \<open>OPENAPI_SPEC\<close> template (lines 7--29, 97--101) and \<open>shutdown_gateway\<close>
  (lines 116--121). Each operation takes the object and the world and returns its result
  (an exception or a value) with the new world; the object changes only in
  \<open>init_gateway\<close> (theory \<open>Provision\<close>). \<open>gateway_id\<close> holds whatever JSON value
  the control plane returned (\<open>None\<close> is \<open>JNull\<close>); \<open>gateway_url\<close> is \<open>None\<close> or
  a string.
\<close>

definition SERVICE_URL :: string where
  "SERVICE_URL = ''https://serverless-apigateway.api.cloud.yandex.net/apigateways/v1/apigateways''"

record gateway =
  service_url :: string
  iam_token :: string
  folder_id :: string
  base_url :: string
  host :: string
  gateway_name :: string
  gateway_id :: json
  gateway_url :: "string option"
  gateway_is_active :: bool

text \<open>\<open>__init__\<close>: \<open>urlparse\<close> may raise \<open>ValueError\<close> (an unbalanced bracket).\<close>

definition gateway_init :: "string \<Rightarrow> string \<Rightarrow> string \<Rightarrow> gateway py_result" where
  "gateway_init iam fid url =
     (let b = set_base_url url in
      case host_of b of
        Inl e \<Rightarrow> Inl e
      | Inr h \<Rightarrow> Inr \<lparr>service_url = SERVICE_URL, iam_token = iam, folder_id = fid, base_url = b,
                      host = h, gateway_name = gateway_name_of h, gateway_id = JNull,
                      gateway_url = None, gateway_is_active = False\<rparr>)"

text \<open>
  \<open>request\<close>: the caller's headers (if any) with \<open>Authorization\<close> set, one HTTP call,
  then \<open>{}\<close> for a status of 400 or more and the parsed body otherwise. A connection
  failure raised by \<open>requests\<close> propagates; a body that is not JSON raises in
  \<open>response.json()\<close>.
\<close>

definition gw_request ::
  "gateway \<Rightarrow> string \<Rightarrow> string \<Rightarrow> (string, string) pydict option \<Rightarrow> json option \<Rightarrow> world
   \<Rightarrow> json py_result \<times> world" where
  "gw_request g m url hdrs payload w =
     (let headers = dict_set (case hdrs of None \<Rightarrow> [] | Some h \<Rightarrow> h)
                      ''Authorization'' (''Bearer '' @ iam_token g);
          (out, w') = http_call \<lparr>req_method = m, req_url = url, req_headers = headers,
                                 req_json = payload, req_body = None\<rparr> w
      in (case out of
            NetworkError \<Rightarrow> Inl ConnectionError
          | Answered resp \<Rightarrow>
              if 400 \<le> status_code resp then Inr (JDict [])
              else (case resp_json resp of None \<Rightarrow> Inl JSONDecodeError | Some j \<Rightarrow> Inr j),
          w'))"

text \<open>\<open>get_api_gateways(api_gateway_id=None)\<close>: one gateway by id, or the folder's list.\<close>

definition get_api_gateways :: "gateway \<Rightarrow> json \<Rightarrow> world \<Rightarrow> json py_result \<times> world" where
  "get_api_gateways g gid w =
     (if py_truthy gid then gw_request g ''GET'' (service_url g @ ''/'' @ py_str gid) None None w
      else
        (let (r, w') = gw_request g ''GET'' (service_url g @ ''?folderId='' @ folder_id g) None None w
         in (case r of Inl e \<Rightarrow> Inl e | Inr v \<Rightarrow> json_get v ''apiGateways'' (JDict []), w')))"

text \<open>
  Python's \<open>template % args\<close> for the conversions the template uses: \<open>%s\<close> takes the
  next argument, \<open>%%\<close> is a percent sign; anything else after \<open>%\<close>, too few or too
  many arguments raise.
\<close>

fun percent_format :: "string \<Rightarrow> string list \<Rightarrow> string py_result" where
  "percent_format [] args =
     (if args = [] then Inr []
      else Inl (TypeError ''not all arguments converted during string formatting''))"
| "percent_format (c # t) args =
     (if c \<noteq> CHR ''%'' then map_sum id (Cons c) (percent_format t args)
      else (case t of
              [] \<Rightarrow> Inl (ValueError ''incomplete format'')
            | d # t' \<Rightarrow>
                if d = CHR ''s'' then
                  (case args of
                     [] \<Rightarrow> Inl (TypeError ''not enough arguments for format string'')
                   | a # as \<Rightarrow> map_sum id (\<lambda>r. a @ r) (percent_format t' as))
                else if d = CHR ''%'' then map_sum id (Cons CHR ''%'') (percent_format t' args)
                else Inl (ValueError ''unsupported format character'')))"

text \<open>The template, line by line (the triple-quoted literal starts with a newline).\<close>

definition OPENAPI_SPEC_lines :: "string list" where
  "OPENAPI_SPEC_lines =
     [''openapi: 3.0.0'', ''info:'', ''  title: Sample API'', ''  version: 1.0.0'', ''paths:'',
      ''  /{path+}:'', ''    get:'', ''      x-yc-apigateway-integration:'', ''        type: http'',
      ''        url: %s/{path}'', ''        headers:'',
      ''          Accept: '' @ [CHR 0x27] @ ''*/*'' @ [CHR 0x27],
      ''          Accept-Encoding: '' @ [CHR 0x22] @ ''gzip, deflate'' @ [CHR 0x22],
      ''          Host: %s'',
      ''          Connection: '' @ [CHR 0x27] @ ''keep-alive'' @ [CHR 0x27],
      ''      parameters:'', ''      - name: path'', ''        in: path'', ''        required: false'',
      ''        schema:'', ''          type: string'']"

definition OPENAPI_SPEC :: string where
  "OPENAPI_SPEC = CHR 0x0A # concat (map (\<lambda>l. l @ [CHR 0x0A]) OPENAPI_SPEC_lines)"

text \<open>The creation payload of \<open>init_gateway\<close> (lines 97--101).\<close>

definition create_payload :: "gateway \<Rightarrow> json py_result" where
  "create_payload g =
     (case percent_format OPENAPI_SPEC [base_url g, host g] of
        Inl e \<Rightarrow> Inl e
      | Inr spec \<Rightarrow> Inr (JDict [(''folderId'', JStr (folder_id g)), (''name'', JStr (gateway_name g)),
                               (''openapiSpec'', JStr spec)]))"

text \<open>\<open>shutdown_gateway\<close>: nothing to do without a (truthy) id, else one DELETE.\<close>

definition shutdown_gateway :: "gateway \<Rightarrow> world \<Rightarrow> json py_result \<times> world" where
  "shutdown_gateway g w =
     (if \<not> py_truthy (gateway_id g) then (Inr (JDict []), w)
      else gw_request g ''DELETE'' (service_url g @ ''/'' @ py_str (gateway_id g)) None None w)"


text \<open>
  The document the template should produce for a base URL and a host, written out as a
  list of lines: the reference against which the \<open>%\<close>-formatting is checked.
\<close>

definition openapi_document :: "string \<Rightarrow> string \<Rightarrow> string" where
  "openapi_document b h = CHR 0x0A # concat (map (\<lambda>l. l @ [CHR 0x0A])
     [''openapi: 3.0.0'', ''info:'', ''  title: Sample API'', ''  version: 1.0.0'', ''paths:'',
      ''  /{path+}:'', ''    get:'', ''      x-yc-apigateway-integration:'', ''        type: http'',
      ''        url: '' @ b @ ''/{path}'', ''        headers:'',
      ''          Accept: '' @ [CHR 0x27] @ ''*/*'' @ [CHR 0x27],
      ''          Accept-Encoding: '' @ [CHR 0x22] @ ''gzip, deflate'' @ [CHR 0x22],
      ''          Host: '' @ h,
      ''          Connection: '' @ [CHR 0x27] @ ''keep-alive'' @ [CHR 0x27],
      ''      parameters:'', ''      - name: path'', ''        in: path'', ''        required: false'',
      ''        schema:'', ''          type: string''])"

text \<open>The object \<open>YandexApiGateway("tok", "folder", "api.example.com")\<close> builds.\<close>

definition example_gateway :: gateway where
  "example_gateway =
     \<lparr>service_url = SERVICE_URL, iam_token = ''tok'', folder_id = ''folder'',
      base_url = ''https://api.example.com'', host = ''api.example.com'',
      gateway_name = ''api-example-com-proxy'', gateway_id = JNull, gateway_url = None,
      gateway_is_active = False\<rparr>"

subsection \<open>Reading the document back\<close>

text \<open>
  What the gateway reads from the document: \<open>str.split("\n")\<close>, the rest of the first
  line with a given prefix, and the integration target, the origin before \<open>/{path}\<close> on
  the \<open>url:\<close> line with the \<open>Host:\<close> header.
\<close>

fun split_nl :: "string \<Rightarrow> string list" where
  "split_nl [] = [[]]"
| "split_nl (c # cs) = (if c = CHR 0x0A then [] # split_nl cs else (let ls = split_nl cs in (c # hd ls) # tl ls))"

definition field_after :: "string \<Rightarrow> string list \<Rightarrow> string option" where
  "field_after p ls = (case find (starts_with p) ls of None \<Rightarrow> None | Some l \<Rightarrow> Some (drop (length p) l))"

definition ends_with :: "string \<Rightarrow> string \<Rightarrow> bool" where
  "ends_with suf s \<longleftrightarrow> starts_with (rev suf) (rev s)"

definition integration_target :: "string \<Rightarrow> (string \<times> string) option" where
  "integration_target doc =
     (case (field_after ''        url: '' (split_nl doc), field_after ''          Host: '' (split_nl doc)) of
        (Some u, Some h) \<Rightarrow>
          if ends_with ''/{path}'' u then Some (take (length u - 7) u, h) else None
      | _ \<Rightarrow> None)"

subsection \<open>Lemmas\<close>

lemma percent_format_plain:
  "CHR ''%'' \<notin> set a \<Longrightarrow> percent_format (a @ t) args = map_sum id (\<lambda>r. a @ r) (percent_format t args)"
proof (induction a)
  case Nil
  show ?case by (cases "percent_format t args") simp_all
next
  case (Cons c a)
  then show ?case by (cases "percent_format t args") auto
qed

lemma percent_format_s:
  "percent_format (CHR ''%'' # CHR ''s'' # t) (x # args) = map_sum id (\<lambda>r. x @ r) (percent_format t args)"
  by simp

lemma percent_format_openapi: "percent_format OPENAPI_SPEC [b, h] = Inr (openapi_document b h)"
proof -
  define p1 where "p1 = CHR 0x0A # concat (map (\<lambda>l. l @ [CHR 0x0A])
     [''openapi: 3.0.0'', ''info:'', ''  title: Sample API'', ''  version: 1.0.0'', ''paths:'',
      ''  /{path+}:'', ''    get:'', ''      x-yc-apigateway-integration:'', ''        type: http'']) @ ''        url: ''"
  define p2 where "p2 = ''/{path}'' @ concat (map (\<lambda>l. [CHR 0x0A] @ l)
     [''        headers:'',
      ''          Accept: '' @ [CHR 0x27] @ ''*/*'' @ [CHR 0x27],
      ''          Accept-Encoding: '' @ [CHR 0x22] @ ''gzip, deflate'' @ [CHR 0x22]]) @ [CHR 0x0A] @ ''          Host: ''"
  define p3 where "p3 = concat (map (\<lambda>l. [CHR 0x0A] @ l)
     [''          Connection: '' @ [CHR 0x27] @ ''keep-alive'' @ [CHR 0x27],
      ''      parameters:'', ''      - name: path'', ''        in: path'', ''        required: false'',
      ''        schema:'', ''          type: string'']) @ [CHR 0x0A]"
  have s: "OPENAPI_SPEC = p1 @ CHR ''%'' # CHR ''s'' # p2 @ CHR ''%'' # CHR ''s'' # p3"
    by (simp add: OPENAPI_SPEC_def OPENAPI_SPEC_lines_def p1_def p2_def p3_def)
  have d: "openapi_document b h = p1 @ b @ p2 @ h @ p3"
    by (simp add: openapi_document_def p1_def p2_def p3_def)
  have n: "CHR ''%'' \<notin> set p1" "CHR ''%'' \<notin> set p2" "CHR ''%'' \<notin> set p3"
    by (simp_all add: p1_def p2_def p3_def)
  have "percent_format p3 [] = Inr p3"
    using percent_format_plain [OF n(3), of "[]" "[]"] by simp
  then show ?thesis
    using n by (simp add: s d percent_format_plain)
qed

lemma gw_request_world:
  "snd (gw_request g m url hdrs p w) =
     w\<lparr>sent := Suc (sent w), trace := trace w @
       [Send \<lparr>req_method = m, req_url = url,
              req_headers = dict_set (case hdrs of None \<Rightarrow> [] | Some h \<Rightarrow> h)
                              ''Authorization'' (''Bearer '' @ iam_token g),
              req_json = p, req_body = None\<rparr>]\<rparr>"
  by (simp add: gw_request_def http_call_def split_def Let_def)

lemma gw_request_result:
  "fst (gw_request g m url hdrs p w) =
     (case server w (sent w) \<lparr>req_method = m, req_url = url,
              req_headers = dict_set (case hdrs of None \<Rightarrow> [] | Some h \<Rightarrow> h)
                              ''Authorization'' (''Bearer '' @ iam_token g),
              req_json = p, req_body = None\<rparr> of
        NetworkError \<Rightarrow> Inl ConnectionError
      | Answered resp \<Rightarrow>
          if 400 \<le> status_code resp then Inr (JDict [])
          else (case resp_json resp of None \<Rightarrow> Inl JSONDecodeError | Some j \<Rightarrow> Inr j))"
  by (simp add: gw_request_def http_call_def split_def Let_def)

text \<open>C19: request sends exactly one HTTP request with the given method, URL and JSON, whose Authorization header is 'Bearer <token>' and whose other headers are the caller's.\<close>

theorem gw_request_authorization:
  "\<exists>r. trace (snd (gw_request g m url hdrs p w)) = trace w @ [Send r]
     \<and> req_method r = m \<and> req_url r = url \<and> req_json r = p
     \<and> dict_get (req_headers r) ''Authorization'' = Some (''Bearer '' @ iam_token g)
     \<and> (\<forall>k. k \<noteq> ''Authorization'' \<longrightarrow>
            dict_get (req_headers r) k = dict_get (case hdrs of None \<Rightarrow> [] | Some h \<Rightarrow> h) k)"
  by (simp add: gw_request_world dict_get_set_same dict_get_set_other)

text \<open>C20: Any control-plane answer with a status of 400 or more, whatever its body, makes request return the empty dict, so 404 and 500 are indistinguishable from each other and from an empty success.\<close>

theorem gw_request_error_collapse:
  assumes "\<forall>r. server w (sent w) r = Answered (Response s b)" and "400 \<le> s"
  shows "fst (gw_request g m url hdrs p w) = Inr (JDict [])"
  using assms by (simp add: gw_request_result)

text \<open>C21: shutdown_gateway on a freshly constructed object returns an empty dict and makes no network call.\<close>

theorem shutdown_before_open:
  assumes "gateway_init iam fid u = Inr g"
  shows "shutdown_gateway g w = (Inr (JDict []), w)"
proof -
  from assms have "gateway_id g = JNull"
    by (auto simp: gateway_init_def Let_def split: sum.splits)
  then show ?thesis by (simp add: shutdown_gateway_def)
qed

text \<open>C22: With a truthy gateway id, shutdown_gateway sends exactly one DELETE to <service_url>/<id> carrying only the Authorization header.\<close>

theorem shutdown_deletes:
  assumes "py_truthy (gateway_id g)"
  shows "requests_of (trace (snd (shutdown_gateway g w))) = requests_of (trace w) @
     [\<lparr>req_method = ''DELETE'', req_url = service_url g @ ''/'' @ py_str (gateway_id g),
       req_headers = [(''Authorization'', ''Bearer '' @ iam_token g)], req_json = None, req_body = None\<rparr>]"
  using assms by (simp add: shutdown_gateway_def gw_request_world)


text \<open>C23: The creation payload is folderId, name and the OpenAPI template %-formatted with base_url and host, which equals the reference document with the URL and Host lines filled in.\<close>

theorem create_payload_document:
  "create_payload g = Inr (JDict [(''folderId'', JStr (folder_id g)), (''name'', JStr (gateway_name g)),
      (''openapiSpec'', JStr (openapi_document (base_url g) (host g)))])"
  by (simp add: create_payload_def percent_format_openapi)

theorem gw_request_authorization_witness:
  "\<exists>r. trace (snd (gw_request example_gateway ''GET'' ''u'' (Some [(''Authorization'', ''x''), (''A'', ''1'')]) None
        (fresh_world (\<lambda>_ _. NetworkError)))) = trace (fresh_world (\<lambda>_ _. NetworkError)) @ [Send r]
     \<and> req_method r = ''GET'' \<and> req_url r = ''u'' \<and> req_json r = None
     \<and> dict_get (req_headers r) ''Authorization'' = Some (''Bearer '' @ iam_token example_gateway)
     \<and> (\<forall>k. k \<noteq> ''Authorization'' \<longrightarrow>
            dict_get (req_headers r) k = dict_get (case Some [(''Authorization'', ''x''), (''A'', ''1'')] of None \<Rightarrow> [] | Some h \<Rightarrow> h) k)"
  by (rule gw_request_authorization)

theorem gw_request_error_collapse_witness:
  "fst (gw_request example_gateway ''GET'' ''u'' None None
      (fresh_world (\<lambda>_ _. Answered (Response 404 (Some (JDict [(''message'', JStr ''not found'')])))))) = Inr (JDict [])
   \<and> fst (gw_request example_gateway ''GET'' ''u'' None None
      (fresh_world (\<lambda>_ _. Answered (Response 500 None)))) = Inr (JDict [])"
proof -
  have a: "\<forall>r. server (fresh_world (\<lambda>_ _. Answered (Response 404 (Some (JDict [(''message'', JStr ''not found'')])))))
      (sent (fresh_world (\<lambda>_ _. Answered (Response 404 (Some (JDict [(''message'', JStr ''not found'')])))))) r
      = Answered (Response 404 (Some (JDict [(''message'', JStr ''not found'')])))"
    by (simp add: fresh_world_def)
  have b: "\<forall>r. server (fresh_world (\<lambda>_ _. Answered (Response 500 None)))
      (sent (fresh_world (\<lambda>_ _. Answered (Response 500 None)))) r = Answered (Response 500 None)"
    by (simp add: fresh_world_def)
  have c: "(400::int) \<le> 404" "(400::int) \<le> 500" by simp_all
  show ?thesis
    using gw_request_error_collapse [OF a c(1)] gw_request_error_collapse [OF b c(2)] by simp
qed

theorem shutdown_before_open_witness:
  "shutdown_gateway example_gateway (fresh_world (\<lambda>_ _. NetworkError))
     = (Inr (JDict []), fresh_world (\<lambda>_ _. NetworkError))"
proof -
  have "gateway_init ''tok'' ''folder'' ''api.example.com'' = Inr example_gateway"
    unfolding example_gateway_def SERVICE_URL_def by code_simp
  then show ?thesis by (rule shutdown_before_open)
qed

theorem shutdown_deletes_witness:
  "requests_of (trace (snd (shutdown_gateway (example_gateway\<lparr>gateway_id := JStr ''d5e1''\<rparr>)
      (fresh_world (\<lambda>_ _. NetworkError))))) =
     [\<lparr>req_method = ''DELETE'', req_url = SERVICE_URL @ ''/d5e1'',
       req_headers = [(''Authorization'', ''Bearer tok'')], req_json = None, req_body = None\<rparr>]"
proof -
  have "py_truthy (gateway_id (example_gateway\<lparr>gateway_id := JStr ''d5e1''\<rparr>))" by simp
  from shutdown_deletes [OF this, of "fresh_world (\<lambda>_ _. NetworkError)"] show ?thesis
    by (simp add: fresh_world_def example_gateway_def)
qed

lemma split_nl_line: "CHR 0x0A \<notin> set l \<Longrightarrow> split_nl (l @ CHR 0x0A # r) = l # split_nl r"
  by (induction l) (auto simp: Let_def)

lemma split_nl_lines:
  "\<forall>l\<in>set ls. CHR 0x0A \<notin> set l \<Longrightarrow> split_nl (concat (map (\<lambda>l. l @ [CHR 0x0A]) ls)) = ls @ [[]]"
  by (induction ls) (simp_all add: split_nl_line)

lemma ends_with_append: "ends_with suf (s @ suf)"
  by (simp add: ends_with_def starts_with_iff)

text \<open>C33: When base_url and host contain no newline, reading the url: and Host: lines back from the creation payload's OpenAPI document gives exactly base_url and host.\<close>

theorem payload_roundtrip:
  assumes "CHR 0x0A \<notin> set (base_url g)" "CHR 0x0A \<notin> set (host g)"
  shows "\<exists>doc. create_payload g = Inr (JDict [(''folderId'', JStr (folder_id g)),
             (''name'', JStr (gateway_name g)), (''openapiSpec'', JStr doc)])
           \<and> integration_target doc = Some (base_url g, host g)"
proof -
  define pre where "pre = [''openapi: 3.0.0'', ''info:'', ''  title: Sample API'', ''  version: 1.0.0'', ''paths:'',
      ''  /{path+}:'', ''    get:'', ''      x-yc-apigateway-integration:'', ''        type: http'']"
  define mid where "mid = [''        headers:'',
      ''          Accept: '' @ [CHR 0x27] @ ''*/*'' @ [CHR 0x27],
      ''          Accept-Encoding: '' @ [CHR 0x22] @ ''gzip, deflate'' @ [CHR 0x22]]"
  define post where "post = [''          Connection: '' @ [CHR 0x27] @ ''keep-alive'' @ [CHR 0x27],
      ''      parameters:'', ''      - name: path'', ''        in: path'', ''        required: false'',
      ''        schema:'', ''          type: string'']"
  define L where "L = pre @ [''        url: '' @ base_url g @ ''/{path}''] @ mid @ [''          Host: '' @ host g] @ post"
  have d: "openapi_document (base_url g) (host g) = CHR 0x0A # concat (map (\<lambda>l. l @ [CHR 0x0A]) L)"
    by (simp add: openapi_document_def L_def pre_def mid_def post_def)
  have nl: "\<forall>l\<in>set L. CHR 0x0A \<notin> set l"
    using assms by (simp add: L_def pre_def mid_def post_def)
  have s: "split_nl (openapi_document (base_url g) (host g)) = [] # L @ [[]]"
    unfolding d by (simp add: split_nl_lines [OF nl])
  have u: "field_after ''        url: '' ([] # L @ [[]]) = Some (base_url g @ ''/{path}'')"
    by (simp add: field_after_def L_def pre_def starts_with_iff)
  have h: "field_after ''          Host: '' ([] # L @ [[]]) = Some (host g)"
    by (simp add: field_after_def L_def pre_def mid_def starts_with_iff)
  have "integration_target (openapi_document (base_url g) (host g)) = Some (base_url g, host g)"
    unfolding integration_target_def s u h by (simp add: ends_with_append)
  then show ?thesis
    by (simp add: create_payload_def percent_format_openapi)
qed



theorem payload_roundtrip_witness:
  "\<exists>doc. create_payload example_gateway = Inr (JDict [(''folderId'', JStr (folder_id example_gateway)),
             (''name'', JStr (gateway_name example_gateway)), (''openapiSpec'', JStr doc)])
           \<and> integration_target doc = Some (base_url example_gateway, host example_gateway)"
  by (rule payload_roundtrip) (simp_all add: example_gateway_def)

end
