(* ===== verification/Provision.thy ===== *)
theory Provision
  imports Gateway
begin

text \<open>
  Provisioning and the scoped lifecycle of \<open>YandexApiGateway\<close>
  (src/src/api-gateway-proxy.py): \<open>init_gateway\<close> (lines 88--114) with its lookup loop
  (lines 91--95) and its poll loop (lines 106--112), \<open>__enter__\<close>/\<open>__exit__\<close>
  (lines 48--54) as the \<open>with\<close> statement runs them. The poll loop has no bound in the
  source (\<open>while True\<close>), so it is a \<^theory_text>\<open>partial_function (option)\<close>: \<open>None\<close>
  is the call that never returns. A result is the exception or value the call ends with,
  the object's state at that point (the source assigns fields before later lines raise)
  and the world.
\<close>

type_synonym 'a outcome = "'a py_result \<times> gateway \<times> world"

text \<open>
  The lookup loop: the first listed gateway whose \<open>name\<close> is the object's name is adopted
  (its \<open>id\<close> is stored before its \<open>domain\<close> is read). \<open>Inr None\<close>: no match.
\<close>

fun find_gateway :: "gateway \<Rightarrow> json list \<Rightarrow> json option py_result \<times> gateway" where
  "find_gateway g [] = (Inr None, g)"
| "find_gateway g (gw # rest) =
     (case json_subscript gw ''name'' of
        Inl e \<Rightarrow> (Inl e, g)
      | Inr n \<Rightarrow>
          if n = JStr (gateway_name g) then
            (case json_subscript gw ''id'' of
               Inl e \<Rightarrow> (Inl e, g)
             | Inr i \<Rightarrow>
                 (case json_subscript gw ''domain'' of
                    Inl e \<Rightarrow> (Inl e, g\<lparr>gateway_id := i\<rparr>)
                  | Inr d \<Rightarrow> (Inr (Some gw),
                              g\<lparr>gateway_id := i, gateway_url := Some (''https://'' @ py_str d)\<rparr>)))
          else find_gateway g rest)"

text \<open>
  One round of the poll loop after \<open>sleep(0.5)\<close>: \<open>Inr None\<close> means "not active yet,
  go round again"; \<open>is_active\<close> is set before \<open>response['domain']\<close> is read.
\<close>

definition poll_round :: "gateway \<Rightarrow> world \<Rightarrow> (json outcome) option \<times> world" where
  "poll_round g w =
     (let (r, w2) = get_api_gateways g (gateway_id g) (py_sleep 500 w)
      in (case r of
            Inl e \<Rightarrow> Some (Inl e, g, w2)
          | Inr resp \<Rightarrow>
              (case json_get resp ''status'' JNull of
                 Inl e \<Rightarrow> Some (Inl e, g, w2)
               | Inr st \<Rightarrow>
                   if st = JStr ''ACTIVE'' then
                     (case json_subscript resp ''domain'' of
                        Inl e \<Rightarrow> Some (Inl e, g\<lparr>gateway_is_active := True\<rparr>, w2)
                      | Inr d \<Rightarrow> Some (Inr resp, g\<lparr>gateway_is_active := True,
                                           gateway_url := Some (''https://'' @ py_str d)\<rparr>, w2))
                   else None), w2))"

partial_function (option) poll_active :: "gateway \<Rightarrow> world \<Rightarrow> json outcome option" where
  "poll_active g w =
     (case poll_round g w of
        (Some res, _) \<Rightarrow> Some res
      | (None, w2) \<Rightarrow> poll_active g w2)"

text \<open>\<open>init_gateway\<close>: list, adopt a match, or create and poll.\<close>

definition init_gateway :: "gateway \<Rightarrow> world \<Rightarrow> json outcome option" where
  "init_gateway g w =
     (let (r, w1) = get_api_gateways g JNull w in
      case r of
        Inl e \<Rightarrow> Some (Inl e, g, w1)
      | Inr gl \<Rightarrow>
          (case py_iter gl of
             Inl e \<Rightarrow> Some (Inl e, g, w1)
           | Inr items \<Rightarrow>
               (case find_gateway g items of
                  (Inl e, g1) \<Rightarrow> Some (Inl e, g1, w1)
                | (Inr (Some gw), g1) \<Rightarrow> Some (Inr gw, g1, w1)
                | (Inr None, g1) \<Rightarrow>
                    (case create_payload g1 of
                       Inl e \<Rightarrow> Some (Inl e, g1, w1)
                     | Inr payload \<Rightarrow>
                         (let (r2, w2) = gw_request g1 ''POST'' (service_url g1) None (Some payload) w1 in
                          case r2 of
                            Inl e \<Rightarrow> Some (Inl e, g1, w2)
                          | Inr resp \<Rightarrow>
                              (case json_get resp ''metadata'' (JDict []) of
                                 Inl e \<Rightarrow> Some (Inl e, g1, w2)
                               | Inr md \<Rightarrow>
                                   (case json_get md ''apiGatewayId'' JNull of
                                      Inl e \<Rightarrow> Some (Inl e, g1, w2)
                                    | Inr gid \<Rightarrow> poll_active (g1\<lparr>gateway_id := gid\<rparr>) w2)))))))"

text \<open>
  The \<open>with\<close> statement: \<open>__enter__\<close> runs \<open>init_gateway\<close>; if it raises, the
  exception propagates and \<open>__exit__\<close> is not called. Otherwise the body runs on the
  object, then \<open>__exit__\<close> runs \<open>shutdown_gateway\<close> whatever the body did; an
  exception of \<open>__exit__\<close> replaces the body's outcome, otherwise the body's outcome
  (value or exception: \<open>__exit__\<close> returns \<open>None\<close>) stands.
\<close>

definition with_gateway ::
  "gateway \<Rightarrow> (gateway \<Rightarrow> world \<Rightarrow> 'a outcome) \<Rightarrow> world \<Rightarrow> 'a outcome option" where
  "with_gateway g body w =
     (case init_gateway g w of
        None \<Rightarrow> None
      | Some (Inl e, g1, w1) \<Rightarrow> Some (Inl e, g1, w1)
      | Some (Inr _, g1, w1) \<Rightarrow>
          (let (b, g2, w2) = body g1 w1;
               (x, w3) = shutdown_gateway g2 w2
           in Some (case x of Inl e \<Rightarrow> Inl e | Inr _ \<Rightarrow> b, g2, w3)))"

definition response_value :: "http_outcome \<Rightarrow> json py_result" where
  "response_value out =
     (case out of
        NetworkError \<Rightarrow> Inl ConnectionError
      | Answered resp \<Rightarrow>
          if 400 \<le> status_code resp then Inr (JDict [])
          else (case resp_json resp of None \<Rightarrow> Inl JSONDecodeError | Some j \<Rightarrow> Inr j))"

definition gateways_value :: "json \<Rightarrow> http_outcome \<Rightarrow> json py_result" where
  "gateways_value gid out =
     (if py_truthy gid then response_value out
      else (case response_value out of Inl e \<Rightarrow> Inl e | Inr v \<Rightarrow> json_get v ''apiGateways'' (JDict [])))"

definition listing_request :: "gateway \<Rightarrow> json \<Rightarrow> http_request" where
  "listing_request g gid =
     \<lparr>req_method = ''GET'',
      req_url = (if py_truthy gid then service_url g @ ''/'' @ py_str gid
                 else service_url g @ ''?folderId='' @ folder_id g),
      req_headers = [(''Authorization'', ''Bearer '' @ iam_token g)], req_json = None, req_body = None\<rparr>"

definition poll_pending :: "json \<Rightarrow> http_outcome \<Rightarrow> bool" where
  "poll_pending gid out =
     (case gateways_value gid out of
        Inl _ \<Rightarrow> False
      | Inr x \<Rightarrow> (case json_get x ''status'' JNull of Inl _ \<Rightarrow> False | Inr st \<Rightarrow> st \<noteq> JStr ''ACTIVE''))"

definition create_request :: "gateway \<Rightarrow> http_request" where
  "create_request g =
     \<lparr>req_method = ''POST'', req_url = service_url g,
      req_headers = [(''Authorization'', ''Bearer '' @ iam_token g)],
      req_json = Some (JDict [(''folderId'', JStr (folder_id g)), (''name'', JStr (gateway_name g)),
                              (''openapiSpec'', JStr (openapi_document (base_url g) (host g)))]),
      req_body = None\<rparr>"

declare poll_active.simps [code]

text \<open>
  Control planes for the examples: one that lists a matching gateway, one that provisions
  (two \<open>DEPLOYING\<close> answers, then \<open>ACTIVE\<close>), one that never finishes, one that
  denies every call, and one whose \<open>ACTIVE\<close> answer lacks the domain.
\<close>

definition other_gateway_json :: json where
  "other_gateway_json = JDict [(''id'', JStr ''a1''), (''name'', JStr ''other-proxy''),
     (''domain'', JStr ''a1.apigw.net'')]"

definition found_gateway_json :: json where
  "found_gateway_json = JDict [(''id'', JStr ''d5e1''), (''name'', JStr ''api-example-com-proxy''),
     (''domain'', JStr ''d5e1.apigw.net''), (''status'', JStr ''ACTIVE'')]"

definition found_control_plane :: "nat \<Rightarrow> http_request \<Rightarrow> http_outcome" where
  "found_control_plane k r =
     (if k = 0 then Answered (Response 200 (Some (JDict [(''apiGateways'',
        JList [other_gateway_json, found_gateway_json])])))
      else Answered (Response 200 (Some (JDict []))))"

definition active_json :: json where
  "active_json = JDict [(''status'', JStr ''ACTIVE''), (''domain'', JStr ''d5e1.apigw.net'')]"

definition polling_control_plane :: "nat \<Rightarrow> http_request \<Rightarrow> http_outcome" where
  "polling_control_plane k r =
     (if k = 0 then Answered (Response 200 (Some (JDict [(''apiGateways'', JList [other_gateway_json])])))
      else if k = 1 then Answered (Response 200 (Some (JDict [(''metadata'', JDict [(''apiGatewayId'', JStr ''d5e1'')])])))
      else if k < 4 then Answered (Response 200 (Some (JDict [(''status'', JStr ''DEPLOYING'')])))
      else Answered (Response 200 (Some active_json)))"

definition stuck_control_plane :: "nat \<Rightarrow> http_request \<Rightarrow> http_outcome" where
  "stuck_control_plane k r =
     (if k = 0 then Answered (Response 200 (Some (JDict [(''apiGateways'', JList [])])))
      else if k = 1 then Answered (Response 200 (Some (JDict [(''metadata'', JDict [(''apiGatewayId'', JStr ''d5e1'')])])))
      else Answered (Response 200 (Some (JDict [(''status'', JStr ''DEPLOYING'')]))))"

definition denying_control_plane :: "nat \<Rightarrow> http_request \<Rightarrow> http_outcome" where
  "denying_control_plane k r = Answered (Response 403 (Some (JDict [(''message'', JStr ''Permission denied'')])))"

definition leaky_control_plane :: "nat \<Rightarrow> http_request \<Rightarrow> http_outcome" where
  "leaky_control_plane k r =
     (if k = 0 then Answered (Response 200 (Some (JDict [(''apiGateways'', JList [])])))
      else if k = 1 then Answered (Response 200 (Some (JDict [(''metadata'', JDict [(''apiGatewayId'', JStr ''d5e1'')])])))
      else Answered (Response 200 (Some (JDict [(''status'', JStr ''ACTIVE'')]))))"

subsection \<open>Lemmas\<close>

lemma gw_request_value:
  "fst (gw_request g m url hdrs p w) =
     response_value (server w (sent w) \<lparr>req_method = m, req_url = url,
              req_headers = dict_set (case hdrs of None \<Rightarrow> [] | Some h \<Rightarrow> h)
                              ''Authorization'' (''Bearer '' @ iam_token g),
              req_json = p, req_body = None\<rparr>)"
  by (simp add: gw_request_def http_call_def split_def Let_def response_value_def)

lemma get_api_gateways_value:
  "fst (get_api_gateways g gid w) = gateways_value gid (server w (sent w) (listing_request g gid))"
  by (simp add: get_api_gateways_def gw_request_value gateways_value_def listing_request_def
      split_def Let_def split: sum.split)

lemma get_api_gateways_world:
  "snd (get_api_gateways g gid w) =
     w\<lparr>sent := Suc (sent w), trace := trace w @ [Send (listing_request g gid)]\<rparr>"
  by (simp add: get_api_gateways_def gw_request_world split_def Let_def listing_request_def)

lemma poll_round_world:
  "snd (poll_round g w) =
     w\<lparr>clock := clock w + 500, sent := Suc (sent w),
       trace := trace w @ [Sleep 500, Send (listing_request g (gateway_id g))]\<rparr>"
  by (simp add: poll_round_def split_def Let_def get_api_gateways_world py_sleep_def)

lemma poll_round_pending:
  "fst (poll_round g w) = None \<longleftrightarrow>
     poll_pending (gateway_id g) (server w (sent w) (listing_request g (gateway_id g)))"
proof -
  have v: "fst (get_api_gateways g (gateway_id g) (py_sleep 500 w)) =
      gateways_value (gateway_id g) (server w (sent w) (listing_request g (gateway_id g)))"
    by (simp add: get_api_gateways_value py_sleep_def)
  show ?thesis
    unfolding poll_round_def poll_pending_def split_def Let_def v
    by (auto split: sum.split if_split)
qed

lemma poll_round_server [simp]: "server (snd (poll_round g w)) = server w"
  by (simp add: poll_round_world)

lemma poll_round_sent [simp]: "sent (snd (poll_round g w)) = Suc (sent w)"
  by (simp add: poll_round_world)

theorem poll_active_diverges:
  assumes "\<forall>k\<ge>sent w. \<forall>r. poll_pending (gateway_id g) (server w k r)"
  shows "poll_active g w = None"
proof (rule ccontr)
  assume "poll_active g w \<noteq> None"
  then obtain x where x: "poll_active g w = Some x" by blast
  have "(\<forall>k\<ge>sent w. \<forall>r. poll_pending (gateway_id g) (server w k r)) \<longrightarrow> False"
  proof (rule poll_active.raw_induct [where P = "\<lambda>g w x. (\<forall>k\<ge>sent w. \<forall>r. poll_pending (gateway_id g) (server w k r)) \<longrightarrow> False", OF _ x])
    fix f g w y
    assume IH: "\<And>g w y. f g w = Some y \<Longrightarrow>
        (\<forall>k\<ge>sent w. \<forall>r. poll_pending (gateway_id g) (server w k r)) \<longrightarrow> False"
      and eq: "(case poll_round g w of (None, x) \<Rightarrow> f g x | (Some res, x) \<Rightarrow> Some res) = Some y"
    show "(\<forall>k\<ge>sent w. \<forall>r. poll_pending (gateway_id g) (server w k r)) \<longrightarrow> False"
    proof
      assume pend: "\<forall>k\<ge>sent w. \<forall>r. poll_pending (gateway_id g) (server w k r)"
      then have "fst (poll_round g w) = None"
        by (simp add: poll_round_pending)
      with eq have "f g (snd (poll_round g w)) = Some y"
        by (cases "poll_round g w") auto
      moreover have "\<forall>k\<ge>sent (snd (poll_round g w)). \<forall>r.
          poll_pending (gateway_id g) (server (snd (poll_round g w)) k r)"
        using pend by simp
      ultimately show False using IH by blast
    qed
  qed
  with assms show False by blast
qed

lemma poll_round_active:
  assumes "gateways_value (gateway_id g) (server w (sent w) (listing_request g (gateway_id g))) = Inr resp"
    and "json_get resp ''status'' JNull = Inr (JStr ''ACTIVE'')"
    and "json_subscript resp ''domain'' = Inr d"
  shows "fst (poll_round g w) = Some (Inr resp,
           g\<lparr>gateway_is_active := True, gateway_url := Some (''https://'' @ py_str d)\<rparr>,
           snd (poll_round g w))"
proof -
  have v: "fst (get_api_gateways g (gateway_id g) (py_sleep 500 w)) = Inr resp"
    using assms(1) by (simp add: get_api_gateways_value py_sleep_def)
  show ?thesis
    using assms(2,3) unfolding poll_round_def split_def Let_def v by simp
qed

lemma poll_active_unfold:
  "poll_active g w = (case fst (poll_round g w) of None \<Rightarrow> poll_active g (snd (poll_round g w)) | Some res \<Rightarrow> Some res)"
  by (subst poll_active.simps) (simp add: split_def split: option.split)

theorem poll_active_reaches_active:
  assumes pend: "\<forall>j<k. \<forall>r. poll_pending (gateway_id g) (server w (sent w + j) r)"
    and act: "\<forall>r. gateways_value (gateway_id g) (server w (sent w + k) r) = Inr resp"
    and st: "json_get resp ''status'' JNull = Inr (JStr ''ACTIVE'')"
    and dom: "json_subscript resp ''domain'' = Inr d"
  shows "poll_active g w = Some (Inr resp,
           g\<lparr>gateway_is_active := True, gateway_url := Some (''https://'' @ py_str d)\<rparr>,
           w\<lparr>clock := clock w + 500 * Suc k, sent := sent w + Suc k,
             trace := trace w @ concat (replicate (Suc k) [Sleep 500, Send (listing_request g (gateway_id g))])\<rparr>)"
  using pend act
proof (induction k arbitrary: w)
  case 0
  then have "fst (poll_round g w) = Some (Inr resp,
           g\<lparr>gateway_is_active := True, gateway_url := Some (''https://'' @ py_str d)\<rparr>,
           snd (poll_round g w))"
    using st dom by (intro poll_round_active) simp
  then show ?case
    by (simp add: poll_active_unfold poll_round_world)
next
  case (Suc k)
  let ?w2 = "snd (poll_round g w)"
  from Suc.prems(1) have "poll_pending (gateway_id g) (server w (sent w) (listing_request g (gateway_id g)))"
    by (metis add_0_right zero_less_Suc)
  then have "fst (poll_round g w) = None"
    by (simp add: poll_round_pending)
  then have step: "poll_active g w = poll_active g ?w2"
    by (simp add: poll_active_unfold)
  have "\<forall>j<k. \<forall>r. poll_pending (gateway_id g) (server ?w2 (sent ?w2 + j) r)"
    using Suc.prems(1) by auto
  moreover have "\<forall>r. gateways_value (gateway_id g) (server ?w2 (sent ?w2 + k) r) = Inr resp"
    using Suc.prems(2) by simp
  ultimately have "poll_active g ?w2 = Some (Inr resp,
           g\<lparr>gateway_is_active := True, gateway_url := Some (''https://'' @ py_str d)\<rparr>,
           ?w2\<lparr>clock := clock ?w2 + 500 * Suc k, sent := sent ?w2 + Suc k,
             trace := trace ?w2 @ concat (replicate (Suc k) [Sleep 500, Send (listing_request g (gateway_id g))])\<rparr>)"
    by (rule Suc.IH)
  then show ?case
    by (simp add: step poll_round_world)
qed

lemma find_gateway_none:
  "\<forall>x\<in>set items. \<exists>n. json_subscript x ''name'' = Inr n \<and> n \<noteq> JStr (gateway_name g)
   \<Longrightarrow> find_gateway g items = (Inr None, g)"
  by (induction items) auto

lemma find_gateway_match:
  assumes "\<forall>x\<in>set pre. \<exists>n. json_subscript x ''name'' = Inr n \<and> n \<noteq> JStr (gateway_name g)"
    and "json_subscript gw ''name'' = Inr (JStr (gateway_name g))"
    and "json_subscript gw ''id'' = Inr i" and "json_subscript gw ''domain'' = Inr d"
  shows "find_gateway g (pre @ gw # post) =
           (Inr (Some gw), g\<lparr>gateway_id := i, gateway_url := Some (''https://'' @ py_str d)\<rparr>)"
  using assms by (induction pre) auto

lemma py_truthy_JNull [simp]: "\<not> py_truthy JNull"
  by simp

text \<open>C9: When the folder listing contains a gateway whose name matches, init_gateway adopts the first match after a single listing call: it stores the id and https://<domain>, makes no creation call and no poll, and leaves gateway_is_active False.\<close>

theorem init_adopts_existing:
  assumes list: "\<forall>r. gateways_value JNull (server w (sent w) r) = Inr (JList (pre @ gw # post))"
    and pre: "\<forall>x\<in>set pre. \<exists>n. json_subscript x ''name'' = Inr n \<and> n \<noteq> JStr (gateway_name g)"
    and gw: "json_subscript gw ''name'' = Inr (JStr (gateway_name g))"
      "json_subscript gw ''id'' = Inr i" "json_subscript gw ''domain'' = Inr d"
  shows "init_gateway g w =
     Some (Inr gw, g\<lparr>gateway_id := i, gateway_url := Some (''https://'' @ py_str d)\<rparr>,
           w\<lparr>sent := Suc (sent w), trace := trace w @ [Send (listing_request g JNull)]\<rparr>)"
proof -
  have "fst (get_api_gateways g JNull w) = Inr (JList (pre @ gw # post))"
    using list by (simp add: get_api_gateways_value)
  with find_gateway_match [OF pre gw, of post] show ?thesis
    by (simp add: init_gateway_def split_def Let_def get_api_gateways_world)
qed

lemma init_gateway_create:
  assumes list: "\<forall>r. gateways_value JNull (server w (sent w) r) = Inr lst"
    and iter: "py_iter lst = Inr items"
    and nomatch: "\<forall>x\<in>set items. \<exists>n. json_subscript x ''name'' = Inr n \<and> n \<noteq> JStr (gateway_name g)"
    and post: "\<forall>r. response_value (server w (Suc (sent w)) r) = Inr resp"
    and meta: "json_get resp ''metadata'' (JDict []) = Inr md"
    and idv: "json_get md ''apiGatewayId'' JNull = Inr gid"
  shows "init_gateway g w = poll_active (g\<lparr>gateway_id := gid\<rparr>)
           (w\<lparr>sent := Suc (Suc (sent w)),
              trace := trace w @ [Send (listing_request g JNull), Send (create_request g)]\<rparr>)"
proof -
  have l: "fst (get_api_gateways g JNull w) = Inr lst"
    using list by (simp add: get_api_gateways_value)
  have p: "create_payload g = Inr (JDict [(''folderId'', JStr (folder_id g)), (''name'', JStr (gateway_name g)),
                              (''openapiSpec'', JStr (openapi_document (base_url g) (host g)))])"
    by (simp add: create_payload_def percent_format_openapi)
  show ?thesis
    using l iter find_gateway_none [OF nomatch] p post meta idv
    by (simp add: init_gateway_def split_def Let_def get_api_gateways_world gw_request_value
        gw_request_world create_request_def)
qed

text \<open>C1: When the folder has no gateway of that name, init_gateway issues one listing, one creation POST, then polls by id every 500 ms; if the gateway is reported ACTIVE at the k-th poll, init_gateway returns with is_active set, gateway_url = https://<domain>, exactly k+1 polls sent and 500(k+1) ms slept.\<close>

theorem init_creates_then_active:
  assumes list: "\<forall>r. gateways_value JNull (server w (sent w) r) = Inr (JList items)"
    and nomatch: "\<forall>x\<in>set items. \<exists>n. json_subscript x ''name'' = Inr n \<and> n \<noteq> JStr (gateway_name g)"
    and post: "\<forall>r. response_value (server w (Suc (sent w)) r) =
                 Inr (JDict [(''metadata'', JDict [(''apiGatewayId'', JStr gid)])])"
    and gid: "gid \<noteq> []"
    and pend: "\<forall>j<k. \<forall>r. poll_pending (JStr gid) (server w (sent w + 2 + j) r)"
    and act: "\<forall>r. response_value (server w (sent w + 2 + k) r) = Inr resp"
    and st: "json_get resp ''status'' JNull = Inr (JStr ''ACTIVE'')"
    and dom: "json_subscript resp ''domain'' = Inr d"
  shows "\<exists>w'. init_gateway g w =
            Some (Inr resp, g\<lparr>gateway_id := JStr gid, gateway_is_active := True,
                              gateway_url := Some (''https://'' @ py_str d)\<rparr>, w')
          \<and> requests_of (trace w') = requests_of (trace w) @
              [listing_request g JNull, create_request g] @
              replicate (Suc k) (listing_request (g\<lparr>gateway_id := JStr gid\<rparr>) (JStr gid))
          \<and> clock w' = clock w + 500 * Suc k"
proof -
  let ?g1 = "g\<lparr>gateway_id := JStr gid\<rparr>"
  let ?w2 = "w\<lparr>sent := Suc (Suc (sent w)),
              trace := trace w @ [Send (listing_request g JNull), Send (create_request g)]\<rparr>"
  have i: "init_gateway g w = poll_active ?g1 ?w2"
  proof (rule init_gateway_create [OF list _ nomatch post])
    show "py_iter (JList items) = Inr items" by simp
    show "json_get (JDict [(''metadata'', JDict [(''apiGatewayId'', JStr gid)])]) ''metadata'' (JDict [])
        = Inr (JDict [(''apiGatewayId'', JStr gid)])"
      by (simp add: dict_get_def)
    show "json_get (JDict [(''apiGatewayId'', JStr gid)]) ''apiGatewayId'' JNull = Inr (JStr gid)"
      by (simp add: dict_get_def)
  qed
  have t: "py_truthy (gateway_id ?g1)" using gid by simp
  have pend2: "\<forall>j<k. \<forall>r. poll_pending (gateway_id ?g1) (server ?w2 (sent ?w2 + j) r)"
    using pend by (simp add: add.assoc)
  have act2: "\<forall>r. gateways_value (gateway_id ?g1) (server ?w2 (sent ?w2 + k) r) = Inr resp"
    using act t by (simp add: gateways_value_def add.assoc)
  have "poll_active ?g1 ?w2 = Some (Inr resp,
           ?g1\<lparr>gateway_is_active := True, gateway_url := Some (''https://'' @ py_str d)\<rparr>,
           ?w2\<lparr>clock := clock ?w2 + 500 * Suc k, sent := sent ?w2 + Suc k,
             trace := trace ?w2 @ concat (replicate (Suc k) [Sleep 500, Send (listing_request ?g1 (gateway_id ?g1))])\<rparr>)"
    using pend2 act2 st dom by (rule poll_active_reaches_active)
  moreover have "requests_of (concat (replicate n [Sleep 500, Send r])) = replicate n r" for n r
    by (induction n) simp_all
  ultimately show ?thesis
    using i by simp
qed

text \<open>C4: If the created gateway never reports ACTIVE, init_gateway never returns (the poll loop has no bound).\<close>

theorem init_hangs_never_active:
  assumes list: "\<forall>r. gateways_value JNull (server w (sent w) r) = Inr (JList items)"
    and nomatch: "\<forall>x\<in>set items. \<exists>n. json_subscript x ''name'' = Inr n \<and> n \<noteq> JStr (gateway_name g)"
    and post: "\<forall>r. response_value (server w (Suc (sent w)) r) =
                 Inr (JDict [(''metadata'', JDict [(''apiGatewayId'', JStr gid)])])"
    and gid: "gid \<noteq> []"
    and pend: "\<forall>k\<ge>sent w + 2. \<forall>r. poll_pending (JStr gid) (server w k r)"
  shows "init_gateway g w = None"
proof -
  let ?g1 = "g\<lparr>gateway_id := JStr gid\<rparr>"
  let ?w2 = "w\<lparr>sent := Suc (Suc (sent w)),
              trace := trace w @ [Send (listing_request g JNull), Send (create_request g)]\<rparr>"
  have i: "init_gateway g w = poll_active ?g1 ?w2"
  proof (rule init_gateway_create [OF list _ nomatch post])
    show "py_iter (JList items) = Inr items" by simp
    show "json_get (JDict [(''metadata'', JDict [(''apiGatewayId'', JStr gid)])]) ''metadata'' (JDict [])
        = Inr (JDict [(''apiGatewayId'', JStr gid)])"
      by (simp add: dict_get_def)
    show "json_get (JDict [(''apiGatewayId'', JStr gid)]) ''apiGatewayId'' JNull = Inr (JStr gid)"
      by (simp add: dict_get_def)
  qed
  have "\<forall>k\<ge>sent ?w2. \<forall>r. poll_pending (gateway_id ?g1) (server ?w2 k r)"
    using pend by simp
  then have "poll_active ?g1 ?w2 = None" by (rule poll_active_diverges)
  with i show ?thesis by simp
qed

lemma client_error_value:
  "400 \<le> s \<Longrightarrow> response_value (Answered (Response s b)) = Inr (JDict [])"
  by (simp add: response_value_def)

text \<open>C5: If the control plane answers every call with a status of 400 or more, init_gateway never returns: the empty dict from the failed POST gives gateway_id None, and the poll loop then queries the folder listing forever instead of raising.\<close>

theorem init_hangs_after_failed_create:
  assumes err: "\<forall>k\<ge>sent w. \<forall>r. \<exists>s b. server w k r = Answered (Response s b) \<and> 400 \<le> s"
  shows "init_gateway g w = None"
proof -
  let ?g1 = "g\<lparr>gateway_id := JNull\<rparr>"
  let ?w2 = "w\<lparr>sent := Suc (Suc (sent w)),
              trace := trace w @ [Send (listing_request g JNull), Send (create_request g)]\<rparr>"
  have v: "\<forall>k\<ge>sent w. \<forall>r. response_value (server w k r) = Inr (JDict [])"
  proof (intro allI impI)
    fix k r
    assume "sent w \<le> k"
    with err obtain s b where "server w k r = Answered (Response s b)" "400 \<le> s" by blast
    then show "response_value (server w k r) = Inr (JDict [])" by (simp add: client_error_value)
  qed
  have i: "init_gateway g w = poll_active ?g1 ?w2"
  proof (rule init_gateway_create)
    show "\<forall>r. gateways_value JNull (server w (sent w) r) = Inr (JDict [])"
      using v by (simp add: gateways_value_def dict_get_def)
    show "py_iter (JDict []) = Inr []" by simp
    show "\<forall>x\<in>set []. \<exists>n. json_subscript x ''name'' = Inr n \<and> n \<noteq> JStr (gateway_name g)" by simp
    show "\<forall>r. response_value (server w (Suc (sent w)) r) = Inr (JDict [])"
      using v by simp
    show "json_get (JDict []) ''metadata'' (JDict []) = Inr (JDict [])"
      by (simp add: dict_get_def)
    show "json_get (JDict []) ''apiGatewayId'' JNull = Inr JNull"
      by (simp add: dict_get_def)
  qed
  have "\<forall>k\<ge>sent ?w2. \<forall>r. poll_pending (gateway_id ?g1) (server ?w2 k r)"
    using v by (simp add: poll_pending_def gateways_value_def dict_get_def)
  then have "poll_active ?g1 ?w2 = None" by (rule poll_active_diverges)
  with i show ?thesis by simp
qed

text \<open>C7: Once __enter__ has returned and the body has left a gateway id, the with statement issues exactly one DELETE of that id after the body, whether the body returned or raised, and the body's outcome stands unless the DELETE raised.\<close>

theorem with_gateway_always_closes:
  assumes enter: "init_gateway g w = Some (Inr v, g1, w1)"
    and body: "body g1 w1 = (b, g2, w2)"
    and id: "py_truthy (gateway_id g2)"
  shows "\<exists>w3. with_gateway g body w =
            Some (case fst (shutdown_gateway g2 w2) of Inl e \<Rightarrow> Inl e | Inr _ \<Rightarrow> b, g2, w3)
          \<and> requests_of (trace w3) = requests_of (trace w2) @
              [\<lparr>req_method = ''DELETE'', req_url = service_url g2 @ ''/'' @ py_str (gateway_id g2),
                req_headers = [(''Authorization'', ''Bearer '' @ iam_token g2)], req_json = None,
                req_body = None\<rparr>]"
  using assms by (simp add: with_gateway_def split_def shutdown_gateway_def gw_request_world
      cong: sum.case_cong)


theorem init_adopts_existing_witness:
  "init_gateway example_gateway (fresh_world found_control_plane) =
     Some (Inr found_gateway_json,
           example_gateway\<lparr>gateway_id := JStr ''d5e1'', gateway_url := Some (''https://'' @ py_str (JStr ''d5e1.apigw.net''))\<rparr>,
           (fresh_world found_control_plane)\<lparr>sent := Suc (sent (fresh_world found_control_plane)),
              trace := trace (fresh_world found_control_plane) @ [Send (listing_request example_gateway JNull)]\<rparr>)"
proof (rule init_adopts_existing)
  show "\<forall>r. gateways_value JNull (server (fresh_world found_control_plane) (sent (fresh_world found_control_plane)) r)
      = Inr (JList ([other_gateway_json] @ found_gateway_json # []))"
    by (simp add: fresh_world_def found_control_plane_def gateways_value_def response_value_def dict_get_def)
  show "\<forall>x\<in>set [other_gateway_json]. \<exists>n. json_subscript x ''name'' = Inr n \<and> n \<noteq> JStr (gateway_name example_gateway)"
    by (simp add: other_gateway_json_def example_gateway_def dict_get_def)
  show "json_subscript found_gateway_json ''name'' = Inr (JStr (gateway_name example_gateway))"
    by (simp add: found_gateway_json_def example_gateway_def dict_get_def)
  show "json_subscript found_gateway_json ''id'' = Inr (JStr ''d5e1'')"
    by (simp add: found_gateway_json_def dict_get_def)
  show "json_subscript found_gateway_json ''domain'' = Inr (JStr ''d5e1.apigw.net'')"
    by (simp add: found_gateway_json_def dict_get_def)
qed

theorem init_creates_then_active_witness:
  "\<exists>w'. init_gateway example_gateway (fresh_world polling_control_plane) =
            Some (Inr active_json, example_gateway\<lparr>gateway_id := JStr ''d5e1'', gateway_is_active := True,
                              gateway_url := Some (''https://'' @ py_str (JStr ''d5e1.apigw.net''))\<rparr>, w')
          \<and> requests_of (trace w') = requests_of (trace (fresh_world polling_control_plane)) @
              [listing_request example_gateway JNull, create_request example_gateway] @
              replicate (Suc 2) (listing_request (example_gateway\<lparr>gateway_id := JStr ''d5e1''\<rparr>) (JStr ''d5e1''))
          \<and> clock w' = clock (fresh_world polling_control_plane) + 500 * Suc 2"
proof (rule init_creates_then_active)
  let ?w = "fresh_world polling_control_plane"
  show "\<forall>r. gateways_value JNull (server ?w (sent ?w) r) = Inr (JList [other_gateway_json])"
    by (simp add: fresh_world_def polling_control_plane_def gateways_value_def response_value_def dict_get_def)
  show "\<forall>x\<in>set [other_gateway_json]. \<exists>n. json_subscript x ''name'' = Inr n \<and> n \<noteq> JStr (gateway_name example_gateway)"
    by (simp add: other_gateway_json_def example_gateway_def dict_get_def)
  show "\<forall>r. response_value (server ?w (Suc (sent ?w)) r) =
          Inr (JDict [(''metadata'', JDict [(''apiGatewayId'', JStr ''d5e1'')])])"
    by (simp add: fresh_world_def polling_control_plane_def response_value_def)
  show "''d5e1'' \<noteq> []" by simp
  show "\<forall>j<2. \<forall>r. poll_pending (JStr ''d5e1'') (server ?w (sent ?w + 2 + j) r)"
    by (simp add: fresh_world_def polling_control_plane_def poll_pending_def gateways_value_def
        response_value_def dict_get_def numeral_2_eq_2 less_Suc_eq)
  show "\<forall>r. response_value (server ?w (sent ?w + 2 + 2) r) = Inr active_json"
    by (simp add: fresh_world_def polling_control_plane_def response_value_def)
  show "json_get active_json ''status'' JNull = Inr (JStr ''ACTIVE'')"
    by (simp add: active_json_def dict_get_def)
  show "json_subscript active_json ''domain'' = Inr (JStr ''d5e1.apigw.net'')"
    by (simp add: active_json_def dict_get_def)
qed

theorem init_hangs_never_active_witness:
  "init_gateway example_gateway (fresh_world stuck_control_plane) = None"
proof (rule init_hangs_never_active)
  let ?w = "fresh_world stuck_control_plane"
  show "\<forall>r. gateways_value JNull (server ?w (sent ?w) r) = Inr (JList [])"
    by (simp add: fresh_world_def stuck_control_plane_def gateways_value_def response_value_def dict_get_def)
  show "\<forall>x\<in>set []. \<exists>n. json_subscript x ''name'' = Inr n \<and> n \<noteq> JStr (gateway_name example_gateway)"
    by simp
  show "\<forall>r. response_value (server ?w (Suc (sent ?w)) r) =
          Inr (JDict [(''metadata'', JDict [(''apiGatewayId'', JStr ''d5e1'')])])"
    by (simp add: fresh_world_def stuck_control_plane_def response_value_def)
  show "''d5e1'' \<noteq> []" by simp
  show "\<forall>k\<ge>sent ?w + 2. \<forall>r. poll_pending (JStr ''d5e1'') (server ?w k r)"
    by (simp add: fresh_world_def stuck_control_plane_def poll_pending_def gateways_value_def
        response_value_def dict_get_def)
qed

theorem init_hangs_after_failed_create_witness:
  "init_gateway example_gateway (fresh_world denying_control_plane) = None"
proof (rule init_hangs_after_failed_create)
  show "\<forall>k\<ge>sent (fresh_world denying_control_plane). \<forall>r. \<exists>s b.
      server (fresh_world denying_control_plane) k r = Answered (Response s b) \<and> 400 \<le> s"
    by (simp add: fresh_world_def denying_control_plane_def)
qed

theorem with_gateway_always_closes_witness:
  "\<exists>w3. with_gateway example_gateway (\<lambda>g w. (Inl (ValueError ''boom''), g, w)) (fresh_world found_control_plane) =
          Some (case fst (shutdown_gateway (example_gateway\<lparr>gateway_id := JStr ''d5e1'', gateway_url := Some ''https://d5e1.apigw.net''\<rparr>)
                   ((fresh_world found_control_plane)\<lparr>sent := 1, trace := [Send (listing_request example_gateway JNull)]\<rparr>)) of
                  Inl e \<Rightarrow> Inl e | Inr _ \<Rightarrow> Inl (ValueError ''boom''),
                example_gateway\<lparr>gateway_id := JStr ''d5e1'', gateway_url := Some ''https://d5e1.apigw.net''\<rparr>, w3)
        \<and> requests_of (trace w3) =
            requests_of (trace ((fresh_world found_control_plane)\<lparr>sent := 1, trace := [Send (listing_request example_gateway JNull)]\<rparr>)) @
            [\<lparr>req_method = ''DELETE'',
              req_url = service_url (example_gateway\<lparr>gateway_id := JStr ''d5e1'', gateway_url := Some ''https://d5e1.apigw.net''\<rparr>) @ ''/''
                        @ py_str (gateway_id (example_gateway\<lparr>gateway_id := JStr ''d5e1'', gateway_url := Some ''https://d5e1.apigw.net''\<rparr>)),
              req_headers = [(''Authorization'', ''Bearer '' @ iam_token (example_gateway\<lparr>gateway_id := JStr ''d5e1'', gateway_url := Some ''https://d5e1.apigw.net''\<rparr>))],
              req_json = None, req_body = None\<rparr>]"
proof (rule with_gateway_always_closes)
  show "init_gateway example_gateway (fresh_world found_control_plane) =
     Some (Inr found_gateway_json, example_gateway\<lparr>gateway_id := JStr ''d5e1'', gateway_url := Some ''https://d5e1.apigw.net''\<rparr>,
           (fresh_world found_control_plane)\<lparr>sent := 1, trace := [Send (listing_request example_gateway JNull)]\<rparr>)"
    by (simp add: init_gateway_def split_def Let_def get_api_gateways_value get_api_gateways_world
        fresh_world_def found_control_plane_def found_gateway_json_def other_gateway_json_def
        gateways_value_def response_value_def dict_get_def example_gateway_def)
  show "(\<lambda>g w. (Inl (ValueError ''boom''), g, w))
          (example_gateway\<lparr>gateway_id := JStr ''d5e1'', gateway_url := Some ''https://d5e1.apigw.net''\<rparr>)
          ((fresh_world found_control_plane)\<lparr>sent := 1, trace := [Send (listing_request example_gateway JNull)]\<rparr>)
        = (Inl (ValueError ''boom''),
           example_gateway\<lparr>gateway_id := JStr ''d5e1'', gateway_url := Some ''https://d5e1.apigw.net''\<rparr>,
           (fresh_world found_control_plane)\<lparr>sent := 1, trace := [Send (listing_request example_gateway JNull)]\<rparr>)"
    by simp
  show "py_truthy (gateway_id (example_gateway\<lparr>gateway_id := JStr ''d5e1'', gateway_url := Some ''https://d5e1.apigw.net''\<rparr>))"
    by simp
qed

end
