(* ===== verification/Lifecycle.thy ===== *)
theory Lifecycle
  imports Provision
begin

text \<open>
  The lifecycle the spec gives the gateway object (section 4.2) as an abstract state
  machine, and the refinement of \<open>init_gateway\<close> and \<open>shutdown_gateway\<close>
  (theories \<open>Provision\<close>, \<open>Gateway\<close>) into it. The abstract machine moves between the
  spec's states by internal steps (decisions the client makes without a call) and by
  control-plane calls: the folder listing, the creation POST, the poll of a gateway by id,
  and the DELETE. A concrete run is mapped to the abstract calls it makes by classifying each
  request of its trace by method and URL; the object's state is mapped to a phase by
  \<open>phase_of\<close>. The refinement theorem says that every run of \<open>init_gateway\<close> that
  ends with a gateway id makes a sequence of calls the machine accepts, ending in the phase of
  the object's final state; the counterexample shows the run the machine rejects (a failed
  creation followed by folder listings).
\<close>

datatype phase = UNINITIALIZED | LOOKING_UP | CREATING | POLLING | ACTIVE | DELETING | TERMINATED

datatype ctl = CList | CCreate | CPoll | CDelete

text \<open>Steps of the machine; \<open>None\<close> labels an internal step.\<close>

inductive spec_step :: "phase \<Rightarrow> ctl option \<Rightarrow> phase \<Rightarrow> bool" where
  open_lookup: "spec_step UNINITIALIZED (Some CList) LOOKING_UP"
| found: "spec_step LOOKING_UP None POLLING"
| not_found: "spec_step LOOKING_UP None CREATING"
| submit: "spec_step CREATING (Some CCreate) POLLING"
| poll: "spec_step POLLING (Some CPoll) POLLING"
| activated: "spec_step POLLING None ACTIVE"
| close_active: "spec_step ACTIVE (Some CDelete) DELETING"
| close_polling: "spec_step POLLING (Some CDelete) DELETING"
| deleted: "spec_step DELETING None TERMINATED"
| close_noop: "p \<in> {UNINITIALIZED, LOOKING_UP, CREATING} \<Longrightarrow> spec_step p None TERMINATED"

text \<open>Runs of the machine: the calls made on the way from one phase to another.\<close>

inductive spec_run :: "phase \<Rightarrow> ctl list \<Rightarrow> phase \<Rightarrow> bool" where
  run_nil: "spec_run p [] p"
| run_tau: "spec_step p None q \<Longrightarrow> spec_run q cs r \<Longrightarrow> spec_run p cs r"
| run_call: "spec_step p (Some c) q \<Longrightarrow> spec_run q cs r \<Longrightarrow> spec_run p (c # cs) r"

code_pred spec_step .

code_pred spec_run .

text \<open>The control-plane call a request is, given the service URL and the folder.\<close>

definition classify :: "string \<Rightarrow> string \<Rightarrow> http_request \<Rightarrow> ctl option" where
  "classify su fid r =
     (if req_method r = ''GET'' \<and> req_url r = su @ ''?folderId='' @ fid then Some CList
      else if req_method r = ''POST'' \<and> req_url r = su then Some CCreate
      else if req_method r = ''GET'' \<and> starts_with (su @ ''/'') (req_url r) then Some CPoll
      else if req_method r = ''DELETE'' \<and> starts_with (su @ ''/'') (req_url r) then Some CDelete
      else None)"

definition ctl_trace :: "gateway \<Rightarrow> event list \<Rightarrow> ctl list" where
  "ctl_trace g es = List.map_filter (classify (service_url g) (folder_id g)) (requests_of es)"

definition phase_of :: "gateway \<Rightarrow> phase" where
  "phase_of g =
     (if gateway_is_active g then ACTIVE else if py_truthy (gateway_id g) then POLLING else UNINITIALIZED)"

text \<open>A control plane that refuses the creation (403) and otherwise lists an empty folder.\<close>

definition refusing_control_plane :: "nat \<Rightarrow> http_request \<Rightarrow> http_outcome" where
  "refusing_control_plane k r =
     (if k = 1 then Answered (Response 403 (Some (JDict [(''message'', JStr ''Permission denied'')])))
      else Answered (Response 200 (Some (JDict [(''apiGateways'', JList [])]))))"

subsection \<open>Lemmas\<close>


inductive_simps spec_step_iff: "spec_step p l q"

lemma spec_run_list_once:
  "spec_run p cs q \<Longrightarrow> (p \<noteq> UNINITIALIZED \<longrightarrow> CList \<notin> set cs) \<and> count_list cs CList \<le> 1"
proof (induction rule: spec_run.induct)
  case (run_tau p q cs r)
  then show ?case by (auto simp: spec_step_iff)
next
  case (run_call p c q cs r)
  then show ?case by (auto simp: spec_step_iff)
qed simp

lemma spec_run_polls: "spec_run POLLING (replicate k CPoll) POLLING"
  by (induction k) (auto intro: spec_run.intros spec_step.intros)

lemma spec_run_created:
  "spec_run UNINITIALIZED ([CList, CCreate] @ replicate k CPoll) POLLING"
  "spec_run UNINITIALIZED ([CList, CCreate] @ replicate k CPoll) ACTIVE"
proof -
  have c: "spec_run CREATING (CCreate # replicate k CPoll) POLLING"
    by (rule run_call [OF submit spec_run_polls])
  then show "spec_run UNINITIALIZED ([CList, CCreate] @ replicate k CPoll) POLLING"
    by (auto intro: run_call [OF open_lookup] run_tau [OF not_found])
  have "spec_run POLLING [] ACTIVE" by (rule run_tau [OF activated run_nil])
  then have "spec_run POLLING (replicate k CPoll) ACTIVE"
    by (induction k) (auto intro: run_call [OF poll])
  then have "spec_run CREATING (CCreate # replicate k CPoll) ACTIVE"
    by (rule run_call [OF submit])
  then show "spec_run UNINITIALIZED ([CList, CCreate] @ replicate k CPoll) ACTIVE"
    by (auto intro: run_call [OF open_lookup] run_tau [OF not_found])
qed

lemma spec_run_found: "spec_run UNINITIALIZED [CList] POLLING"
  by (rule run_call [OF open_lookup run_tau [OF found run_nil]])

lemma spec_run_append: "spec_run p cs q \<Longrightarrow> spec_run q ds r \<Longrightarrow> spec_run p (cs @ ds) r"
  by (induction rule: spec_run.induct) (auto intro: spec_run.intros)

lemma spec_run_close: "p \<in> {POLLING, ACTIVE} \<Longrightarrow> spec_run p [CDelete] TERMINATED"
  by (auto intro: run_call [OF close_active] run_call [OF close_polling] run_tau [OF deleted] run_nil)

lemma classify_listing: "classify (service_url g) (folder_id g) (listing_request g JNull) = Some CList"
  by (simp add: classify_def listing_request_def)

lemma classify_poll:
  "py_truthy gid \<Longrightarrow> classify (service_url g) (folder_id g) (listing_request g gid) = Some CPoll"
  by (simp add: classify_def listing_request_def starts_with_iff)

lemma ctl_trace_append [simp]: "ctl_trace g (xs @ ys) = ctl_trace g xs @ ctl_trace g ys"
  by (simp add: ctl_trace_def List.map_filter_def)

lemma ctl_trace_simps [simp]:
  "ctl_trace g [] = []"
  "ctl_trace g (Sleep n # es) = ctl_trace g es"
  "ctl_trace g (Send r # es) = (case classify (service_url g) (folder_id g) r of None \<Rightarrow> [] | Some c \<Rightarrow> [c]) @ ctl_trace g es"
  by (simp_all add: ctl_trace_def List.map_filter_def split: option.split)


lemma poll_round_some:
  "fst (poll_round g w) = Some (r, g', w'') \<Longrightarrow>
   w'' = snd (poll_round g w) \<and> gateway_id g' = gateway_id g \<and> service_url g' = service_url g
   \<and> folder_id g' = folder_id g"
  by (auto simp: poll_round_def split_def Let_def split: sum.splits if_splits)

lemma poll_active_rounds:
  assumes "poll_active g w = Some (r, g', w')"
  shows "\<exists>k. trace w' = trace w @ concat (replicate (Suc k) [Sleep 500, Send (listing_request g (gateway_id g))])
           \<and> gateway_id g' = gateway_id g \<and> service_url g' = service_url g \<and> folder_id g' = folder_id g"
proof -
  let ?R = "\<lambda>g w. [Sleep 500, Send (listing_request g (gateway_id g))]"
  let ?Q = "\<lambda>g w g' w'. \<exists>k. trace w' = trace w @ concat (replicate (Suc k) (?R g w))
           \<and> gateway_id g' = gateway_id g \<and> service_url g' = service_url g \<and> folder_id g' = folder_id g"
  let ?P = "\<lambda>g w y. ?Q g w (fst (snd y)) (snd (snd y))"
  have "?P g w (r, g', w')"
  proof (rule poll_active.raw_induct [where P = ?P, OF _ assms])
    fix f g w y
    assume IH: "\<And>g w y. f g w = Some y \<Longrightarrow> ?P g w y"
      and eq: "(case poll_round g w of (Some res, _) \<Rightarrow> Some res | (None, w2) \<Rightarrow> f g w2) = Some y"
    obtain x w2 where pr: "poll_round g w = (x, w2)" by fastforce
    have tw: "trace w2 = trace w @ ?R g w"
      using poll_round_world [of g w] pr by simp
    show "?P g w y"
    proof (cases x)
      case None
      with eq pr have "f g w2 = Some y" by simp
      from IH [OF this] obtain k where k:
        "trace (snd (snd y)) = trace w2 @ concat (replicate (Suc k) (?R g w))"
        "gateway_id (fst (snd y)) = gateway_id g" "service_url (fst (snd y)) = service_url g"
        "folder_id (fst (snd y)) = folder_id g"
        by blast
      have "trace (snd (snd y)) = trace w @ concat (replicate (Suc (Suc k)) (?R g w))"
        using k(1) tw by simp
      with k(2-4) show ?thesis by blast
    next
      case (Some res)
      with eq pr have y: "res = y" by simp
      obtain r1 g1 w1 where yy: "y = (r1, g1, w1)" by (cases y) auto
      from poll_round_some [of g w r1 g1 w1] pr Some y yy
      have "w1 = w2" "gateway_id g1 = gateway_id g" "service_url g1 = service_url g" "folder_id g1 = folder_id g"
        by simp_all
      moreover have "trace w2 = trace w @ concat (replicate (Suc 0) (?R g w))" using tw by simp
      ultimately show ?thesis using yy by auto
    qed
  qed
  then show ?thesis by simp
qed

lemma ctl_trace_rounds:
  assumes "py_truthy gid" "service_url g' = service_url g" "folder_id g' = folder_id g"
  shows "ctl_trace g (concat (replicate n [Sleep 500, Send (listing_request g' gid)])) = replicate n CPoll"
proof -
  have "classify (service_url g) (folder_id g) (listing_request g' gid) = Some CPoll"
    using classify_poll [OF assms(1), of g'] assms(2,3) by simp
  then show ?thesis by (induction n) simp_all
qed

lemma find_gateway_fields:
  "find_gateway g items = (x, g1) \<Longrightarrow>
   service_url g1 = service_url g \<and> folder_id g1 = folder_id g \<and> gateway_is_active g1 = gateway_is_active g
   \<and> (x = Inr None \<longrightarrow> g1 = g)"
  by (induction g items rule: find_gateway.induct) (auto split: sum.splits if_splits)


lemma create_payload_Inr: "\<exists>p. create_payload g = Inr p"
  by (simp add: create_payload_def percent_format_openapi)

lemma init_gateway_inv:
  assumes init: "init_gateway g w = Some (r, g', w')" and fresh: "gateway_id g = JNull"
    and gid: "py_truthy (gateway_id g')"
  obtains (found) gl items x where "get_api_gateways g JNull w = (Inr gl, w')" "py_iter gl = Inr items"
      "find_gateway g items = (x, g')"
  | (created) gl items w1 p resp md i w2 where "get_api_gateways g JNull w = (Inr gl, w1)"
      "py_iter gl = Inr items" "find_gateway g items = (Inr None, g)"
      "gw_request g ''POST'' (service_url g) None (Some p) w1 = (Inr resp, w2)"
      "json_get resp ''metadata'' (JDict []) = Inr md" "json_get md ''apiGatewayId'' JNull = Inr i"
      "poll_active (g\<lparr>gateway_id := i\<rparr>) w2 = Some (r, g', w')"
proof -
  have ng: "g' \<noteq> g" using fresh gid by auto
  obtain lr w1 where gl: "get_api_gateways g JNull w = (lr, w1)" by fastforce
  obtain gl where lr: "lr = Inr gl"
    using init ng gl by (cases lr) (auto simp: init_gateway_def)
  obtain items where it: "py_iter gl = Inr items"
    using init ng gl lr by (cases "py_iter gl") (auto simp: init_gateway_def)
  obtain x g1 where fg: "find_gateway g items = (x, g1)" by fastforce
  show ?thesis
  proof (cases "x = Inr None")
    case False
    then have "g' = g1 \<and> w' = w1"
      using init gl lr it fg by (auto simp: init_gateway_def split: sum.splits option.splits)
    then show ?thesis using found gl lr it fg by simp
  next
    case True
    then have g1: "g1 = g" using find_gateway_fields [OF fg] by simp
    obtain p where p: "create_payload g = Inr p" using create_payload_Inr by blast
    obtain r2 w2 where post: "gw_request g ''POST'' (service_url g) None (Some p) w1 = (r2, w2)" by fastforce
    obtain resp where r2: "r2 = Inr resp"
      using init ng gl lr it fg True g1 p post by (cases r2) (auto simp: init_gateway_def)
    obtain md where md: "json_get resp ''metadata'' (JDict []) = Inr md"
      using init ng gl lr it fg True g1 p post r2
      by (cases "json_get resp ''metadata'' (JDict [])") (auto simp: init_gateway_def)
    obtain i where i: "json_get md ''apiGatewayId'' JNull = Inr i"
      using init ng gl lr it fg True g1 p post r2 md
      by (cases "json_get md ''apiGatewayId'' JNull") (auto simp: init_gateway_def)
    have "poll_active (g\<lparr>gateway_id := i\<rparr>) w2 = Some (r, g', w')"
      using init gl lr it fg True g1 p post r2 md i by (simp add: init_gateway_def)
    then show ?thesis using created gl lr it fg True g1 post r2 md i by simp
  qed
qed


lemma init_ctl_shape:
  assumes init: "init_gateway g w = Some (r, g', w')" and fresh: "gateway_id g = JNull"
    and idle: "\<not> gateway_is_active g" and gid: "py_truthy (gateway_id g')"
  shows "\<exists>new. trace w' = trace w @ new \<and> service_url g' = service_url g \<and> folder_id g' = folder_id g \<and>
           (ctl_trace g new = [CList] \<and> phase_of g' = POLLING
            \<or> (\<exists>k. ctl_trace g new = [CList, CCreate] @ replicate k CPoll \<and> phase_of g' \<in> {POLLING, ACTIVE}))"
  using init fresh gid
proof (cases rule: init_gateway_inv)
  case (found gl items x)
  have "trace w' = trace w @ [Send (listing_request g JNull)]"
    using get_api_gateways_world [of g JNull w] found(1) by simp
  moreover have "phase_of g' = POLLING"
    using find_gateway_fields [OF found(3)] idle gid by (simp add: phase_of_def)
  moreover have "service_url g' = service_url g \<and> folder_id g' = folder_id g"
    using find_gateway_fields [OF found(3)] by simp
  ultimately show ?thesis by (auto simp: classify_listing)
next
  case (created gl items w1 p resp md i w2)
  obtain k where k: "trace w' = trace w2 @ concat (replicate (Suc k) [Sleep 500, Send (listing_request (g\<lparr>gateway_id := i\<rparr>) i)])"
      "gateway_id g' = i" "service_url g' = service_url g" "folder_id g' = folder_id g"
    using poll_active_rounds [OF created(7)] by auto
  have t1: "trace w1 = trace w @ [Send (listing_request g JNull)]"
    using get_api_gateways_world [of g JNull w] created(1) by simp
  obtain req where t2: "trace w2 = trace w1 @ [Send req]" and rq: "req_method req = ''POST''" "req_url req = service_url g"
    using gw_request_world [of g "''POST''" "service_url g" None "Some p" w1] created(4) by auto
  have cr: "classify (service_url g) (folder_id g) req = Some CCreate"
    using rq by (simp add: classify_def)
  have "ctl_trace g (concat (replicate (Suc k) [Sleep 500, Send (listing_request (g\<lparr>gateway_id := i\<rparr>) i)]))
      = replicate (Suc k) CPoll"
    using gid k(2) by (intro ctl_trace_rounds) simp_all
  moreover have "phase_of g' \<in> {POLLING, ACTIVE}" using gid by (simp add: phase_of_def)
  ultimately show ?thesis
    using k t1 t2 cr by (auto simp: classify_listing intro!: exI [of _ "Suc k"])
qed

text \<open>C2: Every run of init_gateway from a fresh object that ends with a gateway id makes control-plane calls (listing, creation, polls by id) that the spec's lifecycle machine accepts from UNINITIALIZED, ending in the phase of the object's final state (POLLING or ACTIVE).\<close>

theorem init_refines_lifecycle:
  assumes "init_gateway g w = Some (r, g', w')" "gateway_id g = JNull" "\<not> gateway_is_active g"
    "py_truthy (gateway_id g')"
  shows "\<exists>new. trace w' = trace w @ new \<and> spec_run UNINITIALIZED (ctl_trace g new) (phase_of g')"
  using init_ctl_shape [OF assms] spec_run_found spec_run_created by fastforce


text \<open>C3: A with block whose __enter__ obtained a gateway id and whose body makes no control-plane call performs a run of the spec's lifecycle machine from UNINITIALIZED to TERMINATED (listing, optional creation and polls, then the DELETE).\<close>

theorem with_gateway_refines_lifecycle:
  assumes init: "init_gateway g w = Some (Inr v, g1, w1)" and fresh: "gateway_id g = JNull"
    and idle: "\<not> gateway_is_active g" and gid: "py_truthy (gateway_id g1)"
    and body: "body g1 w1 = (b, g1, w2)" "trace w2 = trace w1 @ es" "ctl_trace g es = []"
  shows "\<exists>new r w3. with_gateway g body w = Some (r, g1, w3) \<and> trace w3 = trace w @ new
           \<and> spec_run UNINITIALIZED (ctl_trace g new) TERMINATED"
proof -
  obtain new1 where n1: "trace w1 = trace w @ new1" "service_url g1 = service_url g" "folder_id g1 = folder_id g"
      and acc: "spec_run UNINITIALIZED (ctl_trace g new1) (phase_of g1)"
      and ph: "phase_of g1 \<in> {POLLING, ACTIVE}"
    using init_ctl_shape [OF init fresh idle gid] spec_run_found spec_run_created by fastforce
  obtain x w3 where sd: "shutdown_gateway g1 w2 = (x, w3)" by fastforce
  have t3: "trace w3 = trace w2 @ [Send \<lparr>req_method = ''DELETE'', req_url = service_url g1 @ ''/'' @ py_str (gateway_id g1),
        req_headers = [(''Authorization'', ''Bearer '' @ iam_token g1)], req_json = None, req_body = None\<rparr>]"
  proof -
    have "w3 = snd (shutdown_gateway g1 w2)" using sd by simp
    then show ?thesis using gid by (simp add: shutdown_gateway_def gw_request_world)
  qed
  have "ctl_trace g (es @ [Send \<lparr>req_method = ''DELETE'', req_url = service_url g1 @ ''/'' @ py_str (gateway_id g1),
        req_headers = [(''Authorization'', ''Bearer '' @ iam_token g1)], req_json = None, req_body = None\<rparr>]) = [CDelete]"
    using body(3) n1(2) by (simp add: classify_def starts_with_iff)
  moreover have "spec_run UNINITIALIZED (ctl_trace g new1 @ [CDelete]) TERMINATED"
    using acc spec_run_close [OF ph] by (rule spec_run_append)
  moreover have "with_gateway g body w = Some (case x of Inl e \<Rightarrow> Inl e | Inr _ \<Rightarrow> b, g1, w3)"
    using init body(1) sd by (simp add: with_gateway_def)
  ultimately show ?thesis
    using n1(1) body(2) t3 by (intro exI [of _ "new1 @ es @ [Send \<lparr>req_method = ''DELETE'',
        req_url = service_url g1 @ ''/'' @ py_str (gateway_id g1),
        req_headers = [(''Authorization'', ''Bearer '' @ iam_token g1)], req_json = None, req_body = None\<rparr>]"]) auto
qed


theorem init_refines_lifecycle_witness:
  "\<exists>new. trace ((fresh_world found_control_plane)\<lparr>sent := 1, trace := [Send (listing_request example_gateway JNull)]\<rparr>)
      = trace (fresh_world found_control_plane) @ new
    \<and> spec_run UNINITIALIZED (ctl_trace example_gateway new)
        (phase_of (example_gateway\<lparr>gateway_id := JStr ''d5e1'', gateway_url := Some ''https://d5e1.apigw.net''\<rparr>))"
proof (rule init_refines_lifecycle)
  show "init_gateway example_gateway (fresh_world found_control_plane) =
     Some (Inr found_gateway_json, example_gateway\<lparr>gateway_id := JStr ''d5e1'', gateway_url := Some ''https://d5e1.apigw.net''\<rparr>,
           (fresh_world found_control_plane)\<lparr>sent := 1, trace := [Send (listing_request example_gateway JNull)]\<rparr>)"
    by (simp add: init_gateway_def split_def Let_def get_api_gateways_value get_api_gateways_world
        fresh_world_def found_control_plane_def found_gateway_json_def other_gateway_json_def
        gateways_value_def response_value_def dict_get_def example_gateway_def)
qed (simp_all add: example_gateway_def)

theorem with_gateway_refines_lifecycle_witness:
  "\<exists>new r w3. with_gateway example_gateway (\<lambda>g w. (Inr (), g, w)) (fresh_world found_control_plane) =
        Some (r, example_gateway\<lparr>gateway_id := JStr ''d5e1'', gateway_url := Some ''https://d5e1.apigw.net''\<rparr>, w3)
      \<and> trace w3 = trace (fresh_world found_control_plane) @ new
      \<and> spec_run UNINITIALIZED (ctl_trace example_gateway new) TERMINATED"
proof (rule with_gateway_refines_lifecycle)
  show "init_gateway example_gateway (fresh_world found_control_plane) =
     Some (Inr found_gateway_json, example_gateway\<lparr>gateway_id := JStr ''d5e1'', gateway_url := Some ''https://d5e1.apigw.net''\<rparr>,
           (fresh_world found_control_plane)\<lparr>sent := 1, trace := [Send (listing_request example_gateway JNull)]\<rparr>)"
    by (simp add: init_gateway_def split_def Let_def get_api_gateways_value get_api_gateways_world
        fresh_world_def found_control_plane_def found_gateway_json_def other_gateway_json_def
        gateways_value_def response_value_def dict_get_def example_gateway_def)
  show "(\<lambda>g w. (Inr (), g, w)) (example_gateway\<lparr>gateway_id := JStr ''d5e1'', gateway_url := Some ''https://d5e1.apigw.net''\<rparr>)
      ((fresh_world found_control_plane)\<lparr>sent := 1, trace := [Send (listing_request example_gateway JNull)]\<rparr>)
    = (Inr (), example_gateway\<lparr>gateway_id := JStr ''d5e1'', gateway_url := Some ''https://d5e1.apigw.net''\<rparr>,
       (fresh_world found_control_plane)\<lparr>sent := 1, trace := [Send (listing_request example_gateway JNull)]\<rparr>)"
    by simp
  show "trace ((fresh_world found_control_plane)\<lparr>sent := 1, trace := [Send (listing_request example_gateway JNull)]\<rparr>)
      = trace ((fresh_world found_control_plane)\<lparr>sent := 1, trace := [Send (listing_request example_gateway JNull)]\<rparr>) @ []"
    by simp
qed (simp_all add: example_gateway_def)

end
