(* ===== verification/Invariants.thy ===== *)
theory Invariants
  imports Lifecycle
begin

text \<open>
  Invariants of the \<open>YandexApiGateway\<close> object (src/src/api-gateway-proxy.py). The
  constructor fixes the service URL, the base URL, the host and the gateway name, and no later
  method assigns them again; \<open>gateway_url\<close> is only ever assigned
  \<open>f"https://{...}"\<close> (lines 94 and 111). \<open>gw_inv\<close> states these facts of an
  object; the constructor establishes it and every run of \<open>init_gateway\<close> preserves it,
  whatever the control plane answers. The typing facts of the constructed object (its host is
  a netloc without delimiters or control bytes, its gateway name has no dot and ends in
  \<open>-proxy\<close>) are proved here too, and so is the failure of the natural invariant
  "active implies a known URL": the poll loop sets \<open>gateway_is_active\<close> before it reads
  the domain (lines 110--111).
\<close>

definition gw_inv :: "gateway \<Rightarrow> bool" where
  "gw_inv g \<longleftrightarrow>
     service_url g = SERVICE_URL \<and> host_of (base_url g) = Inr (host g)
     \<and> gateway_name g = gateway_name_of (host g)
     \<and> (case gateway_url g of None \<Rightarrow> True | Some u \<Rightarrow> starts_with ''https://'' u)"

subsection \<open>Lemmas\<close>

lemma gw_inv_update [simp]:
  "gw_inv (g\<lparr>gateway_id := i\<rparr>) = gw_inv g"
  "gw_inv (g\<lparr>gateway_is_active := b\<rparr>) = gw_inv g"
  "gw_inv (g\<lparr>gateway_url := Some (''https://'' @ d)\<rparr>) = gw_inv (g\<lparr>gateway_url := None\<rparr>)"
  by (simp_all add: gw_inv_def starts_with_append)

lemma find_gateway_inv: "find_gateway g items = (x, g1) \<Longrightarrow> gw_inv g \<Longrightarrow> gw_inv g1"
  by (induction g items rule: find_gateway.induct)
    (auto simp: gw_inv_def starts_with_append split: sum.splits if_splits)

lemma poll_round_inv: "fst (poll_round g w) = Some (r, g', w') \<Longrightarrow> gw_inv g \<Longrightarrow> gw_inv g'"
  by (auto simp: poll_round_def split_def Let_def gw_inv_def starts_with_append split: sum.splits if_splits)

lemma poll_active_inv:
  assumes "poll_active g w = Some (r, g', w')" "gw_inv g"
  shows "gw_inv g'"
proof -
  have "gw_inv g \<longrightarrow> gw_inv (fst (snd (r, g', w')))"
  proof (rule poll_active.raw_induct [where P = "\<lambda>g w y. gw_inv g \<longrightarrow> gw_inv (fst (snd y))", OF _ assms(1)])
    fix f g w y
    assume IH: "\<And>g w y. f g w = Some y \<Longrightarrow> gw_inv g \<longrightarrow> gw_inv (fst (snd y))"
      and eq: "(case poll_round g w of (Some res, _) \<Rightarrow> Some res | (None, w2) \<Rightarrow> f g w2) = Some y"
    obtain x w2 where pr: "poll_round g w = (x, w2)" by fastforce
    show "gw_inv g \<longrightarrow> gw_inv (fst (snd y))"
    proof (cases x)
      case None
      with eq pr have "f g w2 = Some y" by simp
      then show ?thesis by (rule IH)
    next
      case (Some res)
      with eq pr have "fst (poll_round g w) = Some y" by simp
      then show ?thesis using poll_round_inv [of g w "fst y" "fst (snd y)" "snd (snd y)"] by simp
    qed
  qed
  with assms(2) show ?thesis by simp
qed

text \<open>The object \<open>init_gateway\<close> ends with is the one it started with, one the lookup
  loop produced, or one the poll loop produced from it with a new id.\<close>

lemma init_gateway_cases:
  assumes init: "init_gateway g w = Some (r, g', w')"
  obtains (same) "g' = g" | (found) items x where "find_gateway g items = (x, g')"
    | (polled) i w2 where "poll_active (g\<lparr>gateway_id := i\<rparr>) w2 = Some (r, g', w')"
proof -
  obtain lr w1 where gl: "get_api_gateways g JNull w = (lr, w1)" by fastforce
  show ?thesis
  proof (cases "\<exists>gl items. lr = Inr gl \<and> py_iter gl = Inr items")
    case False
    then have "g' = g" using init gl
      by (auto simp: init_gateway_def split: sum.splits)
    then show ?thesis by (rule same)
  next
    case True
    then obtain gl items where lr: "lr = Inr gl" and it: "py_iter gl = Inr items" by blast
    obtain x g1 where fg: "find_gateway g items = (x, g1)" by fastforce
    show ?thesis
    proof (cases "x = Inr None")
      case False
      then have "g' = g1"
        using init gl lr it fg by (auto simp: init_gateway_def split: sum.splits option.splits)
      then show ?thesis using found fg by simp
    next
      case True
      then have g1: "g1 = g" using find_gateway_fields [OF fg] by simp
      have "g' = g \<or> (\<exists>i w2. poll_active (g\<lparr>gateway_id := i\<rparr>) w2 = Some (r, g', w'))"
        using init gl lr it fg True g1
        by (auto simp: init_gateway_def split: sum.splits prod.splits)
      then show ?thesis using same polled by blast
    qed
  qed
qed

lemma set_split_scheme: "set (snd (split_scheme u)) \<subseteq> set u"
  by (auto simp: split_scheme_def split: option.splits dest: in_set_dropD)

lemma urlsplit_netloc:
  assumes "urlsplit u = Inr p"
  shows "\<forall>c\<in>set (netloc p). \<not> netloc_delim c \<and> \<not> unsafe_url_byte c"
proof -
  define u1 where "u1 = filter (\<lambda>c. \<not> unsafe_url_byte c) (py_lstrip c0_or_space u)"
  have s: "set (snd (split_scheme u1)) \<subseteq> set u1" by (rule set_split_scheme)
  have "netloc p = [] \<or> netloc p = takeWhile (\<lambda>c. \<not> netloc_delim c) (drop 2 (snd (split_scheme u1)))"
    using assms by (auto simp: urlsplit_def Let_def u1_def split_def split: if_splits sum.splits)
  moreover have "\<forall>c\<in>set (takeWhile (\<lambda>c. \<not> netloc_delim c) (drop 2 (snd (split_scheme u1)))).
      \<not> netloc_delim c \<and> \<not> unsafe_url_byte c"
    using s by (auto simp: u1_def dest: set_takeWhileD in_set_dropD)
  ultimately show ?thesis by auto
qed

lemma py_replace_dot: "CHR ''.'' \<notin> set (py_replace ''.'' ''-'' s)"
proof (induction s rule: length_induct)
  case (1 s)
  show ?case
  proof (cases s)
    case (Cons c cs)
    then show ?thesis using 1 by (auto simp: starts_with_iff)
  qed simp
qed

lemma host_of_netloc: "host_of b = Inr h \<Longrightarrow> \<exists>p. urlsplit b = Inr p \<and> h = netloc p"
  by (auto simp: host_of_def urlparse_def split: sum.splits prod.splits)

text \<open>C31: The constructor yields an object satisfying the invariant, with no id, no URL, not active, a host free of URL delimiters and control bytes, and a gateway name with no dot that ends in -proxy.\<close>

theorem gateway_init_typed:
  assumes "gateway_init iam fid u = Inr g"
  shows "gw_inv g \<and> gateway_id g = JNull \<and> gateway_url g = None \<and> \<not> gateway_is_active g
     \<and> list_all (\<lambda>c. \<not> netloc_delim c \<and> \<not> unsafe_url_byte c) (host g)
     \<and> CHR ''.'' \<notin> set (gateway_name g) \<and> ends_with ''-proxy'' (gateway_name g)"
proof -
  obtain h where h: "host_of (set_base_url u) = Inr h"
    and g: "g = \<lparr>service_url = SERVICE_URL, iam_token = iam, folder_id = fid, base_url = set_base_url u,
                  host = h, gateway_name = gateway_name_of h, gateway_id = JNull,
                  gateway_url = None, gateway_is_active = False\<rparr>"
    using assms by (auto simp: gateway_init_def Let_def split: sum.splits)
  obtain p where "urlsplit (set_base_url u) = Inr p" "h = netloc p"
    using host_of_netloc [OF h] by blast
  then have "\<forall>c\<in>set h. \<not> netloc_delim c \<and> \<not> unsafe_url_byte c"
    using urlsplit_netloc by blast
  moreover have "CHR ''.'' \<notin> set (gateway_name_of h)"
    using py_replace_dot [of h] by (simp add: gateway_name_of_def)
  moreover have "ends_with ''-proxy'' (gateway_name_of h)"
    by (simp add: gateway_name_of_def ends_with_append)
  ultimately show ?thesis using h by (simp add: g gw_inv_def list_all_iff)
qed

text \<open>C30: The object invariant (service URL fixed, host = netloc of the base URL, name derived from the host, gateway_url None or an https:// URL) is preserved by every terminating run of init_gateway, whatever the control plane answers or raises.\<close>

theorem init_gateway_preserves_inv:
  assumes "gw_inv g" "init_gateway g w = Some (r, g', w')"
  shows "gw_inv g'"
  using assms(2)
proof (cases rule: init_gateway_cases)
  case same
  then show ?thesis using assms(1) by simp
next
  case (found items x)
  then show ?thesis using assms(1) by (rule find_gateway_inv)
next
  case (polled i w2)
  moreover have "gw_inv (g\<lparr>gateway_id := i\<rparr>)" using assms(1) by simp
  ultimately show ?thesis by (rule poll_active_inv)
qed


theorem gateway_init_typed_witness:
  "gw_inv example_gateway \<and> gateway_id example_gateway = JNull \<and> gateway_url example_gateway = None
     \<and> \<not> gateway_is_active example_gateway
     \<and> list_all (\<lambda>c. \<not> netloc_delim c \<and> \<not> unsafe_url_byte c) (host example_gateway)
     \<and> CHR ''.'' \<notin> set (gateway_name example_gateway) \<and> ends_with ''-proxy'' (gateway_name example_gateway)"
proof (rule gateway_init_typed)
  show "gateway_init ''tok'' ''folder'' ''api.example.com'' = Inr example_gateway"
    unfolding example_gateway_def SERVICE_URL_def by code_simp
qed

theorem init_gateway_preserves_inv_witness:
  "gw_inv (example_gateway\<lparr>gateway_id := JStr ''d5e1'', gateway_url := Some ''https://d5e1.apigw.net''\<rparr>)"
proof (rule init_gateway_preserves_inv)
  show "gw_inv example_gateway" unfolding example_gateway_def SERVICE_URL_def gw_inv_def by code_simp
  show "init_gateway example_gateway (fresh_world found_control_plane) =
     Some (Inr found_gateway_json, example_gateway\<lparr>gateway_id := JStr ''d5e1'', gateway_url := Some ''https://d5e1.apigw.net''\<rparr>,
           (fresh_world found_control_plane)\<lparr>sent := 1, trace := [Send (listing_request example_gateway JNull)]\<rparr>)"
    by (simp add: init_gateway_def split_def Let_def get_api_gateways_value get_api_gateways_world
        fresh_world_def found_control_plane_def found_gateway_json_def other_gateway_json_def
        gateways_value_def response_value_def dict_get_def example_gateway_def)
qed

end
