(* ===== verification/Proxy.thy ===== *)
theory Proxy
  imports Gateway
begin

text \<open>
  \<open>YandexApiGateway.send\<close> (src/src/api-gateway-proxy.py, lines 60--68): the adapter
  method \<open>requests\<close> calls for every request of a session the object is mounted on. It
  keeps only the path of the request's URL, appends it to \<open>str(self.gateway_url)\<close>,
  rebuilds the request with \<open>requests.Request(...).prepare()\<close> and hands it to
  \<open>HTTPAdapter.send\<close>. The library steps it relies on are modelled as far as the
  claims need them: \<open>PreparedRequest.prepare_method\<close>, \<open>prepare_url\<close> (strip,
  the non-HTTP short cut, the scheme and host checks, the empty path made \<open>/\<close>,
  re-quoting), \<open>prepare_body\<close> and \<open>prepare_content_length\<close> for a \<open>str\<close> or
  \<open>bytes\<close> body; and \<open>HTTPAdapter.send\<close> with the object's default
  \<open>max_retries\<close> (no retry): a URL without an HTTP scheme or a host raises
  \<open>InvalidURL\<close> before any connection, otherwise one exchange with the world, whose
  response is returned whatever its status. Not modelled: header validation
  (\<open>check_header_validity\<close>), credentials in the URL (\<open>prepare_auth\<close>), IDNA
  encoding of non-ASCII hosts, and \<open>unquote_unreserved\<close>, which only rewrites
  percent-escapes of unreserved characters; headers are compared case-sensitively.
\<close>

subsection \<open>The library steps\<close>

text \<open>\<open>str.isspace\<close> on the code points below 256, and \<open>str.strip()\<close>.\<close>

definition py_isspace :: "char \<Rightarrow> bool" where
  "py_isspace c \<longleftrightarrow> (9 \<le> ord c \<and> ord c \<le> 13) \<or> (28 \<le> ord c \<and> ord c \<le> 32) \<or> ord c = 133 \<or> ord c = 160"

definition py_strip :: "(char \<Rightarrow> bool) \<Rightarrow> string \<Rightarrow> string" where
  "py_strip P s = py_rstrip P (py_lstrip P s)"

definition ascii_upper :: "char \<Rightarrow> char" where
  "ascii_upper c = (if 97 \<le> ord c \<and> ord c \<le> 122 then char_of (ord c - 32) else c)"

text \<open>\<open>str(self.gateway_url)\<close>: \<open>None\<close> prints as \<open>None\<close>.\<close>

definition str_opt :: "string option \<Rightarrow> string" where
  "str_opt x = (case x of None \<Rightarrow> ''None'' | Some s \<Rightarrow> s)"

text \<open>
  \<open>requote_uri\<close>: \<open>quote(uri, safe="!#$%&'()*+,/:;=?@[]~")\<close>, every other character
  but ASCII letters, digits and \<open>_.-~\<close> percent-encoded as its UTF-8 bytes in upper-case
  hex.
\<close>

definition uri_safe :: "char \<Rightarrow> bool" where
  "uri_safe c \<longleftrightarrow> is_ascii_alpha c \<or> is_ascii_digit c \<or>
     c \<in> set (''_.-~!#$%&()*+,/:;=?@[]'' @ [CHR 0x27])"

definition hex_upper :: "nat \<Rightarrow> char" where
  "hex_upper n = (if n < 10 then char_of (48 + n) else char_of (55 + n))"

definition pct_byte :: "nat \<Rightarrow> string" where
  "pct_byte b = [CHR ''%'', hex_upper (b div 16), hex_upper (b mod 16)]"

definition quote_char :: "char \<Rightarrow> string" where
  "quote_char c =
     (if uri_safe c then [c]
      else if ord c < 128 then pct_byte (ord c)
      else pct_byte (192 + ord c div 64) @ pct_byte (128 + ord c mod 64))"

definition requote_uri :: "string \<Rightarrow> string" where
  "requote_uri s = concat (map quote_char s)"

text \<open>
  \<open>PreparedRequest.prepare_url(url, None)\<close>: a URL with a colon that does not start with
  \<open>http\<close> is kept as it is; otherwise it is parsed, must have a scheme
  (\<open>MissingSchema\<close>) and a host (\<open>InvalidURL\<close>), and is rebuilt from its parts with
  the scheme and host in lower case and \<open>/\<close> for an empty path.
\<close>

definition prepare_url :: "string \<Rightarrow> string py_result" where
  "prepare_url url0 =
     (let url = py_strip py_isspace url0 in
      if CHR '':'' \<in> set url \<and> \<not> starts_with ''http'' (map ascii_lower url) then Inr url
      else (case urlsplit url of
              Inl _ \<Rightarrow> Inl InvalidURL
            | Inr p \<Rightarrow>
                if scheme p = [] then Inl MissingSchema
                else if netloc p = [] then Inl InvalidURL
                else Inr (requote_uri (scheme p @ ''://'' @ map ascii_lower (netloc p)
                           @ (if path p = [] then ''/'' else path p)
                           @ (if query p = [] then [] else CHR ''?'' # query p)
                           @ (if fragment p = [] then [] else CHR ''#'' # fragment p)))))"

text \<open>
  \<open>prepare_body(data, None)\<close> for a string body: an empty body is no body; then
  \<open>prepare_content_length\<close> sets \<open>Content-Length\<close> to the body's length, or to
  \<open>0\<close> for a body-less request whose method is neither GET nor HEAD and which has no
  \<open>Content-Length\<close> yet.
\<close>

definition prepare_body :: "string option \<Rightarrow> string option" where
  "prepare_body data = (case data of Some b \<Rightarrow> if b = [] then None else Some b | None \<Rightarrow> None)"

definition prepare_content_length ::
  "string \<Rightarrow> string option \<Rightarrow> (string, string) pydict \<Rightarrow> (string, string) pydict" where
  "prepare_content_length m body hs =
     (case body of
        Some b \<Rightarrow> dict_set hs ''Content-Length'' (int_str (int (length b)))
      | None \<Rightarrow>
          if m \<notin> {''GET'', ''HEAD''} \<and> dict_get hs ''Content-Length'' = None
          then dict_set hs ''Content-Length'' ''0'' else hs)"

text \<open>\<open>requests.Request(method, url, headers, data).prepare()\<close>.\<close>

definition prepare_request ::
  "string \<Rightarrow> string \<Rightarrow> (string, string) pydict \<Rightarrow> string option \<Rightarrow> http_request py_result" where
  "prepare_request m url hs data =
     (let m' = map ascii_upper m in
      case prepare_url url of
        Inl e \<Rightarrow> Inl e
      | Inr u \<Rightarrow>
          (let body = prepare_body data in
           Inr \<lparr>req_method = m', req_url = u, req_headers = prepare_content_length m' body hs,
                req_json = None, req_body = body\<rparr>))"

text \<open>
  \<open>HTTPAdapter.send\<close> with \<open>max_retries = 0\<close>: the connection pool is chosen from the
  URL's scheme and host, which raises \<open>InvalidURL\<close> for anything but an \<open>http\<close> or
  \<open>https\<close> URL with a host; then one exchange, whose response is returned as it is.
\<close>

definition adapter_send :: "http_request \<Rightarrow> world \<Rightarrow> http_response py_result \<times> world" where
  "adapter_send r w =
     (case urlsplit (req_url r) of
        Inl _ \<Rightarrow> (Inl InvalidURL, w)
      | Inr p \<Rightarrow>
          if scheme p \<in> {''http'', ''https''} \<and> netloc p \<noteq> [] then
            (case http_call r w of
               (NetworkError, w') \<Rightarrow> (Inl ConnectionError, w')
             | (Answered resp, w') \<Rightarrow> (Inr resp, w'))
          else (Inl InvalidURL, w))"

subsection \<open>send\<close>

definition gw_send :: "gateway \<Rightarrow> http_request \<Rightarrow> world \<Rightarrow> http_response py_result \<times> world" where
  "gw_send g request w =
     (case urlparse (req_url request) of
        Inl e \<Rightarrow> (Inl e, w)
      | Inr parsed_url \<Rightarrow>
          (let new_url = str_opt (gateway_url g) @ path parsed_url in
           case prepare_request (req_method request) new_url (req_headers request) (req_body request) of
             Inl e \<Rightarrow> (Inl e, w)
           | Inr new_request \<Rightarrow> adapter_send new_request w))"

subsection \<open>Shapes of URLs and requests\<close>

text \<open>A lower-case host of URL-safe characters; a path starting with \<open>/\<close> with no
  query or fragment delimiter; a request as \<open>requests\<close> prepares it (upper-case method,
  no empty body, a \<open>Content-Length\<close> that matches the body).\<close>

definition plain_host :: "string \<Rightarrow> bool" where
  "plain_host d \<longleftrightarrow> d \<noteq> [] \<and> host_chars d \<and> map ascii_lower d = d \<and> list_all uri_safe d"

definition plain_path :: "string \<Rightarrow> bool" where
  "plain_path q \<longleftrightarrow> q \<noteq> [] \<and> hd q = CHR ''/'' \<and>
     list_all (\<lambda>c. uri_safe c \<and> c \<noteq> CHR ''?'' \<and> c \<noteq> CHR ''#'') q"

definition prepared_request :: "http_request \<Rightarrow> bool" where
  "prepared_request r \<longleftrightarrow>
     map ascii_upper (req_method r) = req_method r \<and> req_body r \<noteq> Some [] \<and>
     (case req_body r of
        Some b \<Rightarrow> dict_get (req_headers r) ''Content-Length'' = Some (int_str (int (length b)))
      | None \<Rightarrow> req_method r \<in> {''GET'', ''HEAD''} \<or> dict_get (req_headers r) ''Content-Length'' \<noteq> None)"

subsection \<open>Examples\<close>

text \<open>The spec's example: an object whose gateway is \<open>https://gw.example.net\<close>, a GET of
  \<open>/foo/bar\<close>, and a server that answers every request with 200.\<close>

definition proxy_gateway :: gateway where
  "proxy_gateway = example_gateway\<lparr>gateway_id := JStr ''d5e1'', gateway_url := Some ''https://gw.example.net'',
     gateway_is_active := True\<rparr>"

definition spec_request :: http_request where
  "spec_request = \<lparr>req_method = ''GET'', req_url = ''https://api.example.com/foo/bar'',
     req_headers = [(''Accept'', ''*/*'')], req_json = None, req_body = None\<rparr>"

definition ok_server :: "nat \<Rightarrow> http_request \<Rightarrow> http_outcome" where
  "ok_server k r = Answered (Response 200 (Some (JDict [])))"

subsection \<open>Lemmas\<close>

lemma none_prefix_clean:
  "filter (\<lambda>c. \<not> unsafe_url_byte c) (py_lstrip c0_or_space (''None'' @ s))
     = ''None'' @ filter (\<lambda>c. \<not> unsafe_url_byte c) s"
  by (simp add: py_lstrip_def c0_or_space_def unsafe_url_byte_def ord_def)

lemma urlsplit_None_scheme:
  assumes "urlsplit (''None'' @ s) = Inr q"
  shows "scheme q \<notin> {''http'', ''https''}"
proof
  assume a: "scheme q \<in> {''http'', ''https''}"
  have "scheme q = fst (split_scheme (''None'' @ filter (\<lambda>c. \<not> unsafe_url_byte c) s))"
    using urlsplit_scheme [OF assms] unfolding none_prefix_clean .
  moreover from a have "scheme q \<noteq> []" by auto
  moreover have "ascii_lower CHR ''N'' = CHR ''n''" by code_simp
  ultimately have "hd (scheme q) = CHR ''n''"
    using split_scheme_hd by fastforce
  with a show False by auto
qed

lemma py_strip_None: "\<exists>s'. py_strip py_isspace (''None'' @ s) = ''None'' @ s'"
proof -
  have "py_lstrip py_isspace (''None'' @ s) = ''None'' @ s"
    by (simp add: py_lstrip_def py_isspace_def ord_def)
  moreover have "\<exists>s'. py_rstrip py_isspace (''None'' @ s) = ''None'' @ s'"
    by (rule py_rstrip_append_keep) (simp_all add: py_isspace_def ord_def)
  ultimately show ?thesis by (simp add: py_strip_def)
qed

lemma adapter_send_None: "req_url r = ''None'' @ s \<Longrightarrow> adapter_send r w = (Inl InvalidURL, w)"
proof (cases "urlsplit (''None'' @ s)")
  case (Inr q)
  moreover assume "req_url r = ''None'' @ s"
  ultimately show ?thesis
    using urlsplit_None_scheme [OF Inr] by (simp add: adapter_send_def)
qed (simp add: adapter_send_def)

lemma prepare_url_None:
  "prepare_url (''None'' @ s) \<in> {Inl MissingSchema, Inl InvalidURL} \<or> (\<exists>s'. prepare_url (''None'' @ s) = Inr (''None'' @ s'))"
proof -
  obtain s' where s': "py_strip py_isspace (''None'' @ s) = ''None'' @ s'"
    using py_strip_None by blast
  have nh: "\<not> starts_with ''http'' (map ascii_lower (''None'' @ s'))"
    by (simp add: ascii_lower_def ord_def)
  show ?thesis
  proof (cases "CHR '':'' \<in> set (''None'' @ s')")
    case True
    then show ?thesis using nh unfolding prepare_url_def Let_def s' by simp
  next
    case False
    then show ?thesis using nh unfolding prepare_url_def Let_def s'
      by (auto dest: urlsplit_no_colon_scheme split: sum.split)
  qed
qed

lemma uri_safe_not_space: "uri_safe c \<Longrightarrow> \<not> py_isspace c"
  by (auto simp: uri_safe_def py_isspace_def is_ascii_alpha_def is_ascii_digit_def ord_def)

lemma uri_safe_not_unsafe: "uri_safe c \<Longrightarrow> \<not> unsafe_url_byte c"
  by (auto simp: uri_safe_def unsafe_url_byte_def is_ascii_alpha_def is_ascii_digit_def ord_def)

lemma requote_uri_safe: "list_all uri_safe s \<Longrightarrow> requote_uri s = s"
  by (induction s) (simp_all add: requote_uri_def quote_char_def)

lemma split_tail_plain:
  "CHR ''#'' \<notin> set u \<Longrightarrow> CHR ''?'' \<notin> set u \<Longrightarrow>
   split_tail sch nl u = \<lparr>scheme = sch, netloc = nl, path = u, params = [], query = [], fragment = []\<rparr>"
  by (simp add: split_tail_def)

lemma prepared_request_fixed:
  assumes "prepared_request r"
  shows "prepare_body (req_body r) = req_body r"
    and "prepare_content_length (req_method r) (req_body r) (req_headers r) = req_headers r"
  using assms
  by (auto simp: prepared_request_def prepare_body_def prepare_content_length_def dict_set_get_same
      split: option.splits)

lemma urlsplit_gateway:
  assumes "plain_host d" "plain_path q"
  shows "urlsplit (''https://'' @ d @ q) = Inr \<lparr>scheme = ''https'', netloc = d, path = q, params = [], query = [], fragment = []\<rparr>"
proof -
  have r: "q = [] \<or> netloc_delim (hd q)" "\<forall>c\<in>set q. \<not> unsafe_url_byte c"
    using assms(2) by (auto simp: plain_path_def netloc_delim_def list_all_iff uri_safe_not_unsafe)
  have h: "host_chars d" using assms(1) by (simp add: plain_host_def)
  have l: "map ascii_lower ''https'' = ''https''" by code_simp
  have "urlsplit (''https'' @ ''://'' @ d @ q) = Inr (split_tail ''https'' d q)"
    using urlsplit_authority [OF valid_scheme_https h r] l by simp
  moreover have "CHR ''#'' \<notin> set q" "CHR ''?'' \<notin> set q"
    using assms(2) by (auto simp: plain_path_def list_all_iff)
  ultimately show ?thesis by (simp add: split_tail_plain)
qed

lemma prepare_url_gateway:
  assumes "plain_host d" "plain_path q"
  shows "prepare_url (''https://'' @ d @ q) = Inr (''https://'' @ d @ q)"
proof -
  have sq: "list_all uri_safe q" "q \<noteq> []"
    using assms(2) by (auto simp: plain_path_def list_all_iff)
  have sd: "list_all uri_safe d" "map ascii_lower d = d"
    using assms(1) by (simp_all add: plain_host_def)
  have "\<not> py_isspace (last q)"
    using sq by (simp add: list_all_iff uri_safe_not_space)
  then have "py_rstrip py_isspace ((''https://'' @ d @ q) @ []) = ''https://'' @ d @ q"
    by (intro py_rstrip_keep) (simp_all add: sq(2))
  then have st: "py_strip py_isspace (''https://'' @ d @ q) = ''https://'' @ d @ q"
    by (simp add: py_strip_def py_lstrip_def py_isspace_def ord_def)
  have hp: "starts_with ''http'' (map ascii_lower (''https://'' @ d @ q))"
    by (simp add: ascii_lower_def ord_def)
  have sf: "list_all uri_safe (''https://'' @ d @ q)"
    using sq sd by (simp add: uri_safe_def is_ascii_alpha_def ord_def)
  show ?thesis
    unfolding prepare_url_def Let_def st urlsplit_gateway [OF assms]
    using hp sd sf sq(2) assms(1) by (simp add: requote_uri_safe plain_host_def)
qed

lemma adapter_send_gateway:
  assumes "plain_host d" "plain_path q" "req_url r = ''https://'' @ d @ q"
  shows "adapter_send r w =
    (case server w (sent w) r of NetworkError \<Rightarrow> Inl ConnectionError | Answered resp \<Rightarrow> Inr resp,
     w\<lparr>sent := Suc (sent w), trace := trace w @ [Send r]\<rparr>)"
  using assms urlsplit_gateway [OF assms(1,2)]
  by (simp add: adapter_send_def http_call_def plain_host_def split: http_outcome.split)


text \<open>C11: Before the gateway URL is known, send raises (MissingSchema or InvalidURL, from the URL 'None/...') and sends nothing.\<close>

theorem send_before_init:
  assumes "gateway_url g = None"
  shows "snd (gw_send g request w) = w \<and> isl (fst (gw_send g request w))"
proof (cases "urlparse (req_url request)")
  case (Inl e)
  then show ?thesis by (simp add: gw_send_def)
next
  case (Inr p)
  have u: "str_opt (gateway_url g) @ path p = ''None'' @ path p"
    using assms by (simp add: str_opt_def)
  from prepare_url_None [of "path p"] show ?thesis
    by (auto simp: gw_send_def Inr u prepare_request_def Let_def adapter_send_None)
qed



theorem send_before_init_witness:
  "snd (gw_send example_gateway spec_request (fresh_world ok_server)) = fresh_world ok_server
   \<and> isl (fst (gw_send example_gateway spec_request (fresh_world ok_server)))"
proof (rule send_before_init)
  show "gateway_url example_gateway = None" by (simp add: example_gateway_def)
qed

end
