(* ===== verification/Retry.thy ===== *)
theory Retry
  imports Prelude
begin

text \<open>
  The retrying transport of src/main.py: the module constants (lines 8--15) and
  \<open>CustomHTTPAdapter.__init__\<close> (lines 18--38), which builds a urllib3 \<open>Retry\<close> and
  stores it as the adapter's \<open>max_retries\<close>, and the module script (lines 41--47), which
  mounts the adapter on a session and sends one GET through it. What the adapter does with
  the policy is urllib3's: \<open>Retry.increment\<close>, \<open>Retry.is_exhausted\<close>,
  \<open>Retry.is_retry\<close>, \<open>Retry.get_backoff_time\<close> and the retry recursion of
  \<open>HTTPConnectionPool.urlopen\<close> (urllib3 2.x), modelled here because every claim about
  the policy is a claim about them. An attempt ends in a connection failure, a read failure or
  a response with a status; the transport world gives the outcome of the \<open>k\<close>-th attempt
  and records the attempts made and the back-off sleeps, in milliseconds (the factor 0.5 s is
  500 ms). The recursion of \<open>urlopen\<close> has no bound of its own, so it is a
  \<^theory_text>\<open>partial_function (option)\<close>. Not modelled: \<open>total=False\<close> and
  \<open>connect=False\<close> (the adapter's parameters are integers or \<open>None\<close>), redirects
  (requests calls \<open>urlopen\<close> with \<open>redirect=False\<close>), \<open>Retry-After\<close> headers (the
  modelled responses carry none), jitter (0 by default), and the proxy map, which the
  adapter stores and never reads.
\<close>

subsection \<open>The retry policy\<close>

datatype attempt = ConnectFail | ReadFail | Status int

text \<open>\<open>MaxRetryError\<close> with the last attempt as its reason, or the attempt's own error
  re-raised.\<close>

datatype retry_error = MaxRetry attempt | Reraise attempt

record retry =
  total :: "int option"
  connect :: "int option"
  read :: "int option"
  redirect :: "int option"
  status :: "int option"
  other :: "int option"
  allowed_methods :: "string list"
  status_forcelist :: "int list"
  backoff_factor :: nat
  backoff_max :: nat
  raise_on_status :: bool
  history :: "attempt list"

definition DEFAULT_ALLOWED_METHODS :: "string list" where
  "DEFAULT_ALLOWED_METHODS = [''DELETE'', ''GET'', ''HEAD'', ''OPTIONS'', ''PUT'', ''TRACE'']"

text \<open>\<open>Retry(total, connect, read, backoff_factor, status_forcelist)\<close>, every other
  argument at its default (\<open>backoff_max\<close> is 120 s).\<close>

definition Retry :: "int option \<Rightarrow> int option \<Rightarrow> int option \<Rightarrow> nat \<Rightarrow> int list option \<Rightarrow> retry" where
  "Retry t c r b sf =
     \<lparr>total = t, connect = c, read = r, redirect = None, status = None, other = None,
      allowed_methods = DEFAULT_ALLOWED_METHODS,
      status_forcelist = (case sf of None \<Rightarrow> [] | Some l \<Rightarrow> l),
      backoff_factor = b, backoff_max = 120000, raise_on_status = True, history = []\<rparr>"

text \<open>\<open>is_exhausted\<close>: the counters that are set and non-zero; exhausted when one of them
  is negative (\<open>min(retry_counts) < 0\<close>).\<close>

definition is_exhausted :: "retry \<Rightarrow> bool" where
  "is_exhausted r =
     (let counts = filter (\<lambda>x. x \<noteq> 0)
                     (List.map_filter id [total r, connect r, read r, redirect r, status r, other r])
      in counts \<noteq> [] \<and> fold min (tl counts) (hd counts) < 0)"

definition is_method_retryable :: "retry \<Rightarrow> string \<Rightarrow> bool" where
  "is_method_retryable r m \<longleftrightarrow> \<not> (allowed_methods r \<noteq> [] \<and> m \<notin> set (allowed_methods r))"

text \<open>\<open>is_retry(method, status_code, has_retry_after=False)\<close>.\<close>

definition is_retry :: "retry \<Rightarrow> string \<Rightarrow> int \<Rightarrow> bool" where
  "is_retry r m s \<longleftrightarrow> is_method_retryable r m \<and> status_forcelist r \<noteq> [] \<and> s \<in> set (status_forcelist r)"

definition decr :: "int option \<Rightarrow> int option" where
  "decr x = map_option (\<lambda>n. n - 1) x"

text \<open>\<open>increment\<close>: one unit off \<open>total\<close> and off the counter of the failure's kind; a
  read failure of a method that may not be retried is re-raised; the attempt is appended
  to the history; an exhausted result raises \<open>MaxRetryError\<close>.\<close>

definition increment :: "retry \<Rightarrow> string \<Rightarrow> attempt \<Rightarrow> retry_error + retry" where
  "increment r m a =
     (let step = (case a of
                    ConnectFail \<Rightarrow> Inr (r\<lparr>total := decr (total r), connect := decr (connect r)\<rparr>)
                  | ReadFail \<Rightarrow>
                      if \<not> is_method_retryable r m then Inl (Reraise ReadFail)
                      else Inr (r\<lparr>total := decr (total r), read := decr (read r)\<rparr>)
                  | Status s \<Rightarrow> Inr (r\<lparr>total := decr (total r), status := decr (status r)\<rparr>))
      in case step of
           Inl e \<Rightarrow> Inl e
         | Inr r' \<Rightarrow>
             (let r'' = r'\<lparr>history := history r @ [a]\<rparr> in
              if is_exhausted r'' then Inl (MaxRetry a) else Inr r''))"

text \<open>\<open>get_backoff_time\<close>: nothing for the first consecutive error, then
  \<open>backoff_factor * 2 ** (n - 1)\<close> for the \<open>n\<close>-th, at most \<open>backoff_max\<close>.\<close>

definition backoff_for :: "nat \<Rightarrow> nat \<Rightarrow> nat \<Rightarrow> nat" where
  "backoff_for f mx n = (if n \<le> 1 then 0 else min mx (f * 2 ^ (n - 1)))"

definition get_backoff_time :: "retry \<Rightarrow> nat" where
  "get_backoff_time r = backoff_for (backoff_factor r) (backoff_max r) (length (history r))"

text \<open>The back-off sleeps of \<open>n\<close> consecutive errors after \<open>h\<close> earlier ones:
  the zero back-offs are skipped.\<close>

definition backoff_sleeps :: "nat \<Rightarrow> nat \<Rightarrow> nat \<Rightarrow> nat \<Rightarrow> nat list" where
  "backoff_sleeps f mx h n = filter (\<lambda>b. b \<noteq> 0) (map (\<lambda>i. backoff_for f mx (h + i)) [1..<Suc n])"

text \<open>The retry states a request can carry: the initial one and whatever a successful
  \<open>increment\<close> makes of a reachable one.\<close>

inductive retry_reach :: "retry \<Rightarrow> string \<Rightarrow> retry \<Rightarrow> bool" for r0 m where
  reach_start: "retry_reach r0 m r0"
| reach_step: "retry_reach r0 m r \<Longrightarrow> increment r m a = Inr r' \<Longrightarrow> retry_reach r0 m r'"

subsection \<open>The transport\<close>

record tworld =
  attempts :: nat
  sleeps :: "nat list"
  outcome :: "nat \<Rightarrow> attempt"
  bodies :: "nat \<Rightarrow> string"
  stdout :: "string list"

text \<open>\<open>Retry.sleep()\<close>: \<open>_sleep_backoff\<close> sleeps only for a positive back-off.\<close>

definition retry_sleep :: "retry \<Rightarrow> tworld \<Rightarrow> tworld" where
  "retry_sleep r w = (let b = get_backoff_time r in if b = 0 then w else w\<lparr>sleeps := sleeps w @ [b]\<rparr>)"

text \<open>
  \<open>urlopen(method, url, retries=r)\<close>: one attempt; a failure is counted and retried
  after the back-off; a response whose status is to be retried is counted and retried,
  or, when the count is exhausted, raises (\<open>raise_on_status\<close>) or is returned; any other
  response is returned.
\<close>

partial_function (option) urlopen :: "retry \<Rightarrow> string \<Rightarrow> tworld \<Rightarrow> ((retry_error + int) \<times> tworld) option" where
  "urlopen r m w =
     (let a = outcome w (attempts w);
          w1 = w\<lparr>attempts := Suc (attempts w)\<rparr>
      in case a of
           Status s \<Rightarrow>
             if is_retry r m s then
               (case increment r m a of
                  Inl e \<Rightarrow> Some (if raise_on_status r then Inl e else Inr s, w1)
                | Inr r' \<Rightarrow> urlopen r' m (retry_sleep r' w1))
             else Some (Inr s, w1)
         | _ \<Rightarrow>
             (case increment r m a of
                Inl e \<Rightarrow> Some (Inl e, w1)
              | Inr r' \<Rightarrow> urlopen r' m (retry_sleep r' w1)))"

declare urlopen.simps [code]

subsection \<open>src/main.py\<close>

definition TIMEOUT_CONNECT :: nat where "TIMEOUT_CONNECT = 5"
definition TIMEOUT_READ :: nat where "TIMEOUT_READ = 10"
definition TOTAL_RETRIES :: int where "TOTAL_RETRIES = 5"
definition CONNECT_RETRIES :: int where "CONNECT_RETRIES = 3"
definition READ_RETRIES :: int where "READ_RETRIES = 2"
definition BACKOFF_FACTOR :: nat where "BACKOFF_FACTOR = 500"
definition STATUS_FORCELIST :: "int list" where "STATUS_FORCELIST = [500, 502, 503, 504]"
definition PROXIES :: "(string, string) pydict option" where "PROXIES = None"

text \<open>The adapter's attributes. \<open>super().__init__()\<close> is never called, so the
  attributes \<open>HTTPAdapter.__init__\<close> would set (\<open>config\<close>, the pool sizes) do not
  exist; \<open>poolmanager\<close> is a default \<open>PoolManager()\<close>.\<close>

record custom_adapter =
  ad_retry :: retry
  ad_proxies :: "(string, string) pydict option"
  ad_max_retries :: retry

definition CustomHTTPAdapter ::
  "int option \<Rightarrow> int \<Rightarrow> int \<Rightarrow> nat \<Rightarrow> int list option \<Rightarrow> (string, string) pydict option \<Rightarrow> custom_adapter" where
  "CustomHTTPAdapter total_retries connect_retries read_retries backoff forcelist proxies =
     (let retry = Retry total_retries (Some connect_retries) (Some read_retries) backoff forcelist
      in \<lparr>ad_retry = retry, ad_proxies = proxies, ad_max_retries = retry\<rparr>)"

definition default_adapter :: custom_adapter where
  "default_adapter = CustomHTTPAdapter (Some TOTAL_RETRIES) CONNECT_RETRIES READ_RETRIES BACKOFF_FACTOR
     (Some STATUS_FORCELIST) PROXIES"

text \<open>Lines 41--47: the session sends \<open>GET https://httpbin.org/headers\<close> through the
  adapter mounted for \<open>https://\<close>, which passes its \<open>max_retries\<close> to \<open>urlopen\<close>.\<close>

definition main_script :: "tworld \<Rightarrow> ((retry_error + int) \<times> tworld) option" where
  "main_script w = urlopen (ad_max_retries default_adapter) ''GET'' w"

text \<open>Line 47: \<open>print(r.text)\<close> writes the text of the response \<open>urlopen\<close> returned,
  the one of the last attempt. An error of the retry loop propagates out of the module and
  nothing is printed.\<close>

definition run_script :: "tworld \<Rightarrow> ((retry_error + unit) \<times> tworld) option" where
  "run_script w =
     (case main_script w of
        None \<Rightarrow> None
      | Some (Inl e, w') \<Rightarrow> Some (Inl e, w')
      | Some (Inr s, w') \<Rightarrow> Some (Inr (), w'\<lparr>stdout := stdout w' @ [bodies w' (attempts w' - 1)]\<rparr>))"

text \<open>Lines 50--57: two classes whose constructors only \<open>pass\<close>; their objects carry no
  state and are never used.\<close>

datatype gateway_manager_stub = YandexApiGatewayManager

datatype main_gateway_stub = MainYandexApiGateway

definition YandexApiGatewayManager_init :: gateway_manager_stub where
  "YandexApiGatewayManager_init = YandexApiGatewayManager"

definition MainYandexApiGateway_init :: "string \<Rightarrow> 'a option \<Rightarrow> 'b option \<Rightarrow> main_gateway_stub" where
  "MainYandexApiGateway_init base_url authorization authorization_type = MainYandexApiGateway"

text \<open>A transport world in which nothing has happened yet.\<close>

definition fresh_tworld :: "(nat \<Rightarrow> attempt) \<Rightarrow> tworld" where
  "fresh_tworld f = \<lparr>attempts = 0, sleeps = [], outcome = f, bodies = (\<lambda>k. []), stdout = []\<rparr>"

text \<open>A server that is busy for three attempts and then answers.\<close>

definition httpbin_world :: tworld where
  "httpbin_world = (fresh_tworld (\<lambda>k. if k < 3 then Status 503 else Status 200))
     \<lparr>bodies := (\<lambda>k. if k < 3 then ''busy'' else ''headers'')\<rparr>"

subsection \<open>Lemmas\<close>


lemma set_map_filter_id: "x \<in> set (List.map_filter id xs) \<longleftrightarrow> Some x \<in> set xs"
  by (induction xs) (auto split: option.splits)

lemma fold_min_Min: "xs \<noteq> [] \<Longrightarrow> fold min (tl xs) (hd xs) = Min (set xs)"
proof (cases xs)
  case (Cons a l)
  then show ?thesis using Min.set_eq_fold [of a l] by simp
qed simp

lemma is_exhausted_iff:
  "is_exhausted r \<longleftrightarrow>
     (\<exists>x\<in>set [total r, connect r, read r, redirect r, status r, other r].
        case x of None \<Rightarrow> False | Some v \<Rightarrow> v < 0)"
proof -
  define cs where "cs = filter (\<lambda>x. x \<noteq> (0::int)) (List.map_filter id [total r, connect r, read r, redirect r, status r, other r])"
  have e: "is_exhausted r \<longleftrightarrow> cs \<noteq> [] \<and> fold min (tl cs) (hd cs) < 0"
    by (simp only: is_exhausted_def Let_def cs_def)
  have "(cs \<noteq> [] \<and> fold min (tl cs) (hd cs) < 0) \<longleftrightarrow> (cs \<noteq> [] \<and> Min (set cs) < 0)"
    using fold_min_Min [of cs] by auto
  moreover have "(cs \<noteq> [] \<and> Min (set cs) < 0) \<longleftrightarrow> (\<exists>v\<in>set cs. v < 0)"
    by (cases "cs = []") (auto simp: Min_less_iff)
  moreover have "(\<exists>v\<in>set cs. v < 0) \<longleftrightarrow>
      (\<exists>x\<in>set [total r, connect r, read r, redirect r, status r, other r].
        case x of None \<Rightarrow> False | Some v \<Rightarrow> v < 0)"
    unfolding cs_def set_filter set_map_filter_id by (auto split: option.splits)
  ultimately show ?thesis
    using e by simp
qed

lemma increment_Inr:
  "increment r m a = Inr r' \<Longrightarrow> total r' = decr (total r) \<and> \<not> is_exhausted r'"
  by (auto simp: increment_def Let_def split: attempt.splits if_splits)

lemma exhausted_total: "total r = Some v \<Longrightarrow> v < 0 \<Longrightarrow> is_exhausted r"
  by (auto simp: is_exhausted_iff)

lemma retry_sleep_attempts [simp]: "attempts (retry_sleep r w) = attempts w"
  by (simp add: retry_sleep_def Let_def)

lemma retry_sleep_outcome [simp]: "outcome (retry_sleep r w) = outcome w"
  by (simp add: retry_sleep_def Let_def)

theorem urlopen_bounded:
  assumes "total r = Some t" "0 \<le> t"
  shows "\<exists>res w'. urlopen r m w = Some (res, w') \<and> attempts w' \<le> attempts w + nat t + 1"
  using assms
proof (induction "nat t" arbitrary: r w t)
  case 0
  then have t: "t = 0" by simp
  have nx: "increment r m a = Inr r' \<Longrightarrow> False" for a r'
    using increment_Inr [of r m a r'] exhausted_total [of r' "-1"] 0(2) t by (simp add: decr_def)
  show ?case
    by (subst urlopen.simps) (auto simp: Let_def t split: attempt.split sum.split dest: nx)
next
  case (Suc n)
  have step: "\<exists>res w'. urlopen r' m (retry_sleep r' (w\<lparr>attempts := Suc (attempts w)\<rparr>)) = Some (res, w')
      \<and> attempts w' \<le> attempts w + nat t + 1" if inc: "increment r m a = Inr r'" for a r'
  proof -
    have "total r' = Some (t - 1)" using increment_Inr [OF inc] Suc.prems(1) by (simp add: decr_def)
    moreover have "n = nat (t - 1)" "0 \<le> t - 1" using Suc.hyps(2) by linarith+
    ultimately obtain res w' where "urlopen r' m (retry_sleep r' (w\<lparr>attempts := Suc (attempts w)\<rparr>)) = Some (res, w')"
        "attempts w' \<le> Suc (attempts w) + nat (t - 1) + 1"
      using Suc.hyps(1) [of "t - 1" r'] by fastforce
    moreover have "Suc (attempts w) + nat (t - 1) + 1 = attempts w + nat t + 1"
      using Suc.hyps(2) by linarith
    ultimately show ?thesis by auto
  qed
  show ?case
    by (subst urlopen.simps) (auto simp: Let_def split: attempt.split sum.split dest: step)
qed


lemma is_retry_history [simp]: "is_retry (r\<lparr>total := x, history := h\<rparr>) m s = is_retry r m s"
  by (simp add: is_retry_def is_method_retryable_def)

lemma increment_status_unbounded:
  assumes "total r = None" "status r = None" "\<not> is_exhausted r"
  shows "increment r m (Status s) = Inr (r\<lparr>history := history r @ [Status s]\<rparr>)"
proof -
  have "r\<lparr>total := decr (total r), status := decr (status r), history := history r @ [Status s]\<rparr>
      = r\<lparr>history := history r @ [Status s]\<rparr>"
    using assms(1,2) by (simp add: decr_def)
  moreover have "\<not> is_exhausted (r\<lparr>history := history r @ [Status s]\<rparr>)"
    using assms(3) by (simp add: is_exhausted_iff)
  ultimately show ?thesis by (simp add: increment_def Let_def)
qed

theorem urlopen_diverges:
  assumes "total r = None" "status r = None" "\<not> is_exhausted r" "is_retry r m s"
    and "\<forall>k\<ge>attempts w. outcome w k = Status s"
  shows "urlopen r m w = None"
proof (rule ccontr)
  assume "urlopen r m w \<noteq> None"
  then obtain x where x: "urlopen r m w = Some x" by blast
  let ?P = "\<lambda>r m w x. total r = None \<and> status r = None \<and> \<not> is_exhausted r \<and> is_retry r m s
              \<and> (\<forall>k\<ge>attempts w. outcome w k = Status s) \<longrightarrow> False"
  have "?P r m w x"
  proof (rule urlopen.raw_induct [where P = ?P, OF _ x])
    fix f r m w y
    assume IH: "\<And>r m w y. f r m w = Some y \<Longrightarrow> ?P r m w y"
      and eq: "(let a = outcome w (attempts w); w1 = w\<lparr>attempts := Suc (attempts w)\<rparr>
          in case a of
               Status s \<Rightarrow>
                 if is_retry r m s then
                   (case increment r m a of
                      Inl e \<Rightarrow> Some (if raise_on_status r then Inl e else Inr s, w1)
                    | Inr r' \<Rightarrow> f r' m (retry_sleep r' w1))
                 else Some (Inr s, w1)
             | _ \<Rightarrow>
                 (case increment r m a of
                    Inl e \<Rightarrow> Some (Inl e, w1)
                  | Inr r' \<Rightarrow> f r' m (retry_sleep r' w1))) = Some y"
    show "?P r m w y"
    proof
      assume inv: "total r = None \<and> status r = None \<and> \<not> is_exhausted r \<and> is_retry r m s
              \<and> (\<forall>k\<ge>attempts w. outcome w k = Status s)"
      let ?r' = "r\<lparr>history := history r @ [Status s]\<rparr>"
      let ?w' = "retry_sleep ?r' (w\<lparr>attempts := Suc (attempts w)\<rparr>)"
      have "outcome w (attempts w) = Status s" using inv by simp
      with eq inv have "f ?r' m ?w' = Some y"
        by (simp add: Let_def increment_status_unbounded)
      moreover have "total ?r' = None \<and> status ?r' = None \<and> \<not> is_exhausted ?r' \<and> is_retry ?r' m s
              \<and> (\<forall>k\<ge>attempts ?w'. outcome ?w' k = Status s)"
        using inv by (simp add: is_exhausted_iff is_retry_def is_method_retryable_def)
      ultimately show False using IH by blast
    qed
  qed
  with assms show False by blast
qed


lemma backoff_sleeps_Suc:
  "backoff_sleeps f mx h (Suc n) =
     (if backoff_for f mx (Suc h) = 0 then [] else [backoff_for f mx (Suc h)]) @ backoff_sleeps f mx (Suc h) n"
proof -
  have "[1..<Suc (Suc n)] = 1 # map Suc [1..<Suc n]"
    by (simp add: map_Suc_upt upt_conv_Cons)
  then show ?thesis by (simp add: backoff_sleeps_def comp_def)
qed

lemma increment_status_step:
  assumes "total r = Some t" "1 \<le> t" "status r = None" "\<not> is_exhausted r"
  shows "increment r m (Status s) = Inr (r\<lparr>total := Some (t - 1), history := history r @ [Status s]\<rparr>)"
proof -
  have "r\<lparr>total := decr (total r), status := decr (status r), history := history r @ [Status s]\<rparr>
      = r\<lparr>total := Some (t - 1), history := history r @ [Status s]\<rparr>"
    using assms(1,3) by (simp add: decr_def)
  moreover have "\<not> is_exhausted (r\<lparr>total := Some (t - 1), history := history r @ [Status s]\<rparr>)"
    using assms(1,2,4) by (auto simp: is_exhausted_iff)
  ultimately show ?thesis by (simp add: increment_def Let_def)
qed

lemma urlopen_status_run:
  assumes "\<forall>j<length ss. outcome w (attempts w + j) = Status (ss ! j)" "\<forall>s\<in>set ss. is_retry r m s"
    "total r = Some t" "int (length ss) \<le> t" "status r = None" "\<not> is_exhausted r"
  shows "urlopen r m w =
     urlopen (r\<lparr>total := Some (t - int (length ss)), history := history r @ map Status ss\<rparr>) m
       (w\<lparr>attempts := attempts w + length ss,
          sleeps := sleeps w @ backoff_sleeps (backoff_factor r) (backoff_max r) (length (history r)) (length ss)\<rparr>)"
  using assms
proof (induction ss arbitrary: r w t)
  case Nil
  then have "r\<lparr>total := Some t\<rparr> = r" by (cases r) simp
  then show ?case by (simp add: backoff_sleeps_def)
next
  case (Cons s ss)
  let ?r1 = "r\<lparr>total := Some (t - 1), history := history r @ [Status s]\<rparr>"
  let ?w1 = "retry_sleep ?r1 (w\<lparr>attempts := Suc (attempts w)\<rparr>)"
  have o: "outcome w (attempts w) = Status s" using Cons.prems(1) by fastforce
  have inc: "increment r m (Status s) = Inr ?r1"
    using Cons.prems(3-6) by (intro increment_status_step) auto
  have u: "urlopen r m w = urlopen ?r1 m ?w1"
    using o inc Cons.prems(2) by (subst urlopen.simps) (simp add: Let_def)
  have "urlopen ?r1 m ?w1 =
     urlopen (?r1\<lparr>total := Some (t - 1 - int (length ss)), history := history ?r1 @ map Status ss\<rparr>) m
       (?w1\<lparr>attempts := attempts ?w1 + length ss,
          sleeps := sleeps ?w1 @ backoff_sleeps (backoff_factor ?r1) (backoff_max ?r1) (length (history ?r1)) (length ss)\<rparr>)"
  proof (rule Cons.IH)
    show "\<forall>j<length ss. outcome ?w1 (attempts ?w1 + j) = Status (ss ! j)"
      using Cons.prems(1) by auto
    show "\<forall>s\<in>set ss. is_retry ?r1 m s" using Cons.prems(2) by simp
    show "int (length ss) \<le> t - 1" using Cons.prems(4) by simp
    show "\<not> is_exhausted ?r1" using Cons.prems(3-6) by (auto simp: is_exhausted_iff)
  qed (use Cons.prems in simp_all)
  then show ?case
    by (simp add: u backoff_sleeps_Suc retry_sleep_def get_backoff_time_def Let_def algebra_simps)
qed


lemma urlopen_final_status:
  "outcome w (attempts w) = Status s \<Longrightarrow> \<not> is_retry r m s \<Longrightarrow>
   urlopen r m w = Some (Inr s, w\<lparr>attempts := Suc (attempts w)\<rparr>)"
  by (subst urlopen.simps) (simp add: Let_def)

lemma urlopen_exhausted_status:
  assumes "outcome w (attempts w) = Status s" "is_retry r m s" "total r = Some 0" "raise_on_status r"
  shows "urlopen r m w = Some (Inl (MaxRetry (Status s)), w\<lparr>attempts := Suc (attempts w)\<rparr>)"
proof -
  have "is_exhausted (r\<lparr>total := decr (total r), status := decr (status r), history := history r @ [Status s]\<rparr>)"
    using assms(3) by (intro exhausted_total [of _ "-1"]) (simp_all add: decr_def)
  then have "increment r m (Status s) = Inl (MaxRetry (Status s))"
    by (simp add: increment_def Let_def)
  with assms show ?thesis by (subst urlopen.simps) (simp add: Let_def)
qed

lemma default_retry:
  "ad_max_retries default_adapter = Retry (Some 5) (Some 3) (Some 2) 500 (Some [500, 502, 503, 504])"
  by (simp add: default_adapter_def CustomHTTPAdapter_def TOTAL_RETRIES_def CONNECT_RETRIES_def
      READ_RETRIES_def BACKOFF_FACTOR_def STATUS_FORCELIST_def PROXIES_def Let_def)

lemma default_retry_GET: "is_retry (Retry t c rd b (Some fl)) ''GET'' s \<longleftrightarrow> s \<in> set fl"
  by (auto simp: is_retry_def is_method_retryable_def Retry_def DEFAULT_ALLOWED_METHODS_def)

lemma backoff_default: "n \<le> 5 \<Longrightarrow> backoff_sleeps 500 120000 0 n = map (\<lambda>j. 500 * 2 ^ j) [1..<n]"
proof -
  assume "n \<le> 5"
  then have "n = 0 \<or> n = 1 \<or> n = 2 \<or> n = 3 \<or> n = 4 \<or> n = 5" by auto
  then show ?thesis by (elim disjE) (simp_all add: backoff_sleeps_def backoff_for_def upt_rec)
qed

lemma main_script_status_run:
  assumes n: "length ss \<le> 5" and f: "\<forall>s\<in>set ss. s \<in> set STATUS_FORCELIST"
    and o: "\<forall>j<length ss. outcome w (attempts w + j) = Status (ss ! j)"
    and last: "outcome w (attempts w + length ss) = Status s" "s \<notin> set STATUS_FORCELIST"
  shows "main_script w = Some (Inr s, w\<lparr>attempts := attempts w + length ss + 1,
                                     sleeps := sleeps w @ map (\<lambda>j. 500 * 2 ^ j) [1..<length ss]\<rparr>)"
proof -
  let ?r = "Retry (Some 5) (Some 3) (Some 2) 500 (Some [500, 502, 503, 504])"
  have run: "urlopen ?r ''GET'' w =
     urlopen (?r\<lparr>total := Some (5 - int (length ss)), history := history ?r @ map Status ss\<rparr>) ''GET''
       (w\<lparr>attempts := attempts w + length ss,
          sleeps := sleeps w @ backoff_sleeps (backoff_factor ?r) (backoff_max ?r) (length (history ?r)) (length ss)\<rparr>)"
    using o f n by (intro urlopen_status_run) (auto simp: default_retry_GET STATUS_FORCELIST_def,
        auto simp: Retry_def is_exhausted_iff)
  let ?r1 = "?r\<lparr>total := Some (5 - int (length ss)), history := history ?r @ map Status ss\<rparr>"
  let ?w1 = "w\<lparr>attempts := attempts w + length ss,
          sleeps := sleeps w @ backoff_sleeps (backoff_factor ?r) (backoff_max ?r) (length (history ?r)) (length ss)\<rparr>"
  have fin: "urlopen ?r1 ''GET'' ?w1 = Some (Inr s, ?w1\<lparr>attempts := Suc (attempts ?w1)\<rparr>)"
  proof (rule urlopen_final_status)
    show "outcome ?w1 (attempts ?w1) = Status s" using last(1) by simp
    show "\<not> is_retry ?r1 ''GET'' s"
      using last(2) by (simp add: is_retry_def Retry_def STATUS_FORCELIST_def)
  qed
  have "main_script w = Some (Inr s, ?w1\<lparr>attempts := Suc (attempts ?w1)\<rparr>)"
    unfolding main_script_def default_retry run fin ..
  moreover have "backoff_sleeps (backoff_factor ?r) (backoff_max ?r) (length (history ?r)) (length ss)
      = map (\<lambda>j. 500 * 2 ^ j) [1..<length ss]"
    using n by (simp add: Retry_def backoff_default)
  ultimately show ?thesis by simp
qed

lemma main_script_exhausts:
  assumes n: "length ss = 5" and f: "\<forall>s\<in>set ss. s \<in> set STATUS_FORCELIST"
    and o: "\<forall>j<length ss. outcome w (attempts w + j) = Status (ss ! j)"
    and last: "outcome w (attempts w + 5) = Status s" "s \<in> set STATUS_FORCELIST"
  shows "main_script w = Some (Inl (MaxRetry (Status s)),
           w\<lparr>attempts := attempts w + 6, sleeps := sleeps w @ [1000, 2000, 4000, 8000]\<rparr>)"
proof -
  let ?r = "Retry (Some 5) (Some 3) (Some 2) 500 (Some [500, 502, 503, 504])"
  let ?r1 = "?r\<lparr>total := Some (5 - int (length ss)), history := history ?r @ map Status ss\<rparr>"
  let ?w1 = "w\<lparr>attempts := attempts w + length ss,
          sleeps := sleeps w @ backoff_sleeps (backoff_factor ?r) (backoff_max ?r) (length (history ?r)) (length ss)\<rparr>"
  have run: "urlopen ?r ''GET'' w = urlopen ?r1 ''GET'' ?w1"
    using o f n by (intro urlopen_status_run) (auto simp: default_retry_GET STATUS_FORCELIST_def,
        auto simp: Retry_def is_exhausted_iff)
  have fin: "urlopen ?r1 ''GET'' ?w1 = Some (Inl (MaxRetry (Status s)), ?w1\<lparr>attempts := Suc (attempts ?w1)\<rparr>)"
  proof (rule urlopen_exhausted_status)
    show "outcome ?w1 (attempts ?w1) = Status s" using last(1) n by simp
    show "is_retry ?r1 ''GET'' s"
      using last(2) by (simp add: is_retry_def is_method_retryable_def Retry_def STATUS_FORCELIST_def
          DEFAULT_ALLOWED_METHODS_def)
    show "retry.total ?r1 = Some 0" using n by simp
    show "raise_on_status ?r1" by (simp add: Retry_def)
  qed
  have "main_script w = Some (Inl (MaxRetry (Status s)), ?w1\<lparr>attempts := Suc (attempts ?w1)\<rparr>)"
    unfolding main_script_def default_retry run fin ..
  moreover have "backoff_sleeps (backoff_factor ?r) (backoff_max ?r) (length (history ?r)) (length ss)
      = [1000, 2000, 4000, 8000]"
    using n by (simp add: Retry_def backoff_sleeps_def backoff_for_def upt_rec)
  ultimately show ?thesis using n by simp
qed

text \<open>C13: Through the default adapter, a GET that meets n <= 5 retryable statuses (500, 502, 503, 504) and then another status returns that response after n+1 attempts, sleeping 1 s, 2 s, 4 s, ... between retries (no sleep before the first retry).\<close>

theorem default_adapter_status_retries:
  assumes n: "length ss \<le> 5" and f: "\<forall>s\<in>set ss. s \<in> set STATUS_FORCELIST"
    and o: "\<forall>j<length ss. outcome w (attempts w + j) = Status (ss ! j)"
    and last: "outcome w (attempts w + length ss) = Status s" "s \<notin> set STATUS_FORCELIST"
  shows "main_script w = Some (Inr s, w\<lparr>attempts := attempts w + length ss + 1,
                                     sleeps := sleeps w @ map (\<lambda>j. 500 * 2 ^ j) [1..<length ss]\<rparr>)"
  by (rule main_script_status_run [OF assms])


text \<open>C14: Through the default adapter, six consecutive retryable statuses make the GET raise MaxRetryError after exactly six attempts (TOTAL_RETRIES + 1), with sleeps of 1, 2, 4 and 8 s.\<close>

theorem default_adapter_exhausts:
  assumes n: "length ss = 5" and f: "\<forall>s\<in>set ss. s \<in> set STATUS_FORCELIST"
    and o: "\<forall>j<length ss. outcome w (attempts w + j) = Status (ss ! j)"
    and last: "outcome w (attempts w + 5) = Status s" "s \<in> set STATUS_FORCELIST"
  shows "main_script w = Some (Inl (MaxRetry (Status s)),
           w\<lparr>attempts := attempts w + 6, sleeps := sleeps w @ [1000, 2000, 4000, 8000]\<rparr>)"
  by (rule main_script_exhausts [OF assms])

text \<open>C15: For any non-negative total_retries t, a request through a CustomHTTPAdapter always returns or raises, after at most t+1 attempts, whatever the server does.\<close>

theorem adapter_total_bound:
  assumes "0 \<le> t"
  shows "\<exists>res w'. urlopen (ad_max_retries (CustomHTTPAdapter (Some t) c rd b fl p)) m w = Some (res, w')
            \<and> attempts w' \<le> attempts w + nat t + 1"
  using assms by (intro urlopen_bounded) (simp_all add: CustomHTTPAdapter_def Retry_def Let_def)

text \<open>C16: With total_retries=None (allowed by the signature), a GET against a server that keeps answering a status of the forcelist never returns: neither total nor status bounds the retries.\<close>

theorem adapter_unbounded_status_retries:
  assumes "0 \<le> c" "0 \<le> rd" "s \<in> set fl" "m \<in> set DEFAULT_ALLOWED_METHODS"
    and "\<forall>k\<ge>attempts w. outcome w k = Status s"
  shows "urlopen (ad_max_retries (CustomHTTPAdapter None c rd b (Some fl) p)) m w = None"
proof (rule urlopen_diverges)
  show "\<not> is_exhausted (ad_max_retries (CustomHTTPAdapter None c rd b (Some fl) p))"
    using assms(1,2) by (auto simp: is_exhausted_iff CustomHTTPAdapter_def Retry_def Let_def)
  show "is_retry (ad_max_retries (CustomHTTPAdapter None c rd b (Some fl) p)) m s"
    using assms(3,4) by (auto simp: is_retry_def is_method_retryable_def CustomHTTPAdapter_def Retry_def Let_def)
qed (use assms in \<open>simp_all add: CustomHTTPAdapter_def Retry_def Let_def\<close>)


lemmas urlopen_eval = Let_def increment_def Retry_def is_exhausted_iff decr_def retry_sleep_def
  get_backoff_time_def backoff_for_def fresh_tworld_def is_retry_def is_method_retryable_def DEFAULT_ALLOWED_METHODS_def



theorem default_adapter_status_retries_witness:
  "main_script (fresh_tworld (\<lambda>k. if k < 3 then Status 503 else Status 200)) =
     Some (Inr 200, (fresh_tworld (\<lambda>k. if k < 3 then Status 503 else Status 200))\<lparr>
       attempts := attempts (fresh_tworld (\<lambda>k. if k < 3 then Status 503 else Status 200)) + length [503, 503, 503::int] + 1,
       sleeps := sleeps (fresh_tworld (\<lambda>k. if k < 3 then Status 503 else Status 200)) @
                 map (\<lambda>j. 500 * 2 ^ j) [1..<length [503, 503, 503::int]]\<rparr>)"
proof (rule default_adapter_status_retries)
  show "length [503, 503, 503 :: int] \<le> 5" by simp
  show "\<forall>s\<in>set [503, 503, 503]. s \<in> set STATUS_FORCELIST" by (simp add: STATUS_FORCELIST_def)
  show "\<forall>j<length [503, 503, 503]. outcome (fresh_tworld (\<lambda>k. if k < 3 then Status 503 else Status 200))
      (attempts (fresh_tworld (\<lambda>k. if k < 3 then Status 503 else Status 200)) + j) = Status ([503, 503, 503] ! j)"
    by (auto simp: fresh_tworld_def nth_Cons split: nat.split)
  show "outcome (fresh_tworld (\<lambda>k. if k < 3 then Status 503 else Status 200))
      (attempts (fresh_tworld (\<lambda>k. if k < 3 then Status 503 else Status 200)) + length [503, 503, 503]) = Status 200"
    by (simp add: fresh_tworld_def)
  show "(200::int) \<notin> set STATUS_FORCELIST" by (simp add: STATUS_FORCELIST_def)
qed

theorem default_adapter_exhausts_witness:
  "main_script (fresh_tworld (\<lambda>k. Status 503)) = Some (Inl (MaxRetry (Status 503)),
     (fresh_tworld (\<lambda>k. Status 503))\<lparr>attempts := attempts (fresh_tworld (\<lambda>k. Status 503)) + 6,
        sleeps := sleeps (fresh_tworld (\<lambda>k. Status 503)) @ [1000, 2000, 4000, 8000]\<rparr>)"
proof (rule default_adapter_exhausts [of "[503, 503, 503, 503, 503]"])
  show "length [503, 503, 503, 503, 503 :: int] = 5" by simp
  show "\<forall>s\<in>set [503, 503, 503, 503, 503]. s \<in> set STATUS_FORCELIST" by (simp add: STATUS_FORCELIST_def)
  show "\<forall>j<length [503, 503, 503, 503, 503]. outcome (fresh_tworld (\<lambda>k. Status 503))
      (attempts (fresh_tworld (\<lambda>k. Status 503)) + j) = Status ([503, 503, 503, 503, 503] ! j)"
    by (auto simp: fresh_tworld_def nth_Cons split: nat.split)
  show "outcome (fresh_tworld (\<lambda>k. Status 503)) (attempts (fresh_tworld (\<lambda>k. Status 503)) + 5) = Status 503"
    by (simp add: fresh_tworld_def)
  show "(503::int) \<in> set STATUS_FORCELIST" by (simp add: STATUS_FORCELIST_def)
qed

theorem adapter_total_bound_witness:
  "\<exists>res w'. urlopen (ad_max_retries (CustomHTTPAdapter (Some 5) 3 2 500 (Some STATUS_FORCELIST) None)) ''GET''
      (fresh_tworld (\<lambda>k. Status 503)) = Some (res, w')
    \<and> attempts w' \<le> attempts (fresh_tworld (\<lambda>k. Status 503)) + nat 5 + 1"
  by (rule adapter_total_bound) simp

theorem adapter_unbounded_status_retries_witness:
  "urlopen (ad_max_retries (CustomHTTPAdapter None 3 2 500 (Some STATUS_FORCELIST) None)) ''GET''
     (fresh_tworld (\<lambda>k. Status 503)) = None"
  by (rule adapter_unbounded_status_retries)
    (simp_all add: STATUS_FORCELIST_def DEFAULT_ALLOWED_METHODS_def fresh_tworld_def)

lemma increment_history: "increment r m a = Inr r' \<Longrightarrow> history r' = history r @ [a]"
  by (auto simp: increment_def Let_def split: attempt.splits if_splits)

text \<open>C32: For a CustomHTTPAdapter with non-negative retry counts, every retry state reachable by successful increments has total = total_retries minus the retries so far, no negative counter, and at most total_retries entries of history.\<close>

theorem adapter_retry_states:
  assumes "0 \<le> t" "0 \<le> c" "0 \<le> rd"
    and "retry_reach (ad_max_retries (CustomHTTPAdapter (Some t) c rd b fl p)) m r"
  shows "total r = Some (t - int (length (history r))) \<and> \<not> is_exhausted r \<and> length (history r) \<le> nat t"
  using assms(4)
proof (induction rule: retry_reach.induct)
  case reach_start
  then show ?case
    using assms(1-3) by (auto simp: CustomHTTPAdapter_def Retry_def Let_def is_exhausted_iff)
next
  case (reach_step r a r')
  have t': "total r' = Some (t - int (length (history r')))"
    using reach_step.IH increment_Inr [OF reach_step.hyps(2)] increment_history [OF reach_step.hyps(2)]
    by (simp add: decr_def)
  moreover have ne: "\<not> is_exhausted r'" using increment_Inr [OF reach_step.hyps(2)] by simp
  moreover have "0 \<le> t - int (length (history r'))"
    using ne t' by (auto simp: is_exhausted_iff)
  ultimately show ?case by simp
qed

theorem adapter_retry_states_witness:
  "retry.total ((Retry (Some 5) (Some 3) (Some 2) 500 (Some STATUS_FORCELIST))\<lparr>total := Some 4, connect := Some 2, history := [ConnectFail]\<rparr>)
      = Some (5 - int (length (history ((Retry (Some 5) (Some 3) (Some 2) 500 (Some STATUS_FORCELIST))\<lparr>total := Some 4, connect := Some 2, history := [ConnectFail]\<rparr>))))
   \<and> \<not> is_exhausted ((Retry (Some 5) (Some 3) (Some 2) 500 (Some STATUS_FORCELIST))\<lparr>total := Some 4, connect := Some 2, history := [ConnectFail]\<rparr>)
   \<and> length (history ((Retry (Some 5) (Some 3) (Some 2) 500 (Some STATUS_FORCELIST))\<lparr>total := Some 4, connect := Some 2, history := [ConnectFail]\<rparr>)) \<le> nat 5"
proof (rule adapter_retry_states [of 5 3 2 500 "Some STATUS_FORCELIST" None "''GET''"])
  have r0: "ad_max_retries (CustomHTTPAdapter (Some 5) 3 2 500 (Some STATUS_FORCELIST) None)
      = Retry (Some 5) (Some 3) (Some 2) 500 (Some STATUS_FORCELIST)"
    by (simp add: CustomHTTPAdapter_def Let_def)
  have "increment (Retry (Some 5) (Some 3) (Some 2) 500 (Some STATUS_FORCELIST)) ''GET'' ConnectFail
      = Inr ((Retry (Some 5) (Some 3) (Some 2) 500 (Some STATUS_FORCELIST))\<lparr>total := Some 4, connect := Some 2, history := [ConnectFail]\<rparr>)"
    by (simp add: urlopen_eval)
  then show "retry_reach (ad_max_retries (CustomHTTPAdapter (Some 5) 3 2 500 (Some STATUS_FORCELIST) None)) ''GET''
      ((Retry (Some 5) (Some 3) (Some 2) 500 (Some STATUS_FORCELIST))\<lparr>total := Some 4, connect := Some 2, history := [ConnectFail]\<rparr>)"
    unfolding r0 by (rule reach_step [OF reach_start])
qed simp_all

text \<open>C36: Through the default adapter, when n <= 5 retryable statuses are followed by another status, the module prints exactly one line, the text of that final response (not of a retried one), after the same attempts and sleeps.\<close>

theorem script_prints_final_body:
  assumes "length ss \<le> 5" "\<forall>s\<in>set ss. s \<in> set STATUS_FORCELIST"
    and "\<forall>j<length ss. outcome w (attempts w + j) = Status (ss ! j)"
    and "outcome w (attempts w + length ss) = Status s" "s \<notin> set STATUS_FORCELIST"
  shows "run_script w = Some (Inr (), w\<lparr>attempts := attempts w + length ss + 1,
           sleeps := sleeps w @ map (\<lambda>j. 500 * 2 ^ j) [1..<length ss],
           stdout := stdout w @ [bodies w (attempts w + length ss)]\<rparr>)"
  using main_script_status_run [OF assms] by (simp add: run_script_def)

text \<open>C37: Through the default adapter, when the retries are exhausted by six retryable statuses, MaxRetryError propagates out of the module and nothing is printed.\<close>

theorem script_exhausted_prints_nothing:
  assumes "length ss = 5" "\<forall>s\<in>set ss. s \<in> set STATUS_FORCELIST"
    and "\<forall>j<length ss. outcome w (attempts w + j) = Status (ss ! j)"
    and "outcome w (attempts w + 5) = Status s" "s \<in> set STATUS_FORCELIST"
  shows "run_script w = Some (Inl (MaxRetry (Status s)),
           w\<lparr>attempts := attempts w + 6, sleeps := sleeps w @ [1000, 2000, 4000, 8000]\<rparr>)
         \<and> stdout (snd (the (run_script w))) = stdout w"
  using main_script_exhausts [OF assms] by (simp add: run_script_def)

theorem script_prints_final_body_witness:
  "run_script httpbin_world = Some (Inr (), httpbin_world\<lparr>attempts := attempts httpbin_world + length [503, 503, 503::int] + 1,
     sleeps := sleeps httpbin_world @ map (\<lambda>j. 500 * 2 ^ j) [1..<length [503, 503, 503::int]],
     stdout := stdout httpbin_world @ [bodies httpbin_world (attempts httpbin_world + length [503, 503, 503::int])]\<rparr>)"
proof (rule script_prints_final_body)
  show "length [503, 503, 503 :: int] \<le> 5" by simp
  show "\<forall>s\<in>set [503, 503, 503]. s \<in> set STATUS_FORCELIST" by (simp add: STATUS_FORCELIST_def)
  show "\<forall>j<length [503, 503, 503]. outcome httpbin_world (attempts httpbin_world + j) = Status ([503, 503, 503] ! j)"
    by (auto simp: httpbin_world_def fresh_tworld_def nth_Cons split: nat.split)
  show "outcome httpbin_world (attempts httpbin_world + length [503, 503, 503]) = Status 200"
    by (simp add: httpbin_world_def fresh_tworld_def)
qed (simp add: STATUS_FORCELIST_def)

theorem script_exhausted_prints_nothing_witness:
  "run_script (fresh_tworld (\<lambda>k. Status 503)) = Some (Inl (MaxRetry (Status 503)),
     (fresh_tworld (\<lambda>k. Status 503))\<lparr>attempts := attempts (fresh_tworld (\<lambda>k. Status 503)) + 6,
        sleeps := sleeps (fresh_tworld (\<lambda>k. Status 503)) @ [1000, 2000, 4000, 8000]\<rparr>)
   \<and> stdout (snd (the (run_script (fresh_tworld (\<lambda>k. Status 503))))) = stdout (fresh_tworld (\<lambda>k. Status 503))"
proof (rule script_exhausted_prints_nothing [of "[503, 503, 503, 503, 503]"])
  show "\<forall>s\<in>set [503, 503, 503, 503, 503]. s \<in> set STATUS_FORCELIST" by (simp add: STATUS_FORCELIST_def)
  show "\<forall>j<length [503, 503, 503, 503, 503]. outcome (fresh_tworld (\<lambda>k. Status 503))
      (attempts (fresh_tworld (\<lambda>k. Status 503)) + j) = Status ([503, 503, 503, 503, 503] ! j)"
    by (auto simp: fresh_tworld_def nth_Cons split: nat.split)
qed (simp_all add: STATUS_FORCELIST_def fresh_tworld_def)

end
